theory Spec2Isabelle
  imports Complex_Main "HOL-Library.Word"
begin

section \<open>Common conventions\<close>

text \<open>
  The development embeds the recording core of the meeting bot
  (\<^verbatim>\<open>src/recording/ScreenRecorder.ts\<close>) and the transcription word poster.
  JavaScript numbers are modelled by \<^typ>\<open>real\<close>: the arithmetic of the source is
  read exactly, without rounding and without NaN. Promises are run to completion in
  program order; a rejected promise and a thrown exception are both the value \<open>Inl e\<close>.
  \<open>UnhandledError e\<close> is what \<^verbatim>\<open>EventEmitter.emit\<close> throws for an \<^verbatim>\<open>error\<close> event with
  the value \<open>e\<close> when no listener is registered for it (the value itself when it is an
  \<^verbatim>\<open>Error\<close> object, and a wrapper of it otherwise).
\<close>

datatype join_error_code = BotRemovedTooEarly

datatype js_error =
    JoinError join_error_code
  | FFmpegFailed "int option"
  | FFprobeFailed "int option"
  | SpawnError
  | ENOENT string
  | RangeError
  | External string
  | UnhandledError js_error

section \<open>The words poster\<close>










section \<open>Live fan-out of the float stream\<close>

type_synonym byte = "8 word"

text \<open>
  A Node \<^verbatim>\<open>Buffer\<close> is a view of \<open>blength\<close> bytes at \<open>byteOffset\<close> into an
  \<^verbatim>\<open>ArrayBuffer\<close>. A 32-bit float sample is kept as the four bytes it occupies, in
  memory order.
\<close>

record node_buffer =
  buffer :: "byte list"
  byteOffset :: nat
  blength :: nat

definition wf_buffer :: "node_buffer \<Rightarrow> bool" where
  "wf_buffer d = (byteOffset d + blength d \<le> length (buffer d))"

definition chunk_bytes :: "node_buffer \<Rightarrow> byte list" where
  "chunk_bytes d = take (blength d) (drop (byteOffset d) (buffer d))"

datatype f32 = F32 byte byte byte byte

fun f32_bytes :: "f32 \<Rightarrow> byte list" where
  "f32_bytes (F32 a b c d) = [a, b, c, d]"

text \<open>\<^verbatim>\<open>ToIndex\<close> of a non-negative number truncates it.\<close>

definition toIndex :: "real \<Rightarrow> nat" where
  "toIndex x = nat \<lfloor>x\<rfloor>"

text \<open>
  \<^verbatim>\<open>new Float32Array(buffer, byteOffset, length)\<close>: a \<^verbatim>\<open>RangeError\<close> when the offset is
  not a multiple of the element size or the view leaves the buffer.
\<close>

definition Float32Array :: "byte list \<Rightarrow> nat \<Rightarrow> real \<Rightarrow> js_error + f32 list" where
  "Float32Array buf off len =
     (let n = toIndex len in
      if off mod 4 \<noteq> 0 then Inl RangeError
      else if off + 4 * n > length buf then Inl RangeError
      else Inr (map (\<lambda>i. F32 (buf ! (off + 4 * i)) (buf ! (off + 4 * i + 1))
                             (buf ! (off + 4 * i + 2)) (buf ! (off + 4 * i + 3))) [0..<n]))"

text \<open>
  The handler of \<^verbatim>\<open>stdout\<close> data. The sink (\<^verbatim>\<open>Streaming.instance\<close>) is \<open>None\<close> when
  absent, and otherwise holds the frames handed to \<^verbatim>\<open>processAudioChunk\<close> so far.
\<close>

definition onStdoutData ::
  "node_buffer \<Rightarrow> f32 list list option \<Rightarrow> (js_error + unit) \<times> f32 list list option" where
  "onStdoutData d sink =
     (case sink of
        None \<Rightarrow> (Inr (), None)
      | Some frames \<Rightarrow>
          (case Float32Array (buffer d) (byteOffset d) (real (blength d) / 4) of
             Inl e \<Rightarrow> (Inl e, Some frames)
           | Inr float32Array \<Rightarrow> (Inr (), Some (frames @ [float32Array]))))"

section \<open>The screen recorder: state and collaborators\<close>

definition FLASH_SCREEN_SLEEP_TIME :: real where
  "FLASH_SCREEN_SLEEP_TIME = 6000"

definition TRANSCRIPTION_CHUNK_DURATION :: real where
  "TRANSCRIPTION_CHUNK_DURATION = 3600"

text \<open>\<^verbatim>\<open>AUDIO_SAMPLE_RATE.toString()\<close> and \<^verbatim>\<open>AUDIO_BITRATE\<close>.\<close>

definition AUDIO_SAMPLE_RATE :: string where
  "AUDIO_SAMPLE_RATE = ''44100''"

definition AUDIO_BITRATE :: string where
  "AUDIO_BITRATE = ''192k''"

datatype recording_mode = AudioOnly | SpeakerView

record sync_result =
  offsetSeconds :: real
  videoTimestamp :: real
  audioTimestamp :: real

datatype event = Started | Stopped | ErrorEvent js_error

datatype signal = SIGINT | SIGKILL

text \<open>Console output is recorded for the messages below only.\<close>

datatype log_msg =
    RecordingSuccessful
  | RecordingFailed "int option"
  | NativeRecordingCompleted
  | UploadCompleted
  | UploadFailed js_error
  | ProcessingError js_error
  | ChunkNotFound string
  | ChunkEmpty string
  | ChunkUploadFailed string js_error

text \<open>What the recorder does to the outside, in order.\<close>

datatype action =
    Emit event
  | Log log_msg
  | RunFFmpeg "string list"
  | RunFFprobe "string list"
  | CalculateVideoOffset string string
  | UploadFile string string string bool
  | Kill signal
  | SetTimeout nat

text \<open>How a child process ends: the \<^verbatim>\<open>close\<close> event with its code, or the \<^verbatim>\<open>error\<close> event.\<close>

datatype proc_end = Close "int option" | ProcError

type_synonym fsys = "(string \<times> string) list"

text \<open>
  The collaborators of the recorder: the configuration (\<^verbatim>\<open>GLOBAL\<close>), the path manager,
  the conversions of the language, the clock, the media tools, the offset calculation and
  the uploader. An external tool is a function of its argument vector: within one run
  no two invocations share one. \<open>date_now env k\<close> is the \<open>k\<close>-th reading of the clock.
\<close>

record env =
  recording_mode :: recording_mode
  speech_to_text_provider :: bool
  bot_uuid :: string
  aws_s3_temporary_audio_bucket :: string
  aws_s3_video_bucket :: string
  isServerless :: bool
  uploaderPresent :: bool
  tempPath :: string
  audioTmpPath :: string
  pm_identifier :: string
  numStr :: "real \<Rightarrow> string"
  parseFloat :: "string \<Rightarrow> real"
  path_resolve :: "string \<Rightarrow> string"
  date_now :: "nat \<Rightarrow> real"
  ffmpeg_exit :: "string list \<Rightarrow> proc_end"
  ffmpeg_files :: "string list \<Rightarrow> fsys \<Rightarrow> fsys"
  ffprobe_run :: "string list \<Rightarrow> proc_end \<times> string"
  offsetCalc :: "string \<Rightarrow> string \<Rightarrow> js_error + sync_result"
  s3_upload :: "string \<Rightarrow> string \<Rightarrow> string \<Rightarrow> js_error option"

record process =
  killed :: bool

text \<open>
  The fields of \<^verbatim>\<open>ScreenRecorder\<close>, whether the \<^verbatim>\<open>once('stopped')\<close> listener of
  \<^verbatim>\<open>stopRecording\<close> is registered, whether the owner of the recorder has registered a
  listener for its \<^verbatim>\<open>error\<close> events (the recorder registers none itself), the files and
  directories on disk, the number of clock readings made, and the actions so far.
\<close>

record recorder =
  ffmpegProcess :: "process option"
  outputPath :: string
  audioOutputPath :: string
  isRecording :: bool
  filesUploaded :: bool
  recordingStartTime :: real
  meetingStartTime :: real
  gracePeriodActive :: bool
  stoppedListener :: bool
  errorListener :: bool
  files :: fsys
  dirs :: "string list"
  ticks :: nat
  trace :: "action list"

section \<open>Sequencing, exceptions, state\<close>

type_synonym 'a prog = "recorder \<Rightarrow> (js_error + 'a) \<times> recorder"

definition ret :: "'a \<Rightarrow> 'a prog" where
  "ret x = (\<lambda>s. (Inr x, s))"

definition raise :: "js_error \<Rightarrow> 'a prog" where
  "raise e = (\<lambda>s. (Inl e, s))"

definition bnd :: "'a prog \<Rightarrow> ('a \<Rightarrow> 'b prog) \<Rightarrow> 'b prog" where
  "bnd m f = (\<lambda>s. case m s of (Inl e, s') \<Rightarrow> (Inl e, s') | (Inr x, s') \<Rightarrow> f x s')"

definition try_catch :: "'a prog \<Rightarrow> (js_error \<Rightarrow> 'a prog) \<Rightarrow> 'a prog" where
  "try_catch m h = (\<lambda>s. case m s of (Inl e, s') \<Rightarrow> h e s' | (Inr x, s') \<Rightarrow> (Inr x, s'))"

definition getS :: "(recorder \<Rightarrow> 'a) \<Rightarrow> 'a prog" where
  "getS f = (\<lambda>s. (Inr (f s), s))"

definition modify :: "(recorder \<Rightarrow> recorder) \<Rightarrow> unit prog" where
  "modify f = (\<lambda>s. (Inr (), f s))"

definition act :: "action \<Rightarrow> unit prog" where
  "act a = modify (\<lambda>s. s\<lparr>trace := trace s @ [a]\<rparr>)"

section \<open>Strings, paths and the file system\<close>

definition pjoin :: "string \<Rightarrow> string \<Rightarrow> string" where
  "pjoin dir name = dir @ ''/'' @ name"

definition startsWith :: "string \<Rightarrow> string \<Rightarrow> bool" where
  "startsWith s p = (take (length p) s = p)"

definition endsWith :: "string \<Rightarrow> string \<Rightarrow> bool" where
  "endsWith s p = (length p \<le> length s \<and> drop (length s - length p) s = p)"

definition isSpace :: "char \<Rightarrow> bool" where
  "isSpace c = (c \<in> set [CHR '' '', CHR 0x09, CHR 0x0A, CHR 0x0B, CHR 0x0C, CHR 0x0D])"

definition trim :: "string \<Rightarrow> string" where
  "trim s = rev (dropWhile isSpace (rev (dropWhile isSpace s)))"

definition fs_remove :: "string \<Rightarrow> fsys \<Rightarrow> fsys" where
  "fs_remove p fs = filter (\<lambda>(q, c). q \<noteq> p) fs"

definition fs_write :: "string \<Rightarrow> string \<Rightarrow> fsys \<Rightarrow> fsys" where
  "fs_write p c fs = (p, c) # fs_remove p fs"

text \<open>The names directly inside a directory.\<close>

definition entry_of :: "string \<Rightarrow> string \<Rightarrow> string list" where
  "entry_of dir p =
     (let pre = dir @ ''/''; name = drop (length pre) p
      in if startsWith p pre \<and> name \<noteq> [] \<and> CHR ''/'' \<notin> set name then [name] else [])"

definition entries :: "string \<Rightarrow> fsys \<Rightarrow> string list" where
  "entries dir fs = remdups (concat (map (\<lambda>(p, c). entry_of dir p) fs))"

text \<open>The directory a path lies in: the path up to its last separator.\<close>

definition dirname :: "string \<Rightarrow> string" where
  "dirname p = rev (drop 1 (dropWhile (\<lambda>c. c \<noteq> CHR ''/'') (rev p)))"

definition exists_in :: "recorder \<Rightarrow> string \<Rightarrow> bool" where
  "exists_in s p = (map_of (files s) p \<noteq> None \<or> p \<in> set (dirs s))"

definition existsSync :: "string \<Rightarrow> bool prog" where
  "existsSync p = getS (\<lambda>s. exists_in s p)"

text \<open>
  Writing a file needs the directory it goes into: \<^verbatim>\<open>copyFileSync\<close> fails on a missing
  source and on a missing directory of the destination, \<^verbatim>\<open>writeFileSync\<close> on a missing
  directory.
\<close>

definition copyFileSync :: "string \<Rightarrow> string \<Rightarrow> unit prog" where
  "copyFileSync src dst =
     bnd (getS (\<lambda>s. map_of (files s) src)) (\<lambda>content.
       case content of
         None \<Rightarrow> raise (ENOENT src)
       | Some c \<Rightarrow>
           bnd (getS (\<lambda>s. dirname dst \<in> set (dirs s))) (\<lambda>dirPresent.
             if dirPresent then modify (\<lambda>s. s\<lparr>files := fs_write dst c (files s)\<rparr>)
             else raise (ENOENT dst)))"

definition unlinkSync :: "string \<Rightarrow> unit prog" where
  "unlinkSync p =
     bnd (getS (\<lambda>s. map_of (files s) p)) (\<lambda>content.
       case content of
         None \<Rightarrow> raise (ENOENT p)
       | Some c \<Rightarrow> modify (\<lambda>s. s\<lparr>files := fs_remove p (files s)\<rparr>))"

definition writeFileSync :: "string \<Rightarrow> string \<Rightarrow> unit prog" where
  "writeFileSync p c =
     bnd (getS (\<lambda>s. dirname p \<in> set (dirs s))) (\<lambda>dirPresent.
       if dirPresent then modify (\<lambda>s. s\<lparr>files := fs_write p c (files s)\<rparr>)
       else raise (ENOENT p))"

text \<open>\<^verbatim>\<open>fs.mkdirSync(p, { recursive: true })\<close>: the directory is there afterwards.\<close>

definition mkdirSync :: "string \<Rightarrow> unit prog" where
  "mkdirSync p = modify (\<lambda>s. s\<lparr>dirs := p # dirs s\<rparr>)"

definition readdirSync :: "string \<Rightarrow> string list prog" where
  "readdirSync dir =
     bnd (getS (\<lambda>s. dir \<in> set (dirs s))) (\<lambda>present.
       if present then getS (\<lambda>s. entries dir (files s)) else raise (ENOENT dir))"

text \<open>\<^verbatim>\<open>fs.statSync(p).size\<close>.\<close>

definition statSync_size :: "string \<Rightarrow> nat prog" where
  "statSync_size p =
     bnd (getS (\<lambda>s. map_of (files s) p)) (\<lambda>content.
       case content of
         None \<Rightarrow> raise (ENOENT p)
       | Some c \<Rightarrow> ret (length c))"

definition dateNow :: "env \<Rightarrow> real prog" where
  "dateNow env =
     bnd (getS ticks) (\<lambda>k.
     bnd (modify (\<lambda>s. s\<lparr>ticks := Suc k\<rparr>)) (\<lambda>_. ret (date_now env k)))"

section \<open>The media tool runner\<close>

definition runFFmpeg :: "env \<Rightarrow> string list \<Rightarrow> unit prog" where
  "runFFmpeg env args =
     bnd (act (RunFFmpeg args)) (\<lambda>_.
     bnd (modify (\<lambda>s. s\<lparr>files := ffmpeg_files env args (files s)\<rparr>)) (\<lambda>_.
       case ffmpeg_exit env args of
         Close code \<Rightarrow> if code = Some 0 then ret () else raise (FFmpegFailed code)
       | ProcError \<Rightarrow> raise SpawnError))"

definition runFFprobe :: "env \<Rightarrow> string list \<Rightarrow> string prog" where
  "runFFprobe env args =
     bnd (act (RunFFprobe args)) (\<lambda>_.
       case ffprobe_run env args of
         (Close code, output) \<Rightarrow> if code = Some 0 then ret output else raise (FFprobeFailed code)
       | (ProcError, output) \<Rightarrow> raise SpawnError)"

definition durationArgs :: "string \<Rightarrow> string list" where
  "durationArgs filePath =
     [''-v'', ''quiet'', ''-show_entries'', ''format=duration'', ''-of'', ''csv=p=0'', filePath]"

definition getDuration :: "env \<Rightarrow> string \<Rightarrow> real prog" where
  "getDuration env filePath =
     bnd (runFFprobe env (durationArgs filePath)) (\<lambda>result. ret (parseFloat env (trim result)))"

definition uploadFile :: "env \<Rightarrow> string \<Rightarrow> string \<Rightarrow> string \<Rightarrow> bool \<Rightarrow> unit prog" where
  "uploadFile env p bucket key isChunk =
     bnd (act (UploadFile p bucket key isChunk)) (\<lambda>_.
       case s3_upload env p bucket key of
         Some e \<Rightarrow> raise e
       | None \<Rightarrow> ret ())"

section \<open>Post-processing stages\<close>

definition silenceArgs :: "env \<Rightarrow> string \<Rightarrow> real \<Rightarrow> string list" where
  "silenceArgs env silenceFile paddingSeconds =
     [''-f'', ''lavfi'', ''-i'',
      ''anullsrc=channel_layout=mono:sample_rate='' @ AUDIO_SAMPLE_RATE @ '':duration=''
        @ numStr env paddingSeconds,
      ''-c:a'', ''pcm_s16le'', ''-ar'', AUDIO_SAMPLE_RATE, ''-ac'', ''1'', ''-y'', silenceFile]"

definition concatArgs :: "string \<Rightarrow> string \<Rightarrow> string list" where
  "concatArgs concatListFile outputAudioPath =
     [''-f'', ''concat'', ''-safe'', ''0'', ''-i'', concatListFile,
      ''-c:a'', ''pcm_s16le'', ''-ar'', AUDIO_SAMPLE_RATE, ''-ac'', ''1'', ''-y'', outputAudioPath]"

text \<open>The concat list: the silence first, then the input, each as \<^verbatim>\<open>file '<path>'\<close>.\<close>

definition concatContent :: "string \<Rightarrow> string \<Rightarrow> string" where
  "concatContent absoluteSilencePath absoluteInputPath =
     ''file '' @ [CHR 0x27] @ absoluteSilencePath @ [CHR 0x27, CHR 0x0A]
     @ ''file '' @ [CHR 0x27] @ absoluteInputPath @ [CHR 0x27]"

definition addSilencePadding :: "env \<Rightarrow> string \<Rightarrow> string \<Rightarrow> real \<Rightarrow> unit prog" where
  "addSilencePadding env inputAudioPath outputAudioPath paddingSeconds =
     (let tempDir = tempPath env;
          silenceFile = pjoin tempDir ''silence.wav'';
          concatListFile = pjoin tempDir ''concat_list.txt''
      in bnd (runFFmpeg env (silenceArgs env silenceFile paddingSeconds)) (\<lambda>_.
         bnd (writeFileSync concatListFile
                (concatContent (path_resolve env silenceFile) (path_resolve env inputAudioPath))) (\<lambda>_.
         bnd (runFFmpeg env (concatArgs concatListFile outputAudioPath)) (\<lambda>_.
         bnd (bnd (existsSync silenceFile) (\<lambda>present.
                if present then unlinkSync silenceFile else ret ())) (\<lambda>_.
         bnd (existsSync concatListFile) (\<lambda>present.
                if present then unlinkSync concatListFile else ret ()))))))"

definition trimArgs :: "env \<Rightarrow> string \<Rightarrow> string \<Rightarrow> real \<Rightarrow> string list" where
  "trimArgs env inputAudioPath outputAudioPath trimSeconds =
     [''-i'', inputAudioPath, ''-ss'', numStr env trimSeconds,
      ''-c:a'', ''pcm_s16le'', ''-ar'', AUDIO_SAMPLE_RATE, ''-ac'', ''1'',
      ''-avoid_negative_ts'', ''make_zero'', ''-y'', outputAudioPath]"

definition trimAudioStart :: "env \<Rightarrow> string \<Rightarrow> string \<Rightarrow> real \<Rightarrow> unit prog" where
  "trimAudioStart env inputAudioPath outputAudioPath trimSeconds =
     runFFmpeg env (trimArgs env inputAudioPath outputAudioPath trimSeconds)"

definition mergeArgs :: "string \<Rightarrow> string \<Rightarrow> string \<Rightarrow> string list" where
  "mergeArgs videoPath audioPath outPath =
     [''-i'', videoPath, ''-i'', audioPath, ''-c:v'', ''copy'', ''-c:a'', ''aac'',
      ''-b:a'', AUDIO_BITRATE, ''-shortest'', ''-avoid_negative_ts'', ''make_zero'', ''-y'', outPath]"

definition mergeWithSync :: "env \<Rightarrow> string \<Rightarrow> string \<Rightarrow> string \<Rightarrow> unit prog" where
  "mergeWithSync env videoPath audioPath outPath = runFFmpeg env (mergeArgs videoPath audioPath outPath)"

definition finalTrimArgs :: "env \<Rightarrow> string \<Rightarrow> string \<Rightarrow> real \<Rightarrow> real \<Rightarrow> string list" where
  "finalTrimArgs env inputPath outPath calcOffset duration =
     [''-i'', inputPath, ''-ss'', numStr env calcOffset, ''-t'', numStr env duration,
      ''-c:v'', ''copy'', ''-c:a'', ''copy'', ''-movflags'', ''+faststart'',
      ''-avoid_negative_ts'', ''make_zero'', ''-y'', outPath]"

definition finalTrimFromOffset :: "env \<Rightarrow> string \<Rightarrow> string \<Rightarrow> real \<Rightarrow> real \<Rightarrow> unit prog" where
  "finalTrimFromOffset env inputPath outPath calcOffset duration =
     runFFmpeg env (finalTrimArgs env inputPath outPath calcOffset duration)"

definition extractArgs :: "string \<Rightarrow> string \<Rightarrow> string list" where
  "extractArgs videoPath audioPath =
     [''-i'', videoPath, ''-vn'', ''-c:a'', ''pcm_s16le'', ''-ar'', AUDIO_SAMPLE_RATE,
      ''-ac'', ''1'', ''-y'', audioPath]"

definition extractAudioFromVideo :: "env \<Rightarrow> string \<Rightarrow> string \<Rightarrow> unit prog" where
  "extractAudioFromVideo env videoPath audioPath = runFFmpeg env (extractArgs videoPath audioPath)"

text \<open>The body of \<^verbatim>\<open>cleanupTempFiles\<close> is commented out in the source.\<close>

definition cleanupTempFiles :: "string list \<Rightarrow> unit prog" where
  "cleanupTempFiles filePaths = ret ()"

section \<open>Chunks and uploads\<close>

text \<open>One turn of the loop of \<^verbatim>\<open>uploadAudioChunks\<close>.\<close>

definition uploadChunk :: "env \<Rightarrow> string \<Rightarrow> string \<Rightarrow> string \<Rightarrow> unit prog" where
  "uploadChunk env chunksDir botUuid filename =
     (let chunkPath = pjoin chunksDir filename
      in bnd (existsSync chunkPath) (\<lambda>present.
           if \<not> present then act (Log (ChunkNotFound chunkPath))
           else try_catch
                  (bnd (statSync_size chunkPath) (\<lambda>size.
                     if size = 0 then act (Log (ChunkEmpty filename))
                     else uploadFile env chunkPath (aws_s3_temporary_audio_bucket env)
                            (botUuid @ ''/'' @ filename) True))
                  (\<lambda>error. act (Log (ChunkUploadFailed filename error)))))"

primrec uploadChunkLoop :: "env \<Rightarrow> string \<Rightarrow> string \<Rightarrow> string list \<Rightarrow> unit prog" where
  "uploadChunkLoop env chunksDir botUuid [] = ret ()"
| "uploadChunkLoop env chunksDir botUuid (filename # rest) =
     bnd (uploadChunk env chunksDir botUuid filename) (\<lambda>_.
       uploadChunkLoop env chunksDir botUuid rest)"

definition isChunkFile :: "string \<Rightarrow> string \<Rightarrow> bool" where
  "isChunkFile botUuid file = (startsWith file (botUuid @ ''-'') \<and> endsWith file ''.wav'')"

definition uploadAudioChunks :: "env \<Rightarrow> string \<Rightarrow> string \<Rightarrow> unit prog" where
  "uploadAudioChunks env chunksDir botUuid =
     (if \<not> uploaderPresent env then ret ()
      else bnd (readdirSync chunksDir) (\<lambda>files.
             uploadChunkLoop env chunksDir botUuid (filter (isChunkFile botUuid) files)))"

definition segmentArgs :: "env \<Rightarrow> string \<Rightarrow> real \<Rightarrow> string \<Rightarrow> string list" where
  "segmentArgs env audioPath chunkDuration chunkPattern =
     [''-i'', audioPath, ''-acodec'', ''pcm_s16le'', ''-ac'', ''1'', ''-ar'', AUDIO_SAMPLE_RATE,
      ''-f'', ''segment'', ''-segment_time'', numStr env chunkDuration,
      ''-segment_format'', ''wav'', ''-y'', chunkPattern]"

definition createAudioChunks :: "env \<Rightarrow> string \<Rightarrow> unit prog" where
  "createAudioChunks env audioPath =
     (if \<not> speech_to_text_provider env then ret ()
      else
        (let chunksDir = audioTmpPath env
         in bnd (bnd (existsSync chunksDir) (\<lambda>present.
                   if \<not> present then mkdirSync chunksDir else ret ())) (\<lambda>_.
            bnd (getDuration env audioPath) (\<lambda>duration.
              (let botUuid = bot_uuid env;
                   chunkDuration = min duration TRANSCRIPTION_CHUNK_DURATION;
                   chunkPattern = pjoin chunksDir (botUuid @ ''-%d.wav'')
               in bnd (runFFmpeg env (segmentArgs env audioPath chunkDuration chunkPattern)) (\<lambda>_.
                    uploadAudioChunks env chunksDir botUuid))))))"

definition uploadToS3 :: "env \<Rightarrow> unit prog" where
  "uploadToS3 env =
     bnd (getS filesUploaded) (\<lambda>uploaded.
       if uploaded \<or> \<not> uploaderPresent env then ret ()
       else
         (let identifier = pm_identifier env
          in bnd (bnd (getS audioOutputPath) existsSync) (\<lambda>audioPresent.
             bnd (if audioPresent then
                    bnd (getS audioOutputPath) (\<lambda>p.
                    bnd (uploadFile env p (aws_s3_video_bucket env) (identifier @ ''.wav'') False) (\<lambda>_.
                    bnd (getS audioOutputPath) unlinkSync))
                  else ret ()) (\<lambda>_.
             bnd (bnd (getS outputPath) existsSync) (\<lambda>videoPresent.
             bnd (if videoPresent then
                    bnd (getS outputPath) (\<lambda>p.
                    bnd (uploadFile env p (aws_s3_video_bucket env) (identifier @ ''.mp4'') False) (\<lambda>_.
                    bnd (getS outputPath) unlinkSync))
                  else ret ()) (\<lambda>_.
             modify (\<lambda>s. s\<lparr>filesUploaded := True\<rparr>)))))))"

section \<open>Sync and merge\<close>

definition calculateVideoOffset :: "env \<Rightarrow> string \<Rightarrow> string \<Rightarrow> sync_result prog" where
  "calculateVideoOffset env audioPath videoPath =
     bnd (act (CalculateVideoOffset audioPath videoPath)) (\<lambda>_.
       case offsetCalc env audioPath videoPath of
         Inl e \<Rightarrow> raise e
       | Inr r \<Rightarrow> ret r)"

text \<open>
  Step 2 of \<^verbatim>\<open>syncAndMergeFiles\<close>. The clock is read four times on the fallback path:
  twice for the timing report, once for the recording duration and once for the new
  meeting start time.
\<close>

definition ensureMeetingStartTime :: "env \<Rightarrow> unit prog" where
  "ensureMeetingStartTime env =
     bnd (getS (\<lambda>s. meetingStartTime s > 0)) (\<lambda>hasMeetingStartTime.
       if \<not> hasMeetingStartTime then
         bnd (dateNow env) (\<lambda>_.
         bnd (dateNow env) (\<lambda>_.
         bnd (dateNow env) (\<lambda>t.
         bnd (getS recordingStartTime) (\<lambda>started.
           (let recordingDuration = t - started
            in if recordingDuration > 10000 then
                 bnd (dateNow env) (\<lambda>t'. modify (\<lambda>s. s\<lparr>meetingStartTime := t' - 5000\<rparr>))
               else raise (JoinError BotRemovedTooEarly))))))
       else ret ())"

text \<open>Step 5: the audio head is padded, trimmed or copied.\<close>

definition prepareAudio :: "env \<Rightarrow> string \<Rightarrow> string \<Rightarrow> real \<Rightarrow> unit prog" where
  "prepareAudio env rawAudioPath processedAudioPath audioPadding =
     (if audioPadding > 0 then addSilencePadding env rawAudioPath processedAudioPath audioPadding
      else if audioPadding < 0 then
        trimAudioStart env rawAudioPath processedAudioPath (audioPadding * -1)
      else copyFileSync rawAudioPath processedAudioPath)"

text \<open>
  Steps 6 to 9: merge, probe the two durations, trim from the offset of step 3, extract
  the audio, cut it into chunks, clean up.
\<close>

definition finishMerge :: "env \<Rightarrow> real \<Rightarrow> unit prog" where
  "finishMerge env calcOffsetVideo =
     (let tempDir = tempPath env;
          rawVideoPath = pjoin tempDir ''raw.mp4'';
          rawAudioPath = pjoin tempDir ''raw.wav'';
          processedAudioPath = pjoin tempDir ''processed.wav'';
          mergedPath = pjoin tempDir ''merged.mp4''
      in bnd (mergeWithSync env rawVideoPath processedAudioPath mergedPath) (\<lambda>_.
         bnd (getDuration env rawVideoPath) (\<lambda>videoDuration.
         bnd (getDuration env processedAudioPath) (\<lambda>audioDuration.
           (let finalDuration = min (videoDuration - calcOffsetVideo) audioDuration
            in bnd (getS outputPath) (\<lambda>out.
               bnd (finalTrimFromOffset env mergedPath out calcOffsetVideo finalDuration) (\<lambda>_.
               bnd (getS outputPath) (\<lambda>out'.
               bnd (getS audioOutputPath) (\<lambda>audioOut.
               bnd (extractAudioFromVideo env out' audioOut) (\<lambda>_.
               bnd (getS audioOutputPath) (\<lambda>audioOut'.
               bnd (createAudioChunks env audioOut') (\<lambda>_.
               cleanupTempFiles [rawVideoPath, rawAudioPath, processedAudioPath, mergedPath])
               )))))))))))"

text \<open>Steps 3 to 5, and then the rest.\<close>

definition trimAndMerge :: "env \<Rightarrow> sync_result \<Rightarrow> unit prog" where
  "trimAndMerge env syncResult =
     (let tempDir = tempPath env;
          rawAudioPath = pjoin tempDir ''raw.wav''
      in bnd (getS (\<lambda>s. videoTimestamp syncResult
                 + (meetingStartTime s - recordingStartTime s - FLASH_SCREEN_SLEEP_TIME) / 1000))
           (\<lambda>calcOffsetVideo.
         (let audioPadding = videoTimestamp syncResult - audioTimestamp syncResult;
              processedAudioPath = pjoin tempDir ''processed.wav''
          in bnd (prepareAudio env rawAudioPath processedAudioPath audioPadding) (\<lambda>_.
             finishMerge env calcOffsetVideo))))"

definition syncAndMergeFiles :: "env \<Rightarrow> unit prog" where
  "syncAndMergeFiles env =
     (if recording_mode env = AudioOnly then
        (let rawAudioPath = pjoin (tempPath env) ''raw.wav''
         in bnd (existsSync rawAudioPath) (\<lambda>present.
              if present then
                bnd (getS audioOutputPath) (\<lambda>audioOut.
                bnd (copyFileSync rawAudioPath audioOut) (\<lambda>_.
                bnd (getS audioOutputPath) (\<lambda>audioOut'.
                createAudioChunks env audioOut')))
              else ret ()))
      else
        (let tempDir = tempPath env;
             rawVideoPath = pjoin tempDir ''raw.mp4'';
             rawAudioPath = pjoin tempDir ''raw.wav''
         in bnd (calculateVideoOffset env rawAudioPath rawVideoPath) (\<lambda>syncResult.
            bnd (ensureMeetingStartTime env) (\<lambda>_.
            trimAndMerge env syncResult))))"

section \<open>Exit of the capture process, and stop\<close>

text \<open>
  \<^verbatim>\<open>emit\<close> of the event emitter the recorder extends. An \<^verbatim>\<open>error\<close> event with no
  listener registered for it is thrown back at the emitter; any other event is delivered
  and recorded. A \<^verbatim>\<open>stopped\<close> event runs the listener that \<^verbatim>\<open>stopRecording\<close> registered
  with \<^verbatim>\<open>once\<close>. What the listeners of the owner do is outside the model: they are taken
  to return.
\<close>

definition emit :: "event \<Rightarrow> unit prog" where
  "emit ev =
     (case ev of
        ErrorEvent e \<Rightarrow>
          bnd (getS errorListener) (\<lambda>registered.
            if registered then act (Emit ev) else raise (UnhandledError e))
      | Stopped \<Rightarrow>
          bnd (act (Emit ev)) (\<lambda>_.
          bnd (getS stoppedListener) (\<lambda>registered.
            if registered then
              modify (\<lambda>s. s\<lparr>gracePeriodActive := False, ffmpegProcess := None,
                               stoppedListener := False\<rparr>)
            else ret ()))
      | Started \<Rightarrow> act (Emit ev))"

definition handleSuccessfulRecording :: "env \<Rightarrow> unit prog" where
  "handleSuccessfulRecording env =
     bnd (act (Log NativeRecordingCompleted)) (\<lambda>_.
       try_catch
         (bnd (syncAndMergeFiles env) (\<lambda>_.
            if \<not> isServerless env then
              try_catch (bnd (uploadToS3 env) (\<lambda>_. act (Log UploadCompleted)))
                        (\<lambda>error. act (Log (UploadFailed error)))
            else ret ()))
         (\<lambda>error. bnd (act (Log (ProcessingError error))) (\<lambda>_. emit (ErrorEvent error))))"

text \<open>The \<^verbatim>\<open>exit\<close> handler registered by \<^verbatim>\<open>setupProcessMonitoring\<close>.\<close>

definition onExit :: "env \<Rightarrow> int option \<Rightarrow> unit prog" where
  "onExit env code =
     bnd (getS gracePeriodActive) (\<lambda>grace.
       (let isSuccessful = (code = Some 0 \<or> (grace \<and> (code = Some 255 \<or> code = Some 143)))
        in bnd (if isSuccessful then
                  bnd (act (Log RecordingSuccessful)) (\<lambda>_. handleSuccessfulRecording env)
                else act (Log (RecordingFailed code))) (\<lambda>_.
           bnd (modify (\<lambda>s. s\<lparr>isRecording := False\<rparr>)) (\<lambda>_.
           emit Stopped))))"

text \<open>\<^verbatim>\<open>this.ffmpegProcess!.kill(sig)\<close>: a \<^verbatim>\<open>TypeError\<close> on \<^verbatim>\<open>null\<close>.\<close>

definition kill :: "signal \<Rightarrow> unit prog" where
  "kill sig =
     bnd (getS ffmpegProcess) (\<lambda>p.
       case p of
         None \<Rightarrow> raise (External ''TypeError'')
       | Some pr \<Rightarrow>
           bnd (act (Kill sig)) (\<lambda>_.
             modify (\<lambda>s. s\<lparr>ffmpegProcess := Some (pr\<lparr>killed := True\<rparr>)\<rparr>)))"

text \<open>
  \<^verbatim>\<open>stopRecording\<close>, up to the point where its promise waits for \<^verbatim>\<open>stopped\<close>: the guard,
  the grace period, the listener, the signal and the timer of the forced kill. The
  promise resolves when \<open>onExit\<close> emits \<^verbatim>\<open>stopped\<close>.
\<close>

definition stopRecording :: "unit prog" where
  "stopRecording =
     bnd (getS (\<lambda>s. \<not> isRecording s \<or> ffmpegProcess s = None)) (\<lambda>idle.
       if idle then ret ()
       else
         bnd (modify (\<lambda>s. s\<lparr>gracePeriodActive := True\<rparr>)) (\<lambda>_.
         bnd (act (SetTimeout 3000)) (\<lambda>_.
         bnd (modify (\<lambda>s. s\<lparr>stoppedListener := True\<rparr>)) (\<lambda>_.
         bnd (kill SIGINT) (\<lambda>_.
         act (SetTimeout 8000))))))"

text \<open>The callback of the 8 s timer.\<close>

definition forceKill :: "unit prog" where
  "forceKill =
     bnd (getS ffmpegProcess) (\<lambda>p.
       case p of
         None \<Rightarrow> ret ()
       | Some pr \<Rightarrow> if \<not> killed pr then kill SIGKILL else ret ())"

section \<open>Notions used in the statements and the proofs\<close>

text \<open>A program only appends to the trace.\<close>

definition grows :: "'a prog \<Rightarrow> bool" where
  "grows m = (\<forall>s. \<exists>xs. trace (snd (m s)) = trace s @ xs)"

text \<open>A program leaves a component of the state as it is.\<close>

definition keeps :: "(recorder \<Rightarrow> 'b) \<Rightarrow> 'a prog \<Rightarrow> bool" where
  "keeps f m = (\<forall>s. f (snd (m s)) = f s)"

text \<open>A component that does not depend on the disk, the clock readings or the trace.\<close>

definition ctl :: "(recorder \<Rightarrow> 'b) \<Rightarrow> bool" where
  "ctl f = ((\<forall>s x. f (s\<lparr>trace := x\<rparr>) = f s) \<and> (\<forall>s x. f (s\<lparr>files := x\<rparr>) = f s)
           \<and> (\<forall>s x. f (s\<lparr>dirs := x\<rparr>) = f s) \<and> (\<forall>s x. f (s\<lparr>ticks := x\<rparr>) = f s))"

text \<open>A program never throws.\<close>

definition nothrow :: "'a prog \<Rightarrow> bool" where
  "nothrow m = (\<forall>s. \<exists>x. fst (m s) = Inr x)"

text \<open>The duration \<open>getDuration\<close> returns for a file when the prober exits with 0.\<close>

definition probed :: "env \<Rightarrow> string \<Rightarrow> real" where
  "probed env filePath = parseFloat env (trim (snd (ffprobe_run env (durationArgs filePath))))"

text \<open>
  The segment muxer of the media tool is outside the source. Run with the output pattern
  \<open><dir>/<prefix>-%d.wav\<close>, it numbers the files it writes from 0, in decimal.
\<close>

definition digit :: "nat \<Rightarrow> char" where
  "digit k = ''0123456789'' ! k"

fun decimal :: "nat \<Rightarrow> string" where
  "decimal n = (if n < 10 then [digit n] else decimal (n div 10) @ [digit (n mod 10)])"

declare decimal.simps [simp del]

text \<open>The names of the first \<open>n\<close> segments.\<close>

definition segment_names :: "string \<Rightarrow> nat \<Rightarrow> string list" where
  "segment_names prefix n = map (\<lambda>i. prefix @ ''-'' @ decimal i @ ''.wav'') [0..<n]"

text \<open>
  \<open>cuts_every\<close> says that the tool of \<open>env\<close>, given the argument vector that
  \<^verbatim>\<open>createAudioChunks\<close> builds for the segment time \<open>t\<close>, behaves as the ideal muxer on
  the disk \<open>fs\<close>: the input lasting \<open>d\<close> seconds is cut every \<open>t\<close> seconds, so that
  the files numbered below \<open>\<lceil>d / t\<rceil>\<close> are written and no other file appears or
  disappears. It is an assumption on the tool, made where a statement needs it.
\<close>

definition cuts_every :: "env \<Rightarrow> string \<Rightarrow> real \<Rightarrow> real \<Rightarrow> string \<Rightarrow> string \<Rightarrow> fsys \<Rightarrow> bool" where
  "cuts_every env audioPath d t dir prefix fs =
     (dom (map_of (ffmpeg_files env
                     (segmentArgs env audioPath t (pjoin dir (prefix @ ''-%d.wav''))) fs))
        = dom (map_of fs) \<union> set (map (pjoin dir) (segment_names prefix (nat \<lceil>d / t\<rceil>))))"

text \<open>The actions appended between two states.\<close>

definition new_actions :: "recorder \<Rightarrow> recorder \<Rightarrow> action list" where
  "new_actions s s' = drop (length (trace s)) (trace s')"

text \<open>The argument vectors of the runs of the media tool among some actions, in order.\<close>

definition ffmpeg_runs :: "action list \<Rightarrow> string list list" where
  "ffmpeg_runs as = concat (map (\<lambda>a. case a of RunFFmpeg args \<Rightarrow> [args] | _ \<Rightarrow> []) as)"

text \<open>Sequencing and catching, on the result of the first program.\<close>

definition bnd_res ::
  "(js_error + 'a) \<times> recorder \<Rightarrow> ('a \<Rightarrow> 'b prog) \<Rightarrow> (js_error + 'b) \<times> recorder" where
  "bnd_res r f = (case r of (Inl e, s') \<Rightarrow> (Inl e, s') | (Inr x, s') \<Rightarrow> f x s')"

definition catch_res ::
  "(js_error + 'a) \<times> recorder \<Rightarrow> (js_error \<Rightarrow> 'a prog) \<Rightarrow> (js_error + 'a) \<times> recorder" where
  "catch_res r h = (case r of (Inl e, s') \<Rightarrow> h e s' | (Inr x, s') \<Rightarrow> (Inr x, s'))"

text \<open>
  What one turn of the chunk loop adds to the trace, read off the disk and the uploader:
  a missing or empty file is reported, any other file is uploaded, and a failure is
  reported.
\<close>

definition chunk_actions :: "env \<Rightarrow> string \<Rightarrow> string \<Rightarrow> recorder \<Rightarrow> string \<Rightarrow> action list" where
  "chunk_actions env chunksDir botUuid s filename =
     (let chunkPath = pjoin chunksDir filename
      in if \<not> exists_in s chunkPath then [Log (ChunkNotFound chunkPath)]
         else case map_of (files s) chunkPath of
                None \<Rightarrow> [Log (ChunkUploadFailed filename (ENOENT chunkPath))]
              | Some c \<Rightarrow>
                  if length c = 0 then [Log (ChunkEmpty filename)]
                  else UploadFile chunkPath (aws_s3_temporary_audio_bucket env)
                         (botUuid @ ''/'' @ filename) True
                       # (case s3_upload env chunkPath (aws_s3_temporary_audio_bucket env)
                                 (botUuid @ ''/'' @ filename) of
                            Some e \<Rightarrow> [Log (ChunkUploadFailed filename e)]
                          | None \<Rightarrow> []))"

section \<open>Concrete inputs\<close>




definition six_byte_chunk :: node_buffer where
  "six_byte_chunk = \<lparr> buffer = [1, 2, 3, 4, 5, 6], byteOffset = 0, blength = 6 \<rparr>"

definition eight_byte_chunk :: node_buffer where
  "eight_byte_chunk = \<lparr> buffer = [9, 9, 9, 9, 1, 2, 3, 4, 5, 6, 7, 8], byteOffset = 4, blength = 8 \<rparr>"

text \<open>
  A video session in which every tool succeeds: the capture started at 1 000 000 ms, the
  meeting at 1 010 000 ms, the tone is found at 7.2 s in the video and 7.05 s in the audio,
  and every probed duration is 100 s. No listener is registered for \<^verbatim>\<open>error\<close> events.
\<close>

definition demo_env :: env where
  "demo_env = \<lparr>
     recording_mode = SpeakerView,
     speech_to_text_provider = True,
     bot_uuid = ''bot'',
     aws_s3_temporary_audio_bucket = ''tmp-audio'',
     aws_s3_video_bucket = ''videos'',
     isServerless = False,
     uploaderPresent = True,
     tempPath = ''/tmp'',
     audioTmpPath = ''/chunks'',
     pm_identifier = ''id'',
     numStr = (\<lambda>x. if x = 100 then ''100'' else if x = 56 / 5 then ''11.2''
                else if x = 444 / 5 then ''88.8'' else if x = 3 / 20 then ''0.15''
                else if x = 1 / 5 then ''0.2'' else ''n''),
     parseFloat = (\<lambda>s. if s = ''100'' then 100 else 0),
     path_resolve = (\<lambda>p. p),
     date_now = (\<lambda>k. 1030000),
     ffmpeg_exit = (\<lambda>args. Close (Some 0)),
     ffmpeg_files = (\<lambda>args fs.
        if last args = ''/chunks/bot-%d.wav'' then fs_write ''/chunks/bot-0.wav'' ''pcm'' fs
        else fs_write (last args) ''data'' fs),
     ffprobe_run = (\<lambda>args. (Close (Some 0), ''100'' @ [CHR 0x0A])),
     offsetCalc = (\<lambda>a v. Inr \<lparr> offsetSeconds = 3 / 20, videoTimestamp = 36 / 5,
                                  audioTimestamp = 141 / 20 \<rparr>),
     s3_upload = (\<lambda>p b k. None) \<rparr>"

definition demo_state :: recorder where
  "demo_state = \<lparr>
     ffmpegProcess = Some \<lparr> killed = False \<rparr>,
     outputPath = ''/out/id.mp4'',
     audioOutputPath = ''/out/id.wav'',
     isRecording = True,
     filesUploaded = False,
     recordingStartTime = 1000000,
     meetingStartTime = 1010000,
     gracePeriodActive = False,
     stoppedListener = False,
     errorListener = False,
     files = [(''/tmp/raw.mp4'', ''v''), (''/tmp/raw.wav'', ''a'')],
     dirs = [''/tmp'', ''/out''],
     ticks = 0,
     trace = [] \<rparr>"

text \<open>
  A session with two chunks and both final artifacts on disk, and an uploader that fails
  on the first chunk and on the final audio.
\<close>

definition failing_env :: env where
  "failing_env = demo_env\<lparr> s3_upload := (\<lambda>p b k.
      if p = ''/chunks/bot-0.wav'' \<or> p = ''/out/id.wav'' then Some (External ''upload failed'')
      else None) \<rparr>"

definition chunk_state :: recorder where
  "chunk_state = demo_state\<lparr>
      files := [(''/chunks/bot-0.wav'', ''pcm''), (''/chunks/bot-1.wav'', ''pcm''),
                (''/chunks/notes.txt'', ''x''), (''/out/id.wav'', ''w''), (''/out/id.mp4'', ''m'')],
      dirs := [''/chunks'', ''/out''] \<rparr>"


text \<open>
  The session of a bot removed early: the meeting start time was never set and the clock
  stands 5 000 ms after the start of the capture.
\<close>

definition early_state :: recorder where
  "early_state = demo_state\<lparr> meetingStartTime := 0, recordingStartTime := 1025000 \<rparr>"

text \<open>A session in which the offset calculation finds no tone and rejects.\<close>

definition nosync_env :: env where
  "nosync_env = demo_env\<lparr> offsetCalc := (\<lambda>a v. Inl (External ''no sync signal'')) \<rparr>"

text \<open>
  A session whose final audio lasts 9 000 s, with a media tool that cuts it into the
  segments 0, 1 and 2.
\<close>

definition long_env :: env where
  "long_env = demo_env\<lparr>
      ffprobe_run := (\<lambda>args. (Close (Some 0), ''9000'' @ [CHR 0x0A])),
      parseFloat := (\<lambda>s. if s = ''9000'' then 9000 else 0),
      numStr := (\<lambda>x. if x = 3600 then ''3600'' else ''n''),
      ffmpeg_files := (\<lambda>args fs.
        if last args = ''/chunks/bot-%d.wav'' then
          fs_write ''/chunks/bot-0.wav'' ''pcm''
            (fs_write ''/chunks/bot-1.wav'' ''pcm'' (fs_write ''/chunks/bot-2.wav'' ''pcm'' fs))
        else fs_write (last args) ''data'' fs) \<rparr>"

text \<open>
  Two variants of the demo session: the tone is found 0.2 s later in the audio than in the
  video, and at the same time in both.
\<close>

definition behind_env :: env where
  "behind_env = demo_env\<lparr> offsetCalc := (\<lambda>a v.
      Inr \<lparr> offsetSeconds = - (1 / 5), videoTimestamp = 36 / 5, audioTimestamp = 37 / 5 \<rparr>) \<rparr>"

definition aligned_env :: env where
  "aligned_env = demo_env\<lparr> offsetCalc := (\<lambda>a v.
      Inr \<lparr> offsetSeconds = 0, videoTimestamp = 36 / 5, audioTimestamp = 36 / 5 \<rparr>) \<rparr>"
section \<open>Basic facts about programs\<close>

subsection \<open>Running programs\<close>

lemma ret_apply [simp]: "ret x s = (Inr x, s)" by (simp add: ret_def)
lemma raise_apply [simp]: "raise e s = (Inl e, s)" by (simp add: raise_def)
lemma getS_apply [simp]: "getS f s = (Inr (f s), s)" by (simp add: getS_def)
lemma modify_apply [simp]: "modify f s = (Inr (), f s)" by (simp add: modify_def)
lemma act_apply [simp]: "act a s = (Inr (), s\<lparr>trace := trace s @ [a]\<rparr>)" by (simp add: act_def)
lemma bnd_apply: "bnd m f s = (case m s of (Inl e, s') \<Rightarrow> (Inl e, s') | (Inr x, s') \<Rightarrow> f x s')"
  by (simp add: bnd_def)
lemma try_catch_apply: "try_catch m h s = (case m s of (Inl e, s') \<Rightarrow> h e s' | (Inr x, s') \<Rightarrow> (Inr x, s'))"
  by (simp add: try_catch_def)

lemma bnd_Inr: "m s = (Inr x, s1) \<Longrightarrow> bnd m f s = f x s1" by (simp add: bnd_apply)
lemma bnd_Inl: "m s = (Inl e, s1) \<Longrightarrow> bnd m f s = (Inl e, s1)" by (simp add: bnd_apply)
lemma try_catch_Inr: "m s = (Inr x, s1) \<Longrightarrow> try_catch m h s = (Inr x, s1)" by (simp add: try_catch_apply)
lemma try_catch_Inl: "m s = (Inl e, s1) \<Longrightarrow> try_catch m h s = h e s1" by (simp add: try_catch_apply)

lemma bnd_successE:
  assumes "bnd m f s = (Inr y, s')"
  obtains x s1 where "m s = (Inr x, s1)" "f x s1 = (Inr y, s')"
  using assms by (auto simp: bnd_apply split: prod.splits sum.splits)

text \<open>
  Evaluation on concrete inputs: the result of the first program is computed before the
  continuation is looked at.
\<close>

lemma bnd_run: "bnd m f s = bnd_res (m s) f" by (simp add: bnd_res_def bnd_apply)
lemma catch_run: "try_catch m h s = catch_res (m s) h" by (simp add: catch_res_def try_catch_apply)
lemma res_simps:
  "bnd_res (Inr x, s') f = f x s'" "bnd_res (Inl e, s') f = (Inl e, s')"
  "catch_res (Inr x, s') h = (Inr x, s')" "catch_res (Inl e, s') h = h e s'"
  by (simp_all add: bnd_res_def catch_res_def)
lemma bnd_weak_cong: "s = s' \<Longrightarrow> bnd m f s = bnd m f s'" by simp
lemma try_catch_weak_cong: "s = s' \<Longrightarrow> try_catch m f s = try_catch m f s'" by simp
lemma bnd_res_cong: "r = r' \<Longrightarrow> bnd_res r f = bnd_res r' f" by simp
lemma catch_res_cong: "r = r' \<Longrightarrow> catch_res r f = catch_res r' f" by simp

lemmas run_defs =
  existsSync_def exists_in_def copyFileSync_def unlinkSync_def writeFileSync_def
  mkdirSync_def readdirSync_def statSync_size_def dateNow_def runFFmpeg_def runFFprobe_def
  getDuration_def uploadFile_def addSilencePadding_def trimAudioStart_def mergeWithSync_def
  finalTrimFromOffset_def extractAudioFromVideo_def cleanupTempFiles_def uploadChunk_def
  uploadAudioChunks_def createAudioChunks_def uploadToS3_def calculateVideoOffset_def
  ensureMeetingStartTime_def prepareAudio_def finishMerge_def trimAndMerge_def
  syncAndMergeFiles_def emit_def
  handleSuccessfulRecording_def onExit_def kill_def stopRecording_def forceKill_def
  Let_def

lemmas str_defs =
  silenceArgs_def concatArgs_def concatContent_def trimArgs_def mergeArgs_def finalTrimArgs_def
  extractArgs_def segmentArgs_def durationArgs_def pjoin_def startsWith_def endsWith_def
  isSpace_def trim_def fs_remove_def fs_write_def entry_of_def entries_def isChunkFile_def dirname_def
  FLASH_SCREEN_SLEEP_TIME_def TRANSCRIPTION_CHUNK_DURATION_def AUDIO_SAMPLE_RATE_def
  AUDIO_BITRATE_def

lemmas ev = run_defs str_defs bnd_run catch_run res_simps
lemmas ev_cong = bnd_weak_cong try_catch_weak_cong bnd_res_cong catch_res_cong


subsection \<open>Programs that only append to the trace\<close>

named_theorems grows_intros

lemma growsI: "(\<And>s. \<exists>xs. trace (snd (m s)) = trace s @ xs) \<Longrightarrow> grows m" by (simp add: grows_def)
lemma growsD: "grows m \<Longrightarrow> \<exists>xs. trace (snd (m s)) = trace s @ xs" by (simp add: grows_def)

lemma grows_ret [grows_intros]: "grows (ret x)" by (simp add: grows_def)
lemma grows_raise [grows_intros]: "grows (raise e)" by (simp add: grows_def)
lemma grows_getS [grows_intros]: "grows (getS f)" by (simp add: grows_def)
lemma grows_act [grows_intros]: "grows (act a)" by (simp add: grows_def)
lemma grows_modify: "(\<And>s. trace (f s) = trace s) \<Longrightarrow> grows (modify f)" by (simp add: grows_def)

lemma grows_bnd [grows_intros]:
  assumes "grows m" "\<And>x. grows (f x)"
  shows "grows (bnd m f)"
proof (rule growsI)
  fix s
  obtain r s1 where ms: "m s = (r, s1)" by (cases "m s")
  from growsD[OF assms(1), of s] ms obtain xs where xs: "trace s1 = trace s @ xs" by auto
  show "\<exists>xs. trace (snd (bnd m f s)) = trace s @ xs"
  proof (cases r)
    case (Inl e) with ms xs show ?thesis by (simp add: bnd_apply try_catch_apply)
  next
    case (Inr x)
    from growsD[OF assms(2), of x s1] obtain ys where "trace (snd (f x s1)) = trace s1 @ ys" by auto
    with Inr ms xs show ?thesis by (simp add: bnd_apply try_catch_apply)
  qed
qed

lemma grows_try_catch [grows_intros]:
  assumes "grows m" "\<And>e. grows (h e)"
  shows "grows (try_catch m h)"
proof (rule growsI)
  fix s
  obtain r s1 where ms: "m s = (r, s1)" by (cases "m s")
  from growsD[OF assms(1), of s] ms obtain xs where xs: "trace s1 = trace s @ xs" by auto
  show "\<exists>xs. trace (snd (try_catch m h s)) = trace s @ xs"
  proof (cases r)
    case (Inr x) with ms xs show ?thesis by (simp add: bnd_apply try_catch_apply)
  next
    case (Inl e)
    from growsD[OF assms(2), of e s1] obtain ys where "trace (snd (h e s1)) = trace s1 @ ys" by auto
    with Inl ms xs show ?thesis by (simp add: bnd_apply try_catch_apply)
  qed
qed

lemma grows_if [grows_intros]: "grows a \<Longrightarrow> grows b \<Longrightarrow> grows (if c then a else b)" by simp
lemma grows_case_option [grows_intros]:
  "grows a \<Longrightarrow> (\<And>x. grows (b x)) \<Longrightarrow> grows (case v of None \<Rightarrow> a | Some x \<Rightarrow> b x)"
  by (cases v) simp_all
lemma grows_case_sum [grows_intros]:
  "(\<And>x. grows (a x)) \<Longrightarrow> (\<And>x. grows (b x)) \<Longrightarrow> grows (case v of Inl x \<Rightarrow> a x | Inr x \<Rightarrow> b x)"
  by (cases v) simp_all
lemma grows_case_proc_end [grows_intros]:
  "(\<And>x. grows (a x)) \<Longrightarrow> grows b \<Longrightarrow> grows (case v of Close x \<Rightarrow> a x | ProcError \<Rightarrow> b)"
  by (cases v) simp_all
lemma grows_case_prod [grows_intros]:
  "(\<And>x y. grows (a x y)) \<Longrightarrow> grows (case v of (x, y) \<Rightarrow> a x y)"
  by (cases v) simp_all

lemma grows_existsSync [grows_intros]: "grows (existsSync p)"
  by (simp add: existsSync_def grows_intros)
lemma grows_copyFileSync [grows_intros]: "grows (copyFileSync a b)"
  unfolding copyFileSync_def by (intro grows_intros grows_modify) simp
lemma grows_unlinkSync [grows_intros]: "grows (unlinkSync a)"
  unfolding unlinkSync_def by (intro grows_intros grows_modify) simp
lemma grows_writeFileSync [grows_intros]: "grows (writeFileSync a b)"
  unfolding writeFileSync_def by (intro grows_intros grows_modify) simp
lemma grows_mkdirSync [grows_intros]: "grows (mkdirSync a)"
  unfolding mkdirSync_def by (intro grows_intros grows_modify) simp
lemma grows_readdirSync [grows_intros]: "grows (readdirSync a)"
  unfolding readdirSync_def by (intro grows_intros)
lemma grows_statSync_size [grows_intros]: "grows (statSync_size a)"
  unfolding statSync_size_def by (intro grows_intros)
lemma grows_dateNow [grows_intros]: "grows (dateNow env)"
  unfolding dateNow_def by (intro grows_intros grows_modify) simp
lemma grows_runFFmpeg [grows_intros]: "grows (runFFmpeg env args)"
  unfolding runFFmpeg_def by (intro grows_intros grows_modify) simp
lemma grows_runFFprobe [grows_intros]: "grows (runFFprobe env args)"
  unfolding runFFprobe_def by (intro grows_intros)
lemma grows_getDuration [grows_intros]: "grows (getDuration env p)"
  unfolding getDuration_def by (intro grows_intros)
lemma grows_uploadFile [grows_intros]: "grows (uploadFile env p b k c)"
  unfolding uploadFile_def by (intro grows_intros)
lemma grows_addSilencePadding [grows_intros]: "grows (addSilencePadding env a b p)"
  unfolding addSilencePadding_def Let_def by (intro grows_intros)
lemma grows_trimAudioStart [grows_intros]: "grows (trimAudioStart env a b p)"
  unfolding trimAudioStart_def by (intro grows_intros)
lemma grows_mergeWithSync [grows_intros]: "grows (mergeWithSync env a b p)"
  unfolding mergeWithSync_def by (intro grows_intros)
lemma grows_finalTrimFromOffset [grows_intros]: "grows (finalTrimFromOffset env a b p q)"
  unfolding finalTrimFromOffset_def by (intro grows_intros)
lemma grows_extractAudioFromVideo [grows_intros]: "grows (extractAudioFromVideo env a b)"
  unfolding extractAudioFromVideo_def by (intro grows_intros)
lemma grows_cleanupTempFiles [grows_intros]: "grows (cleanupTempFiles ps)"
  unfolding cleanupTempFiles_def by (intro grows_intros)
lemma grows_uploadChunk [grows_intros]: "grows (uploadChunk env d b f)"
  unfolding uploadChunk_def Let_def by (intro grows_intros)
lemma grows_uploadChunkLoop [grows_intros]: "grows (uploadChunkLoop env d b fs)"
  by (induction fs) (auto simp only: uploadChunkLoop.simps intro!: grows_intros)
lemma grows_uploadAudioChunks [grows_intros]: "grows (uploadAudioChunks env d b)"
  unfolding uploadAudioChunks_def by (intro grows_intros)
lemma grows_createAudioChunks [grows_intros]: "grows (createAudioChunks env p)"
  unfolding createAudioChunks_def Let_def by (intro grows_intros)
lemma grows_uploadToS3 [grows_intros]: "grows (uploadToS3 env)"
  unfolding uploadToS3_def Let_def by (intro grows_intros grows_modify) simp
lemma grows_calculateVideoOffset [grows_intros]: "grows (calculateVideoOffset env a b)"
  unfolding calculateVideoOffset_def by (intro grows_intros)
lemma grows_ensureMeetingStartTime [grows_intros]: "grows (ensureMeetingStartTime env)"
  unfolding ensureMeetingStartTime_def Let_def by (intro grows_intros grows_modify) simp
lemma grows_prepareAudio [grows_intros]: "grows (prepareAudio env a b p)"
  unfolding prepareAudio_def by (intro grows_intros)
lemma grows_finishMerge [grows_intros]: "grows (finishMerge env c)"
  unfolding finishMerge_def Let_def by (intro grows_intros)
lemma grows_trimAndMerge [grows_intros]: "grows (trimAndMerge env r)"
  unfolding trimAndMerge_def Let_def by (intro grows_intros)
lemma grows_syncAndMergeFiles [grows_intros]: "grows (syncAndMergeFiles env)"
  unfolding syncAndMergeFiles_def Let_def by (intro grows_intros)
lemma grows_emit [grows_intros]: "grows (emit ev)"
  unfolding emit_def by (cases ev; simp; intro grows_intros grows_modify; simp)
lemma grows_handleSuccessfulRecording [grows_intros]: "grows (handleSuccessfulRecording env)"
  unfolding handleSuccessfulRecording_def by (intro grows_intros)

subsection \<open>Programs that leave a component alone\<close>

named_theorems keeps_intros

lemma keepsI: "(\<And>s. f (snd (m s)) = f s) \<Longrightarrow> keeps f m" by (simp add: keeps_def)
lemma keepsD: "keeps f m \<Longrightarrow> f (snd (m s)) = f s" by (simp add: keeps_def)

lemma keeps_ret [keeps_intros]: "keeps f (ret x)" by (simp add: keeps_def)
lemma keeps_raise [keeps_intros]: "keeps f (raise e)" by (simp add: keeps_def)
lemma keeps_getS [keeps_intros]: "keeps f (getS g)" by (simp add: keeps_def)
lemma keeps_act [keeps_intros]: "ctl f \<Longrightarrow> keeps f (act a)" by (simp add: keeps_def ctl_def)
lemma keeps_modify: "(\<And>s. f (g s) = f s) \<Longrightarrow> keeps f (modify g)" by (simp add: keeps_def)

lemma keeps_bnd [keeps_intros]:
  assumes "keeps f m" "\<And>x. keeps f (g x)"
  shows "keeps f (bnd m g)"
proof (rule keepsI)
  fix s
  obtain r s1 where ms: "m s = (r, s1)" by (cases "m s")
  from keepsD[OF assms(1), of s] ms have k: "f s1 = f s" by simp
  show "f (snd (bnd m g s)) = f s"
  proof (cases r)
    case (Inl e) with ms k show ?thesis by (simp add: bnd_apply try_catch_apply)
  next
    case (Inr x)
    from keepsD[OF assms(2), of x s1] Inr ms k show ?thesis by (simp add: bnd_apply try_catch_apply)
  qed
qed

lemma keeps_try_catch [keeps_intros]:
  assumes "keeps f m" "\<And>e. keeps f (h e)"
  shows "keeps f (try_catch m h)"
proof (rule keepsI)
  fix s
  obtain r s1 where ms: "m s = (r, s1)" by (cases "m s")
  from keepsD[OF assms(1), of s] ms have k: "f s1 = f s" by simp
  show "f (snd (try_catch m h s)) = f s"
  proof (cases r)
    case (Inr x) with ms k show ?thesis by (simp add: bnd_apply try_catch_apply)
  next
    case (Inl e)
    from keepsD[OF assms(2), of e s1] Inl ms k show ?thesis by (simp add: bnd_apply try_catch_apply)
  qed
qed

lemma keeps_if [keeps_intros]: "keeps f a \<Longrightarrow> keeps f b \<Longrightarrow> keeps f (if c then a else b)" by simp
lemma keeps_case_option [keeps_intros]:
  "keeps f a \<Longrightarrow> (\<And>x. keeps f (b x)) \<Longrightarrow> keeps f (case v of None \<Rightarrow> a | Some x \<Rightarrow> b x)"
  by (cases v) simp_all
lemma keeps_case_sum [keeps_intros]:
  "(\<And>x. keeps f (a x)) \<Longrightarrow> (\<And>x. keeps f (b x)) \<Longrightarrow> keeps f (case v of Inl x \<Rightarrow> a x | Inr x \<Rightarrow> b x)"
  by (cases v) simp_all
lemma keeps_case_proc_end [keeps_intros]:
  "(\<And>x. keeps f (a x)) \<Longrightarrow> keeps f b \<Longrightarrow> keeps f (case v of Close x \<Rightarrow> a x | ProcError \<Rightarrow> b)"
  by (cases v) simp_all
lemma keeps_case_prod [keeps_intros]:
  "(\<And>x y. keeps f (a x y)) \<Longrightarrow> keeps f (case v of (x, y) \<Rightarrow> a x y)"
  by (cases v) simp_all

lemma keeps_files_update: "ctl f \<Longrightarrow> keeps f (modify (\<lambda>s. s\<lparr>files := g (files s)\<rparr>))"
  by (simp add: keeps_def ctl_def)
lemma keeps_dirs_update: "ctl f \<Longrightarrow> keeps f (modify (\<lambda>s. s\<lparr>dirs := g (dirs s)\<rparr>))"
  by (simp add: keeps_def ctl_def)
lemma keeps_ticks_update: "ctl f \<Longrightarrow> keeps f (modify (\<lambda>s. s\<lparr>ticks := k\<rparr>))"
  by (simp add: keeps_def ctl_def)

lemma keeps_existsSync [keeps_intros]: "keeps f (existsSync p)"
  by (simp add: existsSync_def keeps_intros)
lemma keeps_copyFileSync [keeps_intros]: "ctl f \<Longrightarrow> keeps f (copyFileSync a b)"
  unfolding copyFileSync_def by (intro keeps_intros keeps_files_update)
lemma keeps_unlinkSync [keeps_intros]: "ctl f \<Longrightarrow> keeps f (unlinkSync a)"
  unfolding unlinkSync_def by (intro keeps_intros keeps_files_update)
lemma keeps_writeFileSync [keeps_intros]: "ctl f \<Longrightarrow> keeps f (writeFileSync a b)"
  unfolding writeFileSync_def by (intro keeps_intros keeps_files_update)
lemma keeps_mkdirSync [keeps_intros]: "ctl f \<Longrightarrow> keeps f (mkdirSync a)"
  unfolding mkdirSync_def by (rule keeps_dirs_update[where g = "\<lambda>d. a # d"])
lemma keeps_readdirSync [keeps_intros]: "keeps f (readdirSync a)"
  unfolding readdirSync_def by (intro keeps_intros)
lemma keeps_statSync_size [keeps_intros]: "keeps f (statSync_size a)"
  unfolding statSync_size_def by (intro keeps_intros)
lemma keeps_dateNow [keeps_intros]: "ctl f \<Longrightarrow> keeps f (dateNow env)"
  unfolding dateNow_def by (intro keeps_intros keeps_ticks_update)
lemma keeps_runFFmpeg [keeps_intros]: "ctl f \<Longrightarrow> keeps f (runFFmpeg env args)"
  unfolding runFFmpeg_def by (intro keeps_intros keeps_files_update)
lemma keeps_runFFprobe [keeps_intros]: "ctl f \<Longrightarrow> keeps f (runFFprobe env args)"
  unfolding runFFprobe_def by (intro keeps_intros)
lemma keeps_getDuration [keeps_intros]: "ctl f \<Longrightarrow> keeps f (getDuration env p)"
  unfolding getDuration_def by (intro keeps_intros)
lemma keeps_uploadFile [keeps_intros]: "ctl f \<Longrightarrow> keeps f (uploadFile env p b k c)"
  unfolding uploadFile_def by (intro keeps_intros)
lemma keeps_addSilencePadding [keeps_intros]: "ctl f \<Longrightarrow> keeps f (addSilencePadding env a b p)"
  unfolding addSilencePadding_def Let_def by (intro keeps_intros)
lemma keeps_trimAudioStart [keeps_intros]: "ctl f \<Longrightarrow> keeps f (trimAudioStart env a b p)"
  unfolding trimAudioStart_def by (intro keeps_intros)
lemma keeps_mergeWithSync [keeps_intros]: "ctl f \<Longrightarrow> keeps f (mergeWithSync env a b p)"
  unfolding mergeWithSync_def by (intro keeps_intros)
lemma keeps_finalTrimFromOffset [keeps_intros]: "ctl f \<Longrightarrow> keeps f (finalTrimFromOffset env a b p q)"
  unfolding finalTrimFromOffset_def by (intro keeps_intros)
lemma keeps_extractAudioFromVideo [keeps_intros]: "ctl f \<Longrightarrow> keeps f (extractAudioFromVideo env a b)"
  unfolding extractAudioFromVideo_def by (intro keeps_intros)
lemma keeps_cleanupTempFiles [keeps_intros]: "keeps f (cleanupTempFiles ps)"
  unfolding cleanupTempFiles_def by (intro keeps_intros)
lemma keeps_uploadChunk [keeps_intros]: "ctl f \<Longrightarrow> keeps f (uploadChunk env d b x)"
  unfolding uploadChunk_def Let_def by (intro keeps_intros)
lemma keeps_uploadChunkLoop [keeps_intros]: "ctl f \<Longrightarrow> keeps f (uploadChunkLoop env d b fs)"
  by (induction fs) (auto simp only: uploadChunkLoop.simps intro!: keeps_intros)
lemma keeps_uploadAudioChunks [keeps_intros]: "ctl f \<Longrightarrow> keeps f (uploadAudioChunks env d b)"
  unfolding uploadAudioChunks_def by (intro keeps_intros)
lemma keeps_createAudioChunks [keeps_intros]: "ctl f \<Longrightarrow> keeps f (createAudioChunks env p)"
  unfolding createAudioChunks_def Let_def by (intro keeps_intros)
lemma keeps_prepareAudio [keeps_intros]: "ctl f \<Longrightarrow> keeps f (prepareAudio env a b p)"
  unfolding prepareAudio_def by (intro keeps_intros)
lemma keeps_calculateVideoOffset [keeps_intros]: "ctl f \<Longrightarrow> keeps f (calculateVideoOffset env a b)"
  unfolding calculateVideoOffset_def by (intro keeps_intros)
lemma keeps_finishMerge [keeps_intros]: "ctl f \<Longrightarrow> keeps f (finishMerge env c)"
  unfolding finishMerge_def Let_def by (intro keeps_intros)
lemma keeps_trimAndMerge [keeps_intros]: "ctl f \<Longrightarrow> keeps f (trimAndMerge env r)"
  unfolding trimAndMerge_def Let_def by (intro keeps_intros)

lemma ctl_outputPath: "ctl outputPath" by (simp add: ctl_def)
lemma ctl_audioOutputPath: "ctl audioOutputPath" by (simp add: ctl_def)
lemma ctl_meetingStartTime: "ctl meetingStartTime" by (simp add: ctl_def)
lemma ctl_recordingStartTime: "ctl recordingStartTime" by (simp add: ctl_def)
lemma ctl_filesUploaded: "ctl filesUploaded" by (simp add: ctl_def)
lemma ctl_errorListener: "ctl errorListener" by (simp add: ctl_def)
lemma ctl_isRecording: "ctl isRecording" by (simp add: ctl_def)

subsection \<open>Programs that never throw\<close>

named_theorems nothrow_intros

lemma nothrowI: "(\<And>s. \<exists>x. fst (m s) = Inr x) \<Longrightarrow> nothrow m" by (simp add: nothrow_def)
lemma nothrowD: "nothrow m \<Longrightarrow> \<exists>x. fst (m s) = Inr x" by (simp add: nothrow_def)

lemma nothrow_ret [nothrow_intros]: "nothrow (ret x)" by (simp add: nothrow_def)
lemma nothrow_getS [nothrow_intros]: "nothrow (getS f)" by (simp add: nothrow_def)
lemma nothrow_modify [nothrow_intros]: "nothrow (modify f)" by (simp add: nothrow_def)
lemma nothrow_act [nothrow_intros]: "nothrow (act a)" by (simp add: nothrow_def)

lemma nothrow_bnd [nothrow_intros]:
  assumes "nothrow m" "\<And>x. nothrow (f x)"
  shows "nothrow (bnd m f)"
proof (rule nothrowI)
  fix s
  from nothrowD[OF assms(1), of s] obtain x s1 where ms: "m s = (Inr x, s1)"
    by (cases "m s") auto
  from nothrowD[OF assms(2), of x s1] ms show "\<exists>y. fst (bnd m f s) = Inr y" by (simp add: bnd_apply)
qed

lemma nothrow_try_catch [nothrow_intros]:
  assumes "\<And>e. nothrow (h e)"
  shows "nothrow (try_catch m h)"
proof (rule nothrowI)
  fix s
  obtain r s1 where ms: "m s = (r, s1)" by (cases "m s")
  show "\<exists>y. fst (try_catch m h s) = Inr y"
  proof (cases r)
    case (Inr x) with ms show ?thesis by (simp add: try_catch_apply)
  next
    case (Inl e)
    from nothrowD[OF assms, of e s1] Inl ms show ?thesis by (simp add: try_catch_apply)
  qed
qed

lemma nothrow_if [nothrow_intros]: "nothrow a \<Longrightarrow> nothrow b \<Longrightarrow> nothrow (if c then a else b)" by simp

lemma nothrow_existsSync [nothrow_intros]: "nothrow (existsSync p)"
  by (simp add: existsSync_def nothrow_intros)
lemma nothrow_uploadChunk [nothrow_intros]: "nothrow (uploadChunk env d b f)"
  unfolding uploadChunk_def Let_def by (intro nothrow_intros)
lemma nothrow_uploadChunkLoop [nothrow_intros]: "nothrow (uploadChunkLoop env d b fs)"
  by (induction fs) (auto simp only: uploadChunkLoop.simps intro!: nothrow_intros)


subsection \<open>The demo session, field by field\<close>

lemma demo_env_simps [simp]:
  "recording_mode demo_env = SpeakerView"
  "speech_to_text_provider demo_env = True"
  "bot_uuid demo_env = ''bot''"
  "aws_s3_temporary_audio_bucket demo_env = ''tmp-audio''"
  "aws_s3_video_bucket demo_env = ''videos''"
  "isServerless demo_env = False"
  "uploaderPresent demo_env = True"
  "tempPath demo_env = ''/tmp''"
  "audioTmpPath demo_env = ''/chunks''"
  "pm_identifier demo_env = ''id''"
  "path_resolve demo_env p = p"
  "date_now demo_env n = 1030000"
  "ffmpeg_exit demo_env args = Close (Some 0)"
  "ffprobe_run demo_env args = (Close (Some 0), ''100'' @ [CHR 0x0A])"
  "offsetCalc demo_env a v = Inr \<lparr> offsetSeconds = 3 / 20, videoTimestamp = 36 / 5,
                                  audioTimestamp = 141 / 20 \<rparr>"
  "s3_upload demo_env p b key = None"
  "numStr demo_env x = (if x = 100 then ''100'' else if x = 56 / 5 then ''11.2''
                else if x = 444 / 5 then ''88.8'' else if x = 3 / 20 then ''0.15''
                else if x = 1 / 5 then ''0.2'' else ''n'')"
  "parseFloat demo_env str = (if str = ''100'' then 100 else 0)"
  "ffmpeg_files demo_env args fs = (if last args = ''/chunks/bot-%d.wav'' then fs_write ''/chunks/bot-0.wav'' ''pcm'' fs
        else fs_write (last args) ''data'' fs)"
  by (simp_all add: demo_env_def)

lemma demo_state_simps [simp]:
  "ffmpegProcess demo_state = Some \<lparr> killed = False \<rparr>"
  "outputPath demo_state = ''/out/id.mp4''"
  "audioOutputPath demo_state = ''/out/id.wav''"
  "isRecording demo_state = True"
  "filesUploaded demo_state = False"
  "recordingStartTime demo_state = 1000000"
  "meetingStartTime demo_state = 1010000"
  "gracePeriodActive demo_state = False"
  "stoppedListener demo_state = False"
  "errorListener demo_state = False"
  "files demo_state = [(''/tmp/raw.mp4'', ''v''), (''/tmp/raw.wav'', ''a'')]"
  "dirs demo_state = [''/tmp'', ''/out'']"
  "ticks demo_state = 0"
  "trace demo_state = []"
  by (simp_all add: demo_state_def)

section \<open>The steps of the pipeline, one by one\<close>

lemma bnd_getS: "bnd (getS f) k s = k (f s) s"
  by (simp add: bnd_apply)

lemma grows_run: "grows m \<Longrightarrow> m s = (r, s') \<Longrightarrow> \<exists>xs. trace s' = trace s @ xs"
  using growsD[of m s] by simp

lemma keeps_run: "keeps f m \<Longrightarrow> m s = (r, s') \<Longrightarrow> f s' = f s"
  using keepsD[of f m s] by simp

lemma runFFmpeg_run:
  "runFFmpeg env args s =
     (case ffmpeg_exit env args of
        Close code \<Rightarrow> if code = Some 0 then Inr () else Inl (FFmpegFailed code)
      | ProcError \<Rightarrow> Inl SpawnError,
      s\<lparr>trace := trace s @ [RunFFmpeg args], files := ffmpeg_files env args (files s)\<rparr>)"
  by (simp add: runFFmpeg_def bnd_apply split: proc_end.splits)

lemma runFFmpeg_result:
  assumes "runFFmpeg env args s = (Inr u, s1)"
  shows "s1 = s\<lparr>trace := trace s @ [RunFFmpeg args], files := ffmpeg_files env args (files s)\<rparr>"
    and "ffmpeg_exit env args = Close (Some 0)"
  using assms by (auto simp add: runFFmpeg_run split: proc_end.splits if_splits)

lemma getDuration_result:
  assumes "getDuration env p s = (Inr d, s1)"
  shows "d = probed env p" and "s1 = s\<lparr>trace := trace s @ [RunFFprobe (durationArgs p)]\<rparr>"
  using assms
  by (auto simp add: getDuration_def runFFprobe_def probed_def bnd_apply
           split: prod.splits proc_end.splits if_splits)

lemma bnd_successE' [consumes 1, case_names bind]:
  assumes "bnd m f s = (Inr y, s')"
  obtains x s1 where "m s = (Inr x, s1)" "f x s1 = (Inr y, s')"
  using assms by (rule bnd_successE)

lemma calculateVideoOffset_run:
  "calculateVideoOffset env a v s =
     (case offsetCalc env a v of Inl e \<Rightarrow> Inl e | Inr r \<Rightarrow> Inr r,
      s\<lparr>trace := trace s @ [CalculateVideoOffset a v]\<rparr>)"
  by (simp add: calculateVideoOffset_def bnd_apply split: sum.splits)

lemma ensureMeetingStartTime_run:
  "ensureMeetingStartTime env s =
     (if meetingStartTime s > 0 then (Inr (), s)
      else if date_now env (ticks s + 2) - recordingStartTime s > 10000 then
        (Inr (), s\<lparr>ticks := ticks s + 4, meetingStartTime := date_now env (ticks s + 3) - 5000\<rparr>)
      else (Inl (JoinError BotRemovedTooEarly), s\<lparr>ticks := ticks s + 3\<rparr>))"
  by (simp add: ensureMeetingStartTime_def dateNow_def bnd_apply Let_def numeral_eq_Suc)

lemma syncAndMergeFiles_video:
  assumes "recording_mode env \<noteq> AudioOnly"
      and "offsetCalc env (pjoin (tempPath env) ''raw.wav'') (pjoin (tempPath env) ''raw.mp4'') = Inr sync"
  shows "syncAndMergeFiles env s =
     bnd (ensureMeetingStartTime env) (\<lambda>_. trimAndMerge env sync)
       (s\<lparr>trace := trace s @ [CalculateVideoOffset (pjoin (tempPath env) ''raw.wav'')
                                  (pjoin (tempPath env) ''raw.mp4'')]\<rparr>)"
  using assms by (simp add: syncAndMergeFiles_def Let_def bnd_apply calculateVideoOffset_run)

lemma map_of_fs_remove: "map_of (fs_remove p fs) q = (if q = p then None else map_of fs q)"
  by (induction fs) (auto simp add: fs_remove_def)

lemma fs_remove_absent: "map_of fs p = None \<Longrightarrow> fs_remove p fs = fs"
  by (induction fs) (auto simp add: fs_remove_def split: if_splits)

lemma map_of_fs_write: "map_of (fs_write p c fs) q = (if q = p then Some c else map_of fs q)"
  by (simp add: fs_write_def map_of_fs_remove)

lemma bnd_eq: "m s = (Inr x, s1) \<Longrightarrow> f x s1 = r \<Longrightarrow> bnd m f s = r"
  by (simp add: bnd_apply)

lemma unlink_if_present:
  assumes "p \<notin> set (dirs s)"
  shows "bnd (existsSync p) (\<lambda>present. if present then unlinkSync p else ret ()) s
         = (Inr (), s\<lparr>files := fs_remove p (files s)\<rparr>)"
proof (cases "map_of (files s) p")
  case None
  then show ?thesis using assms
    by (simp add: existsSync_def exists_in_def bnd_apply fs_remove_absent)
next
  case (Some c)
  then show ?thesis using assms
    by (simp add: existsSync_def exists_in_def unlinkSync_def bnd_apply)
qed

lemma uploadChunk_run:
  "uploadChunk env chunksDir botUuid filename s =
     (Inr (), s\<lparr>trace := trace s @ chunk_actions env chunksDir botUuid s filename\<rparr>)"
  by (simp add: uploadChunk_def chunk_actions_def Let_def existsSync_def statSync_size_def
      uploadFile_def bnd_apply try_catch_apply split: option.splits)

lemma chunk_actions_trace:
  "chunk_actions env chunksDir botUuid (s\<lparr>trace := t\<rparr>)
     = chunk_actions env chunksDir botUuid s"
  by (rule ext) (simp add: chunk_actions_def exists_in_def Let_def)

lemma uploadChunkLoop_run:
  "uploadChunkLoop env chunksDir botUuid fs s =
     (Inr (), s\<lparr>trace := trace s @ concat (map (chunk_actions env chunksDir botUuid s) fs)\<rparr>)"
proof (induction fs arbitrary: s)
  case Nil
  show ?case by simp
next
  case (Cons f fs)
  show ?case
    by (simp add: bnd_apply uploadChunk_run Cons.IH chunk_actions_trace)
qed

lemma uploadAudioChunks_run:
  assumes "uploaderPresent env" "chunksDir \<in> set (dirs s)"
  shows "uploadAudioChunks env chunksDir botUuid s =
     (Inr (), s\<lparr>trace := trace s @ concat (map (chunk_actions env chunksDir botUuid s)
                 (filter (isChunkFile botUuid) (entries chunksDir (files s))))\<rparr>)"
  using assms by (simp add: uploadAudioChunks_def readdirSync_def bnd_apply uploadChunkLoop_run)

lemma dirname_concat_list [simp]: "dirname (pjoin dir ''concat_list.txt'') = dir"
  by (simp add: dirname_def pjoin_def)

lemma dirname_processed [simp]: "dirname (pjoin dir ''processed.wav'') = dir"
  by (simp add: dirname_def pjoin_def)

lemma writeFileSync_run:
  "writeFileSync p c s =
     (if dirname p \<in> set (dirs s) then (Inr (), s\<lparr>files := fs_write p c (files s)\<rparr>)
      else (Inl (ENOENT p), s))"
  by (simp add: writeFileSync_def bnd_apply)

lemma copyFileSync_run:
  "copyFileSync src dst s =
     (case map_of (files s) src of
        None \<Rightarrow> (Inl (ENOENT src), s)
      | Some c \<Rightarrow>
          if dirname dst \<in> set (dirs s) then (Inr (), s\<lparr>files := fs_write dst c (files s)\<rparr>)
          else (Inl (ENOENT dst), s))"
  by (simp add: copyFileSync_def bnd_apply split: option.splits)

lemma addSilencePadding_ok:
  assumes "ffmpeg_exit env (silenceArgs env (pjoin (tempPath env) ''silence.wav'') p) = Close (Some 0)"
      and "ffmpeg_exit env (concatArgs (pjoin (tempPath env) ''concat_list.txt'') out) = Close (Some 0)"
      and "tempPath env \<in> set (dirs s)"
      and "pjoin (tempPath env) ''silence.wav'' \<notin> set (dirs s)"
      and "pjoin (tempPath env) ''concat_list.txt'' \<notin> set (dirs s)"
  shows "addSilencePadding env inp out p s =
    (Inr (), s\<lparr>trace := trace s @
                 [RunFFmpeg (silenceArgs env (pjoin (tempPath env) ''silence.wav'') p),
                  RunFFmpeg (concatArgs (pjoin (tempPath env) ''concat_list.txt'') out)],
               files := fs_remove (pjoin (tempPath env) ''concat_list.txt'')
                 (fs_remove (pjoin (tempPath env) ''silence.wav'')
                   (ffmpeg_files env (concatArgs (pjoin (tempPath env) ''concat_list.txt'') out)
                     (fs_write (pjoin (tempPath env) ''concat_list.txt'')
                        (concatContent (path_resolve env (pjoin (tempPath env) ''silence.wav''))
                                       (path_resolve env inp))
                        (ffmpeg_files env (silenceArgs env (pjoin (tempPath env) ''silence.wav'') p)
                           (files s)))))\<rparr>)"
proof -
  let ?sil = "pjoin (tempPath env) ''silence.wav''"
  let ?lst = "pjoin (tempPath env) ''concat_list.txt''"
  let ?A1 = "silenceArgs env ?sil p"
  let ?A2 = "concatArgs ?lst out"
  let ?F1 = "ffmpeg_files env ?A1 (files s)"
  let ?F2 = "ffmpeg_files env ?A2 (fs_write ?lst
               (concatContent (path_resolve env ?sil) (path_resolve env inp)) ?F1)"
  let ?s3 = "s\<lparr>trace := trace s @ [RunFFmpeg ?A1, RunFFmpeg ?A2], files := ?F2\<rparr>"
  have d3: "?sil \<notin> set (dirs ?s3)" using assms(4) by simp
  let ?s4 = "?s3\<lparr>files := fs_remove ?sil (files ?s3)\<rparr>"
  have d4: "?lst \<notin> set (dirs ?s4)" using assms(5) by simp
  have u1: "bnd (existsSync ?sil) (\<lambda>present. if present then unlinkSync ?sil else ret ()) ?s3
         = (Inr (), ?s4)" by (rule unlink_if_present[OF d3])
  have u2: "bnd (existsSync ?lst) (\<lambda>present. if present then unlinkSync ?lst else ret ()) ?s4
         = (Inr (), ?s4\<lparr>files := fs_remove ?lst (files ?s4)\<rparr>)"
    by (rule unlink_if_present[OF d4])
  have pre: "addSilencePadding env inp out p s =
     bnd (bnd (existsSync ?sil) (\<lambda>present. if present then unlinkSync ?sil else ret ()))
       (\<lambda>_. bnd (existsSync ?lst) (\<lambda>present. if present then unlinkSync ?lst else ret ())) ?s3"
    using assms(1,2,3)
    by (simp add: addSilencePadding_def Let_def runFFmpeg_run writeFileSync_run
        bnd_apply[of "runFFmpeg _ _"] bnd_apply[of "writeFileSync _ _"])
  have "bnd (bnd (existsSync ?sil) (\<lambda>present. if present then unlinkSync ?sil else ret ()))
       (\<lambda>_. bnd (existsSync ?lst) (\<lambda>present. if present then unlinkSync ?lst else ret ())) ?s3
     = bnd (existsSync ?lst) (\<lambda>present. if present then unlinkSync ?lst else ret ()) ?s4"
    by (rule bnd_eq[where x = "()" and ?s1.0 = ?s4], rule u1, rule refl)
  then show ?thesis unfolding pre u2 by simp
qed

text \<open>Video mode, after steps 1 and 2: step 5 runs with the difference of the two tone times.\<close>

lemma syncAndMergeFiles_steps:
  assumes "recording_mode env \<noteq> AudioOnly"
      and "offsetCalc env (pjoin (tempPath env) ''raw.wav'') (pjoin (tempPath env) ''raw.mp4'') = Inr sync"
      and "ensureMeetingStartTime env
             (s\<lparr>trace := trace s @ [CalculateVideoOffset (pjoin (tempPath env) ''raw.wav'')
                                       (pjoin (tempPath env) ''raw.mp4'')]\<rparr>) = (Inr (), s2)"
  shows "syncAndMergeFiles env s =
     bnd (prepareAudio env (pjoin (tempPath env) ''raw.wav'') (pjoin (tempPath env) ''processed.wav'')
            (videoTimestamp sync - audioTimestamp sync))
         (\<lambda>_. finishMerge env
                 (videoTimestamp sync
                    + (meetingStartTime s2 - recordingStartTime s2 - FLASH_SCREEN_SLEEP_TIME) / 1000))
         s2"
  unfolding syncAndMergeFiles_video[OF assms(1,2)]
  by (simp add: bnd_apply[of "ensureMeetingStartTime env"] assms(3) trimAndMerge_def Let_def bnd_getS)

section \<open>The words poster: deduplication with rollback\<close>




section \<open>Live fan-out: how many samples a chunk gives\<close>

lemma take4_step:
  assumes "4 * Suc n \<le> length xs"
  shows "take (4 * Suc n) xs = take (4 * n) xs @ [xs ! (4 * n), xs ! (4 * n + 1), xs ! (4 * n + 2), xs ! (4 * n + 3)]"
proof -
  have "take (4 * n + 4) xs = take (4 * n) xs @ take 4 (drop (4 * n) xs)"
    by (simp add: take_add)
  moreover have "take 4 (drop (4 * n) xs) = [xs ! (4 * n), xs ! (4 * n + 1), xs ! (4 * n + 2), xs ! (4 * n + 3)]"
    using assms by (auto simp: list_eq_iff_nth_eq nth_Cons' numeral_eq_Suc less_Suc_eq)
  ultimately show ?thesis by (simp add: algebra_simps)
qed

lemma concat_f32_take:
  "4 * n \<le> length xs \<Longrightarrow>
   concat (map (\<lambda>i. f32_bytes (F32 (xs ! (4 * i)) (xs ! (4 * i + 1)) (xs ! (4 * i + 2)) (xs ! (4 * i + 3)))) [0..<n])
     = take (4 * n) xs"
proof (induction n)
  case 0 then show ?case by simp
next
  case (Suc n)
  then have "4 * n \<le> length xs" by simp
  with Suc show ?case by (simp add: take4_step del: mult_Suc_right)
qed

lemma Float32Array_ok:
  assumes "off mod 4 = 0" "off + m \<le> length buf"
  shows "\<exists>arr. Float32Array buf off (real m / 4) = Inr arr \<and> length arr = m div 4
           \<and> concat (map f32_bytes arr) = take (4 * (m div 4)) (take m (drop off buf))"
proof -
  have n: "toIndex (real m / 4) = m div 4"
    unfolding toIndex_def using floor_divide_of_nat_eq[of m 4, where ?'a = real] by simp
  have le: "4 * (m div 4) \<le> m" by simp
  define xs where "xs = take m (drop off buf)"
  define A where "A = map (\<lambda>i. F32 (buf ! (off + 4 * i)) (buf ! (off + 4 * i + 1))
                             (buf ! (off + 4 * i + 2)) (buf ! (off + 4 * i + 3))) [0..<m div 4]"
  define B where "B = map (\<lambda>i. F32 (xs ! (4 * i)) (xs ! (4 * i + 1)) (xs ! (4 * i + 2)) (xs ! (4 * i + 3))) [0..<m div 4]"
  have len: "length xs = m" using assms by (simp add: xs_def)
  have nth: "\<And>j. j < m \<Longrightarrow> buf ! (off + j) = xs ! j" using assms by (simp add: xs_def)
  have AB: "A = B" unfolding A_def B_def
  proof (rule map_cong[OF refl])
    fix i assume "i \<in> set [0..<m div 4]"
    then have "4 * i + 3 < m" using le by auto
    then show "F32 (buf ! (off + 4 * i)) (buf ! (off + 4 * i + 1))
                             (buf ! (off + 4 * i + 2)) (buf ! (off + 4 * i + 3))
        = F32 (xs ! (4 * i)) (xs ! (4 * i + 1)) (xs ! (4 * i + 2)) (xs ! (4 * i + 3))"
      using nth[of "4 * i"] nth[of "4 * i + 1"] nth[of "4 * i + 2"] nth[of "4 * i + 3"]
      by (simp add: add.assoc)
  qed
  have "4 * (m div 4) \<le> length xs" using le by (simp only: len)
  then have "concat (map (\<lambda>i. f32_bytes (F32 (xs ! (4 * i)) (xs ! (4 * i + 1)) (xs ! (4 * i + 2)) (xs ! (4 * i + 3)))) [0..<m div 4])
     = take (4 * (m div 4)) xs"
    by (rule concat_f32_take)
  then have cB: "concat (map f32_bytes B) = take (4 * (m div 4)) xs"
    unfolding B_def by (simp only: map_map comp_def)
  have "\<not> off + 4 * (m div 4) > length buf" using assms(2) le by linarith
  then have F: "Float32Array buf off (real m / 4) = Inr A"
    unfolding Float32Array_def n A_def using assms(1) by (simp only: Let_def if_False simp_thms)
  have "length A = m div 4" by (simp add: A_def)
  with F cB AB show ?thesis unfolding xs_def by blast
qed

text \<open>
  Claim C6, as the code has it. For a chunk whose view starts at a multiple of four
  bytes, while a sink exists, the handler hands the sink one frame of
  \<open>blength div 4\<close> samples, made of the first \<open>4 * (blength div 4)\<close> bytes of the chunk in
  order; when the length of the chunk is a multiple of four, these are all its bytes.
\<close>

theorem fanout_samples:
  assumes "wf_buffer d" "byteOffset d mod 4 = 0"
  shows "\<exists>arr. onStdoutData d (Some frames) = (Inr (), Some (frames @ [arr]))
           \<and> length arr = blength d div 4
           \<and> concat (map f32_bytes arr) = take (4 * (blength d div 4)) (chunk_bytes d)
           \<and> (blength d mod 4 = 0 \<longrightarrow> concat (map f32_bytes arr) = chunk_bytes d)"
proof -
  have "byteOffset d + blength d \<le> length (buffer d)" using assms(1) by (simp add: wf_buffer_def)
  from Float32Array_ok[OF assms(2) this] obtain arr where a: "Float32Array (buffer d) (byteOffset d) (real (blength d) / 4) = Inr arr"
     "length arr = blength d div 4"
     "concat (map f32_bytes arr) = take (4 * (blength d div 4)) (chunk_bytes d)"
    unfolding chunk_bytes_def by blast
  have "blength d mod 4 = 0 \<Longrightarrow> 4 * (blength d div 4) = blength d" by auto
  moreover have "length (chunk_bytes d) = blength d" using assms unfolding wf_buffer_def chunk_bytes_def by simp
  ultimately show ?thesis using a unfolding onStdoutData_def by auto
qed

theorem fanout_samples_witness:
  "wf_buffer eight_byte_chunk \<and> byteOffset eight_byte_chunk mod 4 = 0
   \<and> blength eight_byte_chunk mod 4 = 0
   \<and> onStdoutData eight_byte_chunk (Some []) = (Inr (), Some [[F32 1 2 3 4, F32 5 6 7 8]])"
proof -
  have wf: "wf_buffer eight_byte_chunk" by (simp add: wf_buffer_def eight_byte_chunk_def)
  have al: "byteOffset eight_byte_chunk mod 4 = 0" by (simp add: eight_byte_chunk_def)
  from fanout_samples [OF wf al, of "[]"] obtain arr where
    r: "onStdoutData eight_byte_chunk (Some []) = (Inr (), Some ([] @ [arr]))"
    and l: "length arr = blength eight_byte_chunk div 4" by blast
  have e: "onStdoutData eight_byte_chunk (Some []) = (Inr (), Some [[F32 1 2 3 4, F32 5 6 7 8]])"
    by (simp add: onStdoutData_def Float32Array_def toIndex_def eight_byte_chunk_def upt_rec)
  from wf al r e show ?thesis by (simp add: eight_byte_chunk_def)
qed

text \<open>
  A chunk of six bytes: one sample is handed over, and the bytes 5 and 6 are dropped. The
  length of a chunk need not be a multiple of four, and nothing in the handler checks it.
\<close>

theorem fanout_drops_trailing_bytes:
  "wf_buffer six_byte_chunk \<and> blength six_byte_chunk mod 4 \<noteq> 0
   \<and> onStdoutData six_byte_chunk (Some []) = (Inr (), Some [[F32 1 2 3 4]])
   \<and> concat (map f32_bytes [F32 1 2 3 4]) \<noteq> chunk_bytes six_byte_chunk"
  by (simp add: onStdoutData_def Float32Array_def toIndex_def six_byte_chunk_def wf_buffer_def
      chunk_bytes_def upt_rec)

section \<open>Exit classification of the capture process\<close>



lemma emit_ErrorEvent_run:
  "emit (ErrorEvent e) s =
     (if errorListener s then (Inr (), s\<lparr>trace := trace s @ [Emit (ErrorEvent e)]\<rparr>)
      else (Inl (UnhandledError e), s))"
  by (simp add: emit_def bnd_apply)

lemma keeps_errorListener_ensure: "keeps errorListener (ensureMeetingStartTime env)"
  by (simp add: keeps_def ensureMeetingStartTime_run)

lemma keeps_errorListener_sync: "keeps errorListener (syncAndMergeFiles env)"
  unfolding syncAndMergeFiles_def Let_def
  by (intro keeps_intros keeps_errorListener_ensure ctl_errorListener)

text \<open>
  \<^verbatim>\<open>handleSuccessfulRecording\<close> when the pipeline throws: the error is reported to the
  listener, or thrown back when there is none.
\<close>

lemma handle_failed:
  assumes "syncAndMergeFiles env (s\<lparr>trace := trace s @ [Log NativeRecordingCompleted]\<rparr>) = (Inl e, s2)"
  shows "handleSuccessfulRecording env s =
     (if errorListener s then
        (Inr (), s2\<lparr>trace := trace s2 @ [Log (ProcessingError e), Emit (ErrorEvent e)]\<rparr>)
      else (Inl (UnhandledError e), s2\<lparr>trace := trace s2 @ [Log (ProcessingError e)]\<rparr>))"
proof -
  have "errorListener s2 = errorListener (s\<lparr>trace := trace s @ [Log NativeRecordingCompleted]\<rparr>)"
    by (rule keeps_run[OF keeps_errorListener_sync assms])
  then have l: "errorListener s2 = errorListener s" by simp
  show ?thesis
    by (simp add: handleSuccessfulRecording_def bnd_apply try_catch_apply assms
        emit_ErrorEvent_run l)
qed








section \<open>Stop on a session that is not running\<close>

lemma stopRecording_running:
  assumes "isRecording s" "ffmpegProcess s = Some p"
  shows "stopRecording s =
    (Inr (), s\<lparr>gracePeriodActive := True, stoppedListener := True,
               ffmpegProcess := Some (p\<lparr>killed := True\<rparr>),
               trace := trace s @ [SetTimeout 3000, Kill SIGINT, SetTimeout 8000]\<rparr>)"
  using assms by (simp add: stopRecording_def kill_def bnd_apply)

text \<open>
  Claim C9. When the session is not recording, or has no capture process, the call
  returns at once and the state is what it was: the grace-period flag is not set, no
  signal is sent, no timer is armed. Calling it again changes nothing either.
\<close>

theorem stopRecording_idle:
  assumes "\<not> isRecording s \<or> ffmpegProcess s = None"
  shows "stopRecording s = (Inr (), s) \<and> bnd stopRecording (\<lambda>_. stopRecording) s = (Inr (), s)"
  using assms by (auto simp add: stopRecording_def bnd_apply)

theorem stopRecording_idle_witness:
  "\<not> isRecording (demo_state\<lparr>isRecording := False\<rparr>)
   \<and> stopRecording (demo_state\<lparr>isRecording := False\<rparr>) = (Inr (), demo_state\<lparr>isRecording := False\<rparr>)
   \<and> stopRecording (demo_state\<lparr>ffmpegProcess := None\<rparr>) = (Inr (), demo_state\<lparr>ffmpegProcess := None\<rparr>)
   \<and> new_actions demo_state (snd (stopRecording demo_state)) = [SetTimeout 3000, Kill SIGINT, SetTimeout 8000]
   \<and> gracePeriodActive (snd (stopRecording demo_state))"
  using stopRecording_idle [of "demo_state\<lparr>isRecording := False\<rparr>"]
        stopRecording_idle [of "demo_state\<lparr>ffmpegProcess := None\<rparr>"]
        stopRecording_running [of demo_state "\<lparr>killed = False\<rparr>"]
  by (simp add: new_actions_def)

section \<open>The meeting-time fallback\<close>

text \<open>
  Claim C2, as the code has it. In video mode, once the offset calculation of step 1 has
  succeeded, with the meeting start time unset (zero, or not positive): when the recording
  duration, read from the clock, exceeds 10 000 ms, the meeting start time becomes the
  next clock reading minus 5 000 ms and the pipeline goes on from there (steps 3 to 9);
  when it is at most 10 000 ms, \<open>BotRemovedTooEarly\<close> is thrown, no media tool has been
  run, and \<^verbatim>\<open>handleSuccessfulRecording\<close> uploads nothing and reports the error to the
  listener for \<^verbatim>\<open>error\<close> events, or throws when there is none. The clock readings
  \<open>ticks s\<close> and \<open>ticks s + 1\<close> go into the timing report.
\<close>

theorem meeting_time_fallback:
  assumes "recording_mode env \<noteq> AudioOnly"
      and "offsetCalc env (pjoin (tempPath env) ''raw.wav'') (pjoin (tempPath env) ''raw.mp4'') = Inr sync"
      and "meetingStartTime s \<le> 0"
  shows "(date_now env (ticks s + 2) - recordingStartTime s > 10000 \<longrightarrow>
            syncAndMergeFiles env s =
              trimAndMerge env sync
                (s\<lparr>trace := trace s @ [CalculateVideoOffset (pjoin (tempPath env) ''raw.wav'')
                                           (pjoin (tempPath env) ''raw.mp4'')],
                   ticks := ticks s + 4,
                   meetingStartTime := date_now env (ticks s + 3) - 5000\<rparr>)
            \<and> meetingStartTime (snd (syncAndMergeFiles env s)) = date_now env (ticks s + 3) - 5000)
       \<and> (date_now env (ticks s + 2) - recordingStartTime s \<le> 10000 \<longrightarrow>
            syncAndMergeFiles env s =
              (Inl (JoinError BotRemovedTooEarly),
               s\<lparr>trace := trace s @ [CalculateVideoOffset (pjoin (tempPath env) ''raw.wav'')
                                          (pjoin (tempPath env) ''raw.mp4'')],
                  ticks := ticks s + 3\<rparr>)
            \<and> handleSuccessfulRecording env s =
              (if errorListener s then
                 (Inr (),
                  s\<lparr>trace := trace s @ [Log NativeRecordingCompleted,
                                          CalculateVideoOffset (pjoin (tempPath env) ''raw.wav'')
                                             (pjoin (tempPath env) ''raw.mp4''),
                                          Log (ProcessingError (JoinError BotRemovedTooEarly)),
                                          Emit (ErrorEvent (JoinError BotRemovedTooEarly))],
                     ticks := ticks s + 3\<rparr>)
               else
                 (Inl (UnhandledError (JoinError BotRemovedTooEarly)),
                  s\<lparr>trace := trace s @ [Log NativeRecordingCompleted,
                                          CalculateVideoOffset (pjoin (tempPath env) ''raw.wav'')
                                             (pjoin (tempPath env) ''raw.mp4''),
                                          Log (ProcessingError (JoinError BotRemovedTooEarly))],
                     ticks := ticks s + 3\<rparr>)))"
proof (intro conjI impI)
  assume long: "date_now env (ticks s + 2) - recordingStartTime s > 10000"
  let ?s2 = "s\<lparr>trace := trace s @ [CalculateVideoOffset (pjoin (tempPath env) ''raw.wav'')
                                           (pjoin (tempPath env) ''raw.mp4'')],
                   ticks := ticks s + 4,
                   meetingStartTime := date_now env (ticks s + 3) - 5000\<rparr>"
  show eq: "syncAndMergeFiles env s = trimAndMerge env sync ?s2"
    using assms(3) long
    by (simp add: syncAndMergeFiles_video[OF assms(1,2)] bnd_apply ensureMeetingStartTime_run)
  have "meetingStartTime (snd (trimAndMerge env sync ?s2)) = meetingStartTime ?s2"
    by (rule keepsD[OF keeps_trimAndMerge[OF ctl_meetingStartTime]])
  then show "meetingStartTime (snd (syncAndMergeFiles env s)) = date_now env (ticks s + 3) - 5000"
    by (simp add: eq)
next
  assume short: "date_now env (ticks s + 2) - recordingStartTime s \<le> 10000"
  show eq: "syncAndMergeFiles env s =
              (Inl (JoinError BotRemovedTooEarly),
               s\<lparr>trace := trace s @ [CalculateVideoOffset (pjoin (tempPath env) ''raw.wav'')
                                          (pjoin (tempPath env) ''raw.mp4'')],
                  ticks := ticks s + 3\<rparr>)"
    using assms(3) short
    by (simp add: syncAndMergeFiles_video[OF assms(1,2)] bnd_apply ensureMeetingStartTime_run)
  have eq': "syncAndMergeFiles env (s\<lparr>trace := trace s @ [Log NativeRecordingCompleted]\<rparr>) =
              (Inl (JoinError BotRemovedTooEarly),
               s\<lparr>trace := trace s @ [Log NativeRecordingCompleted,
                                       CalculateVideoOffset (pjoin (tempPath env) ''raw.wav'')
                                          (pjoin (tempPath env) ''raw.mp4'')],
                  ticks := ticks s + 3\<rparr>)"
    using assms(3) short
    by (simp add: syncAndMergeFiles_video[OF assms(1,2)] bnd_apply ensureMeetingStartTime_run)
  show "handleSuccessfulRecording env s =
              (if errorListener s then
                 (Inr (),
                  s\<lparr>trace := trace s @ [Log NativeRecordingCompleted,
                                          CalculateVideoOffset (pjoin (tempPath env) ''raw.wav'')
                                             (pjoin (tempPath env) ''raw.mp4''),
                                          Log (ProcessingError (JoinError BotRemovedTooEarly)),
                                          Emit (ErrorEvent (JoinError BotRemovedTooEarly))],
                     ticks := ticks s + 3\<rparr>)
               else
                 (Inl (UnhandledError (JoinError BotRemovedTooEarly)),
                  s\<lparr>trace := trace s @ [Log NativeRecordingCompleted,
                                          CalculateVideoOffset (pjoin (tempPath env) ''raw.wav'')
                                             (pjoin (tempPath env) ''raw.mp4''),
                                          Log (ProcessingError (JoinError BotRemovedTooEarly))],
                     ticks := ticks s + 3\<rparr>))"
    by (simp add: handle_failed[OF eq'])
qed

theorem meeting_time_fallback_witness:
  "meetingStartTime (demo_state\<lparr>meetingStartTime := 0\<rparr>) \<le> 0
   \<and> date_now demo_env 2 - recordingStartTime demo_state > 10000
   \<and> meetingStartTime (snd (syncAndMergeFiles demo_env (demo_state\<lparr>meetingStartTime := 0\<rparr>))) = 1025000
   \<and> meetingStartTime early_state \<le> 0
   \<and> date_now demo_env 2 - recordingStartTime early_state \<le> 10000
   \<and> syncAndMergeFiles demo_env early_state
       = (Inl (JoinError BotRemovedTooEarly),
          early_state\<lparr>trace := [CalculateVideoOffset ''/tmp/raw.wav'' ''/tmp/raw.mp4''], ticks := 3\<rparr>)
   \<and> handleSuccessfulRecording demo_env early_state
       = (Inl (UnhandledError (JoinError BotRemovedTooEarly)),
          early_state\<lparr>trace := [Log NativeRecordingCompleted,
                                 CalculateVideoOffset ''/tmp/raw.wav'' ''/tmp/raw.mp4'',
                                 Log (ProcessingError (JoinError BotRemovedTooEarly))],
                       ticks := 3\<rparr>)"
proof -
  let ?sync = "\<lparr> offsetSeconds = 3 / 20, videoTimestamp = 36 / 5, audioTimestamp = 141 / 20 \<rparr>"
  let ?s1 = "demo_state\<lparr>meetingStartTime := 0\<rparr>"
  let ?s2 = "early_state"
  have m: "recording_mode demo_env \<noteq> AudioOnly" by simp
  have o: "offsetCalc demo_env (pjoin (tempPath demo_env) ''raw.wav'')
             (pjoin (tempPath demo_env) ''raw.mp4'') = Inr ?sync" by simp
  have z1: "meetingStartTime ?s1 \<le> 0" and z2: "meetingStartTime ?s2 \<le> 0"
    by (simp_all add: early_state_def)
  have long: "date_now demo_env (ticks ?s1 + 2) - recordingStartTime ?s1 > 10000" by simp
  have short: "date_now demo_env (ticks ?s2 + 2) - recordingStartTime ?s2 \<le> 10000"
    by (simp add: early_state_def)
  have nl: "\<not> errorListener ?s2" by (simp add: early_state_def)
  from meeting_time_fallback [OF m o z1] long
  have A: "meetingStartTime (snd (syncAndMergeFiles demo_env ?s1))
             = date_now demo_env (ticks ?s1 + 3) - 5000" by blast
  from meeting_time_fallback [OF m o z2] short
  have B: "syncAndMergeFiles demo_env ?s2 =
              (Inl (JoinError BotRemovedTooEarly),
               ?s2\<lparr>trace := trace ?s2 @ [CalculateVideoOffset (pjoin (tempPath demo_env) ''raw.wav'')
                                          (pjoin (tempPath demo_env) ''raw.mp4'')],
                  ticks := ticks ?s2 + 3\<rparr>)"
    and H: "handleSuccessfulRecording demo_env ?s2 =
              (if errorListener ?s2 then
                 (Inr (),
                  ?s2\<lparr>trace := trace ?s2 @ [Log NativeRecordingCompleted,
                                          CalculateVideoOffset (pjoin (tempPath demo_env) ''raw.wav'')
                                             (pjoin (tempPath demo_env) ''raw.mp4''),
                                          Log (ProcessingError (JoinError BotRemovedTooEarly)),
                                          Emit (ErrorEvent (JoinError BotRemovedTooEarly))],
                     ticks := ticks ?s2 + 3\<rparr>)
               else
                 (Inl (UnhandledError (JoinError BotRemovedTooEarly)),
                  ?s2\<lparr>trace := trace ?s2 @ [Log NativeRecordingCompleted,
                                          CalculateVideoOffset (pjoin (tempPath demo_env) ''raw.wav'')
                                             (pjoin (tempPath demo_env) ''raw.mp4''),
                                          Log (ProcessingError (JoinError BotRemovedTooEarly))],
                     ticks := ticks ?s2 + 3\<rparr>))"
    by blast+
  have C: "meetingStartTime (snd (syncAndMergeFiles demo_env ?s1)) = 1025000"
    unfolding A by simp
  have D: "syncAndMergeFiles demo_env ?s2
       = (Inl (JoinError BotRemovedTooEarly),
          early_state\<lparr>trace := [CalculateVideoOffset ''/tmp/raw.wav'' ''/tmp/raw.mp4''], ticks := 3\<rparr>)"
    unfolding B by (simp add: pjoin_def early_state_def)
  have E: "handleSuccessfulRecording demo_env ?s2
       = (Inl (UnhandledError (JoinError BotRemovedTooEarly)),
          early_state\<lparr>trace := [Log NativeRecordingCompleted,
                                 CalculateVideoOffset ''/tmp/raw.wav'' ''/tmp/raw.mp4'',
                                 Log (ProcessingError (JoinError BotRemovedTooEarly))],
                       ticks := 3\<rparr>)"
    unfolding H using nl by (simp add: pjoin_def early_state_def)
  have F: "date_now demo_env 2 - recordingStartTime demo_state > 10000"
    "date_now demo_env 2 - recordingStartTime early_state \<le> 10000"
    by (simp_all add: early_state_def)
  from z1 z2 C D E F show ?thesis by blast
qed

text \<open>
  The claim as the specification writes it decides on the meeting start time and the
  recording duration alone. In the code the decision comes after the offset calculation:
  when that rejects, the run ends there, whatever the duration. After 30 000 ms of
  recording the meeting start time stays unset and nothing proceeds; after 5 000 ms the
  error is that of the calculation and not \<open>BotRemovedTooEarly\<close>.
\<close>

theorem meeting_time_fallback_counterexample:
  "recording_mode nosync_env \<noteq> AudioOnly
   \<and> meetingStartTime (demo_state\<lparr>meetingStartTime := 0\<rparr>) = 0
   \<and> date_now nosync_env 0 - recordingStartTime (demo_state\<lparr>meetingStartTime := 0\<rparr>) = 30000
   \<and> syncAndMergeFiles nosync_env (demo_state\<lparr>meetingStartTime := 0\<rparr>) =
       (Inl (External ''no sync signal''),
        demo_state\<lparr>meetingStartTime := 0,
                    trace := [CalculateVideoOffset ''/tmp/raw.wav'' ''/tmp/raw.mp4'']\<rparr>)
   \<and> meetingStartTime (snd (syncAndMergeFiles nosync_env (demo_state\<lparr>meetingStartTime := 0\<rparr>))) = 0
   \<and> meetingStartTime early_state = 0
   \<and> date_now nosync_env 0 - recordingStartTime early_state = 5000
   \<and> fst (syncAndMergeFiles nosync_env early_state) = Inl (External ''no sync signal'')
   \<and> fst (syncAndMergeFiles nosync_env early_state) \<noteq> Inl (JoinError BotRemovedTooEarly)"
proof -
  have r: "syncAndMergeFiles nosync_env (demo_state\<lparr>meetingStartTime := 0\<rparr>) =
       (Inl (External ''no sync signal''),
        demo_state\<lparr>meetingStartTime := 0,
                    trace := [CalculateVideoOffset ''/tmp/raw.wav'' ''/tmp/raw.mp4'']\<rparr>)"
    by (simp add: ev nosync_env_def cong: ev_cong)
  have e: "fst (syncAndMergeFiles nosync_env early_state) = Inl (External ''no sync signal'')"
    by (simp add: ev nosync_env_def early_state_def cong: ev_cong)
  show ?thesis unfolding r e by (simp add: nosync_env_def early_state_def)
qed
section \<open>The trim plan\<close>

text \<open>
  Steps 6 to 9, when they succeed: the two durations are probed, and then the final trim
  is run with the trim start and the retained duration of the plan.
\<close>

lemma finishMerge_plan:
  assumes run: "finishMerge env c s = (Inr (), s')"
  shows "\<exists>before after. trace s' = trace s @ before @
           [RunFFprobe (durationArgs (pjoin (tempPath env) ''raw.mp4'')),
            RunFFprobe (durationArgs (pjoin (tempPath env) ''processed.wav'')),
            RunFFmpeg (finalTrimArgs env (pjoin (tempPath env) ''merged.mp4'') (outputPath s) c
              (min (probed env (pjoin (tempPath env) ''raw.mp4'') - c)
                   (probed env (pjoin (tempPath env) ''processed.wav''))))] @ after"
proof -
  note d0 = run[unfolded finishMerge_def Let_def]
  from d0 show ?thesis
  proof (cases rule: bnd_successE')
    case (bind u2 s2)
    have g2: "\<exists>xs. trace s2 = trace s @ xs"
      by (rule grows_run[OF grows_mergeWithSync bind(1)])
    have o2: "outputPath s2 = outputPath s"
      by (rule keeps_run[OF keeps_mergeWithSync[OF ctl_outputPath] bind(1)])
    from bind(2) show ?thesis
    proof (cases rule: bnd_successE')
      case (bind vd s3)
      note v = getDuration_result[OF bind(1)]
      from bind(2) show ?thesis
      proof (cases rule: bnd_successE')
        case (bind ad s4)
        note a = getDuration_result[OF bind(1)]
        note d4 = bind(2)[unfolded bnd_getS]
        from d4 show ?thesis
        proof (cases rule: bnd_successE')
          case (bind u5 s5)
          note f = runFFmpeg_result(1)[OF bind(1)[unfolded finalTrimFromOffset_def]]
          have g5: "\<exists>xs. trace s' = trace s5 @ xs"
            using bind(2)
          proof (cases rule: bnd_successE')
            case (bind u6 s6)
            have g6: "\<exists>xs. trace s6 = trace s5 @ xs"
              by (rule grows_run[OF grows_extractAudioFromVideo bind(1)])
            from bind(2) show ?thesis
            proof (cases rule: bnd_successE')
              case (bind u7 s7)
              have g7: "\<exists>xs. trace s7 = trace s6 @ xs"
                by (rule grows_run[OF grows_createAudioChunks bind(1)])
              have "s' = s7" using bind(2) by (simp add: cleanupTempFiles_def)
              with g6 g7 show ?thesis by auto
            qed
          qed
          from g2 g5 obtain xs2 xs5 where
            t: "trace s2 = trace s @ xs2" "trace s' = trace s5 @ xs5"
            by blast
          have out: "outputPath s4 = outputPath s" using o2 v(2) a(2) by simp
          have "trace s' = trace s @ xs2 @
             [RunFFprobe (durationArgs (pjoin (tempPath env) ''raw.mp4'')),
              RunFFprobe (durationArgs (pjoin (tempPath env) ''processed.wav'')),
              RunFFmpeg (finalTrimArgs env (pjoin (tempPath env) ''merged.mp4'') (outputPath s) c
                (min (probed env (pjoin (tempPath env) ''raw.mp4'') - c)
                     (probed env (pjoin (tempPath env) ''processed.wav''))))] @ xs5"
            using t f v a out by simp
          then show ?thesis by blast
        qed
      qed
    qed
  qed
qed

lemma trimAndMerge_plan:
  assumes run: "trimAndMerge env sync s = (Inr (), s')"
  shows "\<exists>before after. trace s' = trace s @ before @
           [RunFFprobe (durationArgs (pjoin (tempPath env) ''raw.mp4'')),
            RunFFprobe (durationArgs (pjoin (tempPath env) ''processed.wav'')),
            RunFFmpeg (finalTrimArgs env (pjoin (tempPath env) ''merged.mp4'') (outputPath s)
              (videoTimestamp sync
                 + (meetingStartTime s - recordingStartTime s - FLASH_SCREEN_SLEEP_TIME) / 1000)
              (min (probed env (pjoin (tempPath env) ''raw.mp4'')
                      - (videoTimestamp sync
                          + (meetingStartTime s - recordingStartTime s - FLASH_SCREEN_SLEEP_TIME) / 1000))
                   (probed env (pjoin (tempPath env) ''processed.wav''))))] @ after"
proof -
  let ?c = "videoTimestamp sync
              + (meetingStartTime s - recordingStartTime s - FLASH_SCREEN_SLEEP_TIME) / 1000"
  note d0 = run[unfolded trimAndMerge_def Let_def bnd_getS]
  from d0 show ?thesis
  proof (cases rule: bnd_successE')
    case (bind u1 s1)
    from grows_run[OF grows_prepareAudio bind(1)] obtain xs1 where
      g1: "trace s1 = trace s @ xs1" by blast
    have o1: "outputPath s1 = outputPath s"
      by (rule keeps_run[OF keeps_prepareAudio[OF ctl_outputPath] bind(1)])
    from finishMerge_plan[OF bind(2)] obtain before after where
      "trace s' = trace s1 @ before @
           [RunFFprobe (durationArgs (pjoin (tempPath env) ''raw.mp4'')),
            RunFFprobe (durationArgs (pjoin (tempPath env) ''processed.wav'')),
            RunFFmpeg (finalTrimArgs env (pjoin (tempPath env) ''merged.mp4'') (outputPath s1) ?c
              (min (probed env (pjoin (tempPath env) ''raw.mp4'') - ?c)
                   (probed env (pjoin (tempPath env) ''processed.wav''))))] @ after"
      by blast
    then have "trace s' = trace s @ (xs1 @ before) @
           [RunFFprobe (durationArgs (pjoin (tempPath env) ''raw.mp4'')),
            RunFFprobe (durationArgs (pjoin (tempPath env) ''processed.wav'')),
            RunFFmpeg (finalTrimArgs env (pjoin (tempPath env) ''merged.mp4'') (outputPath s) ?c
              (min (probed env (pjoin (tempPath env) ''raw.mp4'') - ?c)
                   (probed env (pjoin (tempPath env) ''processed.wav''))))] @ after"
      unfolding g1 o1 by simp
    then show ?thesis by blast
  qed
qed

lemma syncAndMergeFiles_plan:
  assumes mode: "recording_mode env \<noteq> AudioOnly"
      and offs: "offsetCalc env (pjoin (tempPath env) ''raw.wav'') (pjoin (tempPath env) ''raw.mp4'') = Inr sync"
      and run: "syncAndMergeFiles env s = (Inr (), s')"
  shows "\<exists>before after. new_actions s s' = before @
           [RunFFprobe (durationArgs (pjoin (tempPath env) ''raw.mp4'')),
            RunFFprobe (durationArgs (pjoin (tempPath env) ''processed.wav'')),
            RunFFmpeg (finalTrimArgs env (pjoin (tempPath env) ''merged.mp4'') (outputPath s')
              (videoTimestamp sync
                 + (meetingStartTime s' - recordingStartTime s' - FLASH_SCREEN_SLEEP_TIME) / 1000)
              (min (probed env (pjoin (tempPath env) ''raw.mp4'')
                      - (videoTimestamp sync
                          + (meetingStartTime s' - recordingStartTime s' - FLASH_SCREEN_SLEEP_TIME) / 1000))
                   (probed env (pjoin (tempPath env) ''processed.wav''))))] @ after"
    and "outputPath s' = outputPath s"
    and "recordingStartTime s' = recordingStartTime s"
    and "meetingStartTime s' =
           (if meetingStartTime s > 0 then meetingStartTime s
            else date_now env (ticks s + 3) - 5000)"
proof -
  let ?s0 = "s\<lparr>trace := trace s @ [CalculateVideoOffset (pjoin (tempPath env) ''raw.wav'')
                                  (pjoin (tempPath env) ''raw.mp4'')]\<rparr>"
  from run have "bnd (ensureMeetingStartTime env) (\<lambda>_. trimAndMerge env sync) ?s0 = (Inr (), s')"
    by (simp add: syncAndMergeFiles_video[OF mode offs])
  then obtain u s2 where e: "ensureMeetingStartTime env ?s0 = (Inr u, s2)"
    and t: "trimAndMerge env sync s2 = (Inr (), s')"
    by (rule bnd_successE)
  from e have s2: "trace s2 = trace ?s0" "outputPath s2 = outputPath s"
    "recordingStartTime s2 = recordingStartTime s"
    "meetingStartTime s2 = (if meetingStartTime s > 0 then meetingStartTime s
            else date_now env (ticks s + 3) - 5000)"
    by (auto simp add: ensureMeetingStartTime_run split: if_splits)
  have k: "outputPath s' = outputPath s2" "recordingStartTime s' = recordingStartTime s2"
    "meetingStartTime s' = meetingStartTime s2"
    by (rule keeps_run[OF keeps_trimAndMerge t], simp add: ctl_def)+
  from trimAndMerge_plan[OF t] obtain before after where
    p: "trace s' = trace s2 @ before @
           [RunFFprobe (durationArgs (pjoin (tempPath env) ''raw.mp4'')),
            RunFFprobe (durationArgs (pjoin (tempPath env) ''processed.wav'')),
            RunFFmpeg (finalTrimArgs env (pjoin (tempPath env) ''merged.mp4'') (outputPath s2)
              (videoTimestamp sync
                 + (meetingStartTime s2 - recordingStartTime s2 - FLASH_SCREEN_SLEEP_TIME) / 1000)
              (min (probed env (pjoin (tempPath env) ''raw.mp4'')
                      - (videoTimestamp sync
                          + (meetingStartTime s2 - recordingStartTime s2 - FLASH_SCREEN_SLEEP_TIME) / 1000))
                   (probed env (pjoin (tempPath env) ''processed.wav''))))] @ after"
    by blast
  have "new_actions s s' = (CalculateVideoOffset (pjoin (tempPath env) ''raw.wav'')
                                  (pjoin (tempPath env) ''raw.mp4'') # before) @
           [RunFFprobe (durationArgs (pjoin (tempPath env) ''raw.mp4'')),
            RunFFprobe (durationArgs (pjoin (tempPath env) ''processed.wav'')),
            RunFFmpeg (finalTrimArgs env (pjoin (tempPath env) ''merged.mp4'') (outputPath s')
              (videoTimestamp sync
                 + (meetingStartTime s' - recordingStartTime s' - FLASH_SCREEN_SLEEP_TIME) / 1000)
              (min (probed env (pjoin (tempPath env) ''raw.mp4'')
                      - (videoTimestamp sync
                          + (meetingStartTime s' - recordingStartTime s' - FLASH_SCREEN_SLEEP_TIME) / 1000))
                   (probed env (pjoin (tempPath env) ''processed.wav''))))] @ after"
    unfolding new_actions_def p k s2(1) by simp
  then show "\<exists>before after. new_actions s s' = before @
           [RunFFprobe (durationArgs (pjoin (tempPath env) ''raw.mp4'')),
            RunFFprobe (durationArgs (pjoin (tempPath env) ''processed.wav'')),
            RunFFmpeg (finalTrimArgs env (pjoin (tempPath env) ''merged.mp4'') (outputPath s')
              (videoTimestamp sync
                 + (meetingStartTime s' - recordingStartTime s' - FLASH_SCREEN_SLEEP_TIME) / 1000)
              (min (probed env (pjoin (tempPath env) ''raw.mp4'')
                      - (videoTimestamp sync
                          + (meetingStartTime s' - recordingStartTime s' - FLASH_SCREEN_SLEEP_TIME) / 1000))
                   (probed env (pjoin (tempPath env) ''processed.wav''))))] @ after"
    by blast
  show "outputPath s' = outputPath s" using k s2 by simp
  show "recordingStartTime s' = recordingStartTime s" using k s2 by simp
  show "meetingStartTime s' =
           (if meetingStartTime s > 0 then meetingStartTime s
            else date_now env (ticks s + 3) - 5000)" using k s2 by simp
qed

subsection \<open>The demo session runs to the end\<close>

lemma demo_run_ok: "fst (syncAndMergeFiles demo_env demo_state) = Inr ()"
  by (simp add: ev cong: ev_cong)

lemma demo_probed [simp]: "probed demo_env p = 100"
  by (simp add: probed_def trim_def isSpace_def)

text \<open>
  Claim C3. In every video-mode run of \<^verbatim>\<open>syncAndMergeFiles\<close> that succeeds, the raw
  video and then the processed audio are probed, and right after that the final trim is
  run with the trim start \<open>videoTimestamp + (meetingStartTime - recordingStartTime - 6000) / 1000\<close>
  and the retained duration \<open>min (videoDuration - trimStart) audioDuration\<close>, the two
  durations being the probed ones. The meeting start time is the one in force after the
  fallback of step 2.
\<close>

theorem trim_plan_arithmetic:
  assumes "recording_mode env \<noteq> AudioOnly"
      and "offsetCalc env (pjoin (tempPath env) ''raw.wav'') (pjoin (tempPath env) ''raw.mp4'') = Inr sync"
      and "syncAndMergeFiles env s = (Inr (), s')"
  shows "FLASH_SCREEN_SLEEP_TIME = 6000
     \<and> (let trimStart = videoTimestamp sync
                  + (meetingStartTime s' - recordingStartTime s' - FLASH_SCREEN_SLEEP_TIME) / 1000;
             videoDuration = probed env (pjoin (tempPath env) ''raw.mp4'');
             audioDuration = probed env (pjoin (tempPath env) ''processed.wav'');
             retained = min (videoDuration - trimStart) audioDuration
         in \<exists>before after. new_actions s s' = before @
              [RunFFprobe (durationArgs (pjoin (tempPath env) ''raw.mp4'')),
               RunFFprobe (durationArgs (pjoin (tempPath env) ''processed.wav'')),
               RunFFmpeg (finalTrimArgs env (pjoin (tempPath env) ''merged.mp4'') (outputPath s')
                            trimStart retained)] @ after)
     \<and> recordingStartTime s' = recordingStartTime s
     \<and> meetingStartTime s' =
           (if meetingStartTime s > 0 then meetingStartTime s
            else date_now env (ticks s + 3) - 5000)"
  using syncAndMergeFiles_plan[OF assms]
  by (simp add: Let_def FLASH_SCREEN_SLEEP_TIME_def)

theorem trim_plan_arithmetic_witness:
  "fst (syncAndMergeFiles demo_env demo_state) = Inr ()
   \<and> (\<exists>before after. new_actions demo_state (snd (syncAndMergeFiles demo_env demo_state)) = before @
        [RunFFprobe [''-v'', ''quiet'', ''-show_entries'', ''format=duration'', ''-of'', ''csv=p=0'',
                     ''/tmp/raw.mp4''],
         RunFFprobe [''-v'', ''quiet'', ''-show_entries'', ''format=duration'', ''-of'', ''csv=p=0'',
                     ''/tmp/processed.wav''],
         RunFFmpeg [''-i'', ''/tmp/merged.mp4'', ''-ss'', ''11.2'', ''-t'', ''88.8'',
                    ''-c:v'', ''copy'', ''-c:a'', ''copy'', ''-movflags'', ''+faststart'',
                    ''-avoid_negative_ts'', ''make_zero'', ''-y'',
                    outputPath (snd (syncAndMergeFiles demo_env demo_state))]] @ after)"
proof -
  let ?sync = "\<lparr> offsetSeconds = 3 / 20, videoTimestamp = 36 / 5, audioTimestamp = 141 / 20 \<rparr>"
  have m: "recording_mode demo_env \<noteq> AudioOnly" by simp
  have o: "offsetCalc demo_env (pjoin (tempPath demo_env) ''raw.wav'')
             (pjoin (tempPath demo_env) ''raw.mp4'') = Inr ?sync" by simp
  have r: "syncAndMergeFiles demo_env demo_state = (Inr (), snd (syncAndMergeFiles demo_env demo_state))"
    using demo_run_ok by (metis prod.collapse)
  note T = trim_plan_arithmetic [OF m o r]
  from T have f: "recordingStartTime (snd (syncAndMergeFiles demo_env demo_state)) = 1000000"
    "meetingStartTime (snd (syncAndMergeFiles demo_env demo_state)) = 1010000" by simp_all
  from T show ?thesis
    unfolding Let_def f
    by (simp add: demo_run_ok finalTrimArgs_def durationArgs_def pjoin_def FLASH_SCREEN_SLEEP_TIME_def)
qed

section \<open>The runs of the media tool in a session, and the bound on the retained duration\<close>

lemma ffmpeg_runs_simps [simp]:
  "ffmpeg_runs [] = []"
  "ffmpeg_runs (xs @ ys) = ffmpeg_runs xs @ ffmpeg_runs ys"
  "ffmpeg_runs (RunFFmpeg args # xs) = args # ffmpeg_runs xs"
  "ffmpeg_runs (RunFFprobe args # xs) = ffmpeg_runs xs"
  "ffmpeg_runs (Log msg # xs) = ffmpeg_runs xs"
  "ffmpeg_runs (Emit ev # xs) = ffmpeg_runs xs"
  "ffmpeg_runs (UploadFile p b k c # xs) = ffmpeg_runs xs"
  "ffmpeg_runs (CalculateVideoOffset a v # xs) = ffmpeg_runs xs"
  by (simp_all add: ffmpeg_runs_def)

lemma ffmpeg_runs_chunk_actions [simp]:
  "ffmpeg_runs (chunk_actions env chunksDir botUuid s f) = []"
  by (simp add: chunk_actions_def Let_def split: option.splits)

lemma ffmpeg_runs_chunks [simp]:
  "ffmpeg_runs (concat (map (chunk_actions env chunksDir botUuid s) fs)) = []"
  by (induction fs) simp_all

lemma unlink_if_present_trace:
  assumes "bnd (existsSync p) (\<lambda>present. if present then unlinkSync p else ret ()) s = (r, s1)"
  shows "trace s1 = trace s"
  using assms
  by (auto simp add: existsSync_def unlinkSync_def bnd_apply split: if_splits option.splits)

lemma addSilencePadding_trace:
  assumes "addSilencePadding env inp out p s = (Inr u, s')"
  shows "trace s' = trace s @
           [RunFFmpeg (silenceArgs env (pjoin (tempPath env) ''silence.wav'') p),
            RunFFmpeg (concatArgs (pjoin (tempPath env) ''concat_list.txt'') out)]"
proof -
  note d0 = assms[unfolded addSilencePadding_def Let_def]
  from d0 show ?thesis
  proof (cases rule: bnd_successE')
    case (bind u1 s1)
    note a = runFFmpeg_result(1)[OF bind(1)]
    from bind(2) show ?thesis
    proof (cases rule: bnd_successE')
      case (bind u2 s2)
      have b: "trace s2 = trace s1"
        using bind(1) by (auto simp add: writeFileSync_run split: if_splits)
      from bind(2) show ?thesis
      proof (cases rule: bnd_successE')
        case (bind u3 s3)
        note c = runFFmpeg_result(1)[OF bind(1)]
        from bind(2) show ?thesis
        proof (cases rule: bnd_successE')
          case (bind u4 s4)
          have d: "trace s4 = trace s3" by (rule unlink_if_present_trace[OF bind(1)])
          have e: "trace s' = trace s4" by (rule unlink_if_present_trace[OF bind(2)])
          show ?thesis unfolding e d using a b c by simp
        qed
      qed
    qed
  qed
qed

text \<open>What step 5 runs, by the sign of the padding.\<close>

lemma prepareAudio_trace:
  assumes "prepareAudio env raw processed pad s = (Inr u, s')"
  shows "trace s' = trace s @
           (if 0 < pad then
              [RunFFmpeg (silenceArgs env (pjoin (tempPath env) ''silence.wav'') pad),
               RunFFmpeg (concatArgs (pjoin (tempPath env) ''concat_list.txt'') processed)]
            else if pad < 0 then [RunFFmpeg (trimArgs env raw processed (- pad))]
            else [])"
proof (cases "0 < pad")
  case True
  with assms have "addSilencePadding env raw processed pad s = (Inr u, s')"
    by (simp add: prepareAudio_def)
  from addSilencePadding_trace[OF this] True show ?thesis by simp
next
  case False
  show ?thesis
  proof (cases "pad < 0")
    case True
    with assms False have "runFFmpeg env (trimArgs env raw processed (- pad)) s = (Inr u, s')"
      by (simp add: prepareAudio_def trimAudioStart_def)
    from runFFmpeg_result(1)[OF this] True False show ?thesis by simp
  next
    case nn: False
    with assms False have "copyFileSync raw processed s = (Inr u, s')"
      by (simp add: prepareAudio_def)
    then have "trace s' = trace s"
      by (auto simp add: copyFileSync_run split: option.splits if_splits)
    with False nn show ?thesis by simp
  qed
qed

lemma uploadAudioChunks_quiet:
  assumes "uploadAudioChunks env chunksDir botUuid s = (Inr u, s')"
  shows "\<exists>xs. trace s' = trace s @ xs \<and> ffmpeg_runs xs = []"
proof (cases "uploaderPresent env")
  case False
  with assms have "s' = s" by (simp add: uploadAudioChunks_def)
  then show ?thesis by simp
next
  case True
  show ?thesis
  proof (cases "chunksDir \<in> set (dirs s)")
    case d: True
    from assms uploadAudioChunks_run[OF True d, of botUuid]
    have "trace s' = trace s @ concat (map (chunk_actions env chunksDir botUuid s)
                 (filter (isChunkFile botUuid) (entries chunksDir (files s))))" by auto
    then show ?thesis by (intro exI conjI) (assumption, simp)
  next
    case False
    with assms True show ?thesis
      by (simp add: uploadAudioChunks_def readdirSync_def bnd_apply)
  qed
qed

lemma createAudioChunks_trace:
  assumes "createAudioChunks env audioPath s = (Inr u, s')"
  shows "\<exists>xs. trace s' = trace s @ xs
           \<and> ffmpeg_runs xs =
               (if speech_to_text_provider env then
                  [segmentArgs env audioPath (min (probed env audioPath) TRANSCRIPTION_CHUNK_DURATION)
                     (pjoin (audioTmpPath env) (bot_uuid env @ ''-%d.wav''))]
                else [])"
proof (cases "speech_to_text_provider env")
  case False
  with assms have "s' = s" by (simp add: createAudioChunks_def)
  with False show ?thesis by simp
next
  case True
  with assms have d0:
    "bnd (bnd (existsSync (audioTmpPath env)) (\<lambda>present.
            if \<not> present then mkdirSync (audioTmpPath env) else ret ())) (\<lambda>_.
       bnd (getDuration env audioPath) (\<lambda>duration.
         bnd (runFFmpeg env (segmentArgs env audioPath (min duration TRANSCRIPTION_CHUNK_DURATION)
                (pjoin (audioTmpPath env) (bot_uuid env @ ''-%d.wav'')))) (\<lambda>_.
           uploadAudioChunks env (audioTmpPath env) (bot_uuid env)))) s = (Inr u, s')"
    by (simp add: createAudioChunks_def Let_def)
  from d0 show ?thesis
  proof (cases rule: bnd_successE')
    case (bind u1 s1)
    have a: "trace s1 = trace s"
      using bind(1) by (auto simp add: existsSync_def mkdirSync_def bnd_apply split: if_splits)
    from bind(2) show ?thesis
    proof (cases rule: bnd_successE')
      case (bind d s2)
      note b = getDuration_result[OF bind(1)]
      from bind(2) show ?thesis
      proof (cases rule: bnd_successE')
        case (bind u3 s3)
        note c = runFFmpeg_result(1)[OF bind(1)]
        from uploadAudioChunks_quiet[OF bind(2)] obtain xs where
          xs: "trace s' = trace s3 @ xs" "ffmpeg_runs xs = []" by blast
        have "trace s' = trace s @
                (RunFFprobe (durationArgs audioPath)
                 # RunFFmpeg (segmentArgs env audioPath
                               (min (probed env audioPath) TRANSCRIPTION_CHUNK_DURATION)
                               (pjoin (audioTmpPath env) (bot_uuid env @ ''-%d.wav'')))
                 # xs)"
          using xs(1) a b c by simp
        then show ?thesis using xs(2) True by (intro exI conjI) (assumption, simp)
      qed
    qed
  qed
qed

text \<open>Steps 6 to 9, when they succeed, run the media tool three or four times.\<close>

lemma finishMerge_runs:
  assumes run: "finishMerge env c s = (Inr (), s')"
  shows "\<exists>xs. trace s' = trace s @ xs
          \<and> ffmpeg_runs xs =
              [mergeArgs (pjoin (tempPath env) ''raw.mp4'') (pjoin (tempPath env) ''processed.wav'')
                 (pjoin (tempPath env) ''merged.mp4''),
               finalTrimArgs env (pjoin (tempPath env) ''merged.mp4'') (outputPath s) c
                 (min (probed env (pjoin (tempPath env) ''raw.mp4'') - c)
                      (probed env (pjoin (tempPath env) ''processed.wav''))),
               extractArgs (outputPath s) (audioOutputPath s)]
              @ (if speech_to_text_provider env then
                   [segmentArgs env (audioOutputPath s)
                      (min (probed env (audioOutputPath s)) TRANSCRIPTION_CHUNK_DURATION)
                      (pjoin (audioTmpPath env) (bot_uuid env @ ''-%d.wav''))]
                 else [])"
proof -
  note d0 = run[unfolded finishMerge_def Let_def]
  from d0 show ?thesis
  proof (cases rule: bnd_successE')
    case (bind u2 s2)
    note m = runFFmpeg_result(1)[OF bind(1)[unfolded mergeWithSync_def]]
    from bind(2) show ?thesis
    proof (cases rule: bnd_successE')
      case (bind vd s3)
      note v = getDuration_result[OF bind(1)]
      from bind(2) show ?thesis
      proof (cases rule: bnd_successE')
        case (bind ad s4)
        note a = getDuration_result[OF bind(1)]
        have o4: "outputPath s4 = outputPath s" "audioOutputPath s4 = audioOutputPath s"
          using m v(2) a(2) by simp_all
        note d4 = bind(2)[unfolded bnd_getS o4]
        from d4 show ?thesis
        proof (cases rule: bnd_successE')
          case (bind u5 s5)
          note f = runFFmpeg_result(1)[OF bind(1)[unfolded finalTrimFromOffset_def]]
          have o5: "outputPath s5 = outputPath s" "audioOutputPath s5 = audioOutputPath s"
            using f o4 by simp_all
          note d5 = bind(2)[unfolded bnd_getS o5]
          from d5 show ?thesis
          proof (cases rule: bnd_successE')
            case (bind u6 s6)
            note x = runFFmpeg_result(1)[OF bind(1)[unfolded extractAudioFromVideo_def]]
            have o6: "audioOutputPath s6 = audioOutputPath s" using x o5 by simp
            note d6 = bind(2)[unfolded bnd_getS o6]
            from d6 show ?thesis
            proof (cases rule: bnd_successE')
              case (bind u7 s7)
              from createAudioChunks_trace[OF bind(1)] obtain ys where
                ys: "trace s7 = trace s6 @ ys"
                    "ffmpeg_runs ys =
                       (if speech_to_text_provider env then
                          [segmentArgs env (audioOutputPath s)
                             (min (probed env (audioOutputPath s)) TRANSCRIPTION_CHUNK_DURATION)
                             (pjoin (audioTmpPath env) (bot_uuid env @ ''-%d.wav''))]
                        else [])"
                by blast
              have e: "s' = s7" using bind(2) by (simp add: cleanupTempFiles_def)
              have t: "trace s' = trace s @
                 (RunFFmpeg (mergeArgs (pjoin (tempPath env) ''raw.mp4'')
                               (pjoin (tempPath env) ''processed.wav'')
                               (pjoin (tempPath env) ''merged.mp4''))
                  # RunFFprobe (durationArgs (pjoin (tempPath env) ''raw.mp4''))
                  # RunFFprobe (durationArgs (pjoin (tempPath env) ''processed.wav''))
                  # RunFFmpeg (finalTrimArgs env (pjoin (tempPath env) ''merged.mp4'') (outputPath s) c
                                 (min (probed env (pjoin (tempPath env) ''raw.mp4'') - c)
                                      (probed env (pjoin (tempPath env) ''processed.wav''))))
                  # RunFFmpeg (extractArgs (outputPath s) (audioOutputPath s))
                  # ys)"
                unfolding e ys(1) using m v a f x by simp
              show ?thesis
                by (intro exI conjI, rule t) (simp add: ys(2))
            qed
          qed
        qed
      qed
    qed
  qed
qed

text \<open>
  All the runs of the media tool in a video-mode session that succeeds: those of step 5,
  the merge, the final trim with the plan, the extraction, and the segmentation when
  chunks are wanted.
\<close>

lemma syncAndMergeFiles_runs:
  assumes mode: "recording_mode env \<noteq> AudioOnly"
      and offs: "offsetCalc env (pjoin (tempPath env) ''raw.wav'') (pjoin (tempPath env) ''raw.mp4'') = Inr sync"
      and run: "syncAndMergeFiles env s = (Inr (), s')"
  shows "ffmpeg_runs (new_actions s s') =
     (if 0 < videoTimestamp sync - audioTimestamp sync then
        [silenceArgs env (pjoin (tempPath env) ''silence.wav'')
           (videoTimestamp sync - audioTimestamp sync),
         concatArgs (pjoin (tempPath env) ''concat_list.txt'') (pjoin (tempPath env) ''processed.wav'')]
      else if videoTimestamp sync - audioTimestamp sync < 0 then
        [trimArgs env (pjoin (tempPath env) ''raw.wav'') (pjoin (tempPath env) ''processed.wav'')
           (- (videoTimestamp sync - audioTimestamp sync))]
      else [])
     @ [mergeArgs (pjoin (tempPath env) ''raw.mp4'') (pjoin (tempPath env) ''processed.wav'')
          (pjoin (tempPath env) ''merged.mp4''),
        finalTrimArgs env (pjoin (tempPath env) ''merged.mp4'') (outputPath s')
          (videoTimestamp sync
             + (meetingStartTime s' - recordingStartTime s' - FLASH_SCREEN_SLEEP_TIME) / 1000)
          (min (probed env (pjoin (tempPath env) ''raw.mp4'')
                  - (videoTimestamp sync
                       + (meetingStartTime s' - recordingStartTime s' - FLASH_SCREEN_SLEEP_TIME) / 1000))
               (probed env (pjoin (tempPath env) ''processed.wav''))),
        extractArgs (outputPath s') (audioOutputPath s')]
     @ (if speech_to_text_provider env then
          [segmentArgs env (audioOutputPath s')
             (min (probed env (audioOutputPath s')) TRANSCRIPTION_CHUNK_DURATION)
             (pjoin (audioTmpPath env) (bot_uuid env @ ''-%d.wav''))]
        else [])"
proof -
  let ?s0 = "s\<lparr>trace := trace s @ [CalculateVideoOffset (pjoin (tempPath env) ''raw.wav'')
                                  (pjoin (tempPath env) ''raw.mp4'')]\<rparr>"
  let ?pad = "videoTimestamp sync - audioTimestamp sync"
  from run have "bnd (ensureMeetingStartTime env) (\<lambda>_. trimAndMerge env sync) ?s0 = (Inr (), s')"
    by (simp add: syncAndMergeFiles_video[OF mode offs])
  then obtain u s2 where e: "ensureMeetingStartTime env ?s0 = (Inr u, s2)"
    and t: "trimAndMerge env sync s2 = (Inr (), s')"
    by (rule bnd_successE)
  from e have s2: "trace s2 = trace ?s0"
    by (auto simp add: ensureMeetingStartTime_run split: if_splits)
  have k: "outputPath s' = outputPath s2" "recordingStartTime s' = recordingStartTime s2"
    "meetingStartTime s' = meetingStartTime s2" "audioOutputPath s' = audioOutputPath s2"
    by (rule keeps_run[OF keeps_trimAndMerge t], simp add: ctl_def)+
  note d0 = t[unfolded trimAndMerge_def Let_def bnd_getS]
  from d0 show ?thesis
  proof (cases rule: bnd_successE')
    case (bind u1 s5)
    note p = prepareAudio_trace[OF bind(1)]
    have o5: "outputPath s5 = outputPath s2" "audioOutputPath s5 = audioOutputPath s2"
      by (rule keeps_run[OF keeps_prepareAudio bind(1)], simp add: ctl_def)+
    from finishMerge_runs[OF bind(2)] obtain xs where
      xs: "trace s' = trace s5 @ xs"
          "ffmpeg_runs xs =
              [mergeArgs (pjoin (tempPath env) ''raw.mp4'') (pjoin (tempPath env) ''processed.wav'')
                 (pjoin (tempPath env) ''merged.mp4''),
               finalTrimArgs env (pjoin (tempPath env) ''merged.mp4'') (outputPath s5)
                 (videoTimestamp sync
                    + (meetingStartTime s2 - recordingStartTime s2 - FLASH_SCREEN_SLEEP_TIME) / 1000)
                 (min (probed env (pjoin (tempPath env) ''raw.mp4'')
                         - (videoTimestamp sync
                              + (meetingStartTime s2 - recordingStartTime s2 - FLASH_SCREEN_SLEEP_TIME)
                                / 1000))
                      (probed env (pjoin (tempPath env) ''processed.wav''))),
               extractArgs (outputPath s5) (audioOutputPath s5)]
              @ (if speech_to_text_provider env then
                   [segmentArgs env (audioOutputPath s5)
                      (min (probed env (audioOutputPath s5)) TRANSCRIPTION_CHUNK_DURATION)
                      (pjoin (audioTmpPath env) (bot_uuid env @ ''-%d.wav''))]
                 else [])"
      by blast
    have n: "new_actions s s' =
       CalculateVideoOffset (pjoin (tempPath env) ''raw.wav'') (pjoin (tempPath env) ''raw.mp4'')
       # (if 0 < ?pad then
            [RunFFmpeg (silenceArgs env (pjoin (tempPath env) ''silence.wav'') ?pad),
             RunFFmpeg (concatArgs (pjoin (tempPath env) ''concat_list.txt'')
                          (pjoin (tempPath env) ''processed.wav''))]
          else if ?pad < 0 then
            [RunFFmpeg (trimArgs env (pjoin (tempPath env) ''raw.wav'')
                          (pjoin (tempPath env) ''processed.wav'') (- ?pad))]
          else [])
       @ xs"
      unfolding new_actions_def xs(1) p s2 by simp
    show ?thesis unfolding n k o5 using xs(2) by (simp add: o5)
  qed
qed

text \<open>
  Claim C5, as the code has it. A video-mode run that succeeds produces one trim plan:
  among its runs of the media tool, which are listed, the final trim is the only one of
  its kind, and it is run from \<open>trimStart\<close> for
  \<open>finalDuration = min (videoDuration - trimStart) audioDuration\<close>, the difference being
  the one the code computes. So the retained duration never exceeds the duration of the
  processed audio, and it is either that duration or the difference. Nothing bounds
  \<open>trimStart + finalDuration\<close> by that minimum.
\<close>

theorem trim_plan_bound:
  assumes "recording_mode env \<noteq> AudioOnly"
      and "offsetCalc env (pjoin (tempPath env) ''raw.wav'') (pjoin (tempPath env) ''raw.mp4'') = Inr sync"
      and "syncAndMergeFiles env s = (Inr (), s')"
  shows "let trimStart = videoTimestamp sync
                  + (meetingStartTime s' - recordingStartTime s' - FLASH_SCREEN_SLEEP_TIME) / 1000;
             videoDuration = probed env (pjoin (tempPath env) ''raw.mp4'');
             audioDuration = probed env (pjoin (tempPath env) ''processed.wav'');
             finalDuration = min (videoDuration - trimStart) audioDuration;
             audioPadding = videoTimestamp sync - audioTimestamp sync
         in ffmpeg_runs (new_actions s s') =
              (if 0 < audioPadding then
                 [silenceArgs env (pjoin (tempPath env) ''silence.wav'') audioPadding,
                  concatArgs (pjoin (tempPath env) ''concat_list.txt'')
                    (pjoin (tempPath env) ''processed.wav'')]
               else if audioPadding < 0 then
                 [trimArgs env (pjoin (tempPath env) ''raw.wav'')
                    (pjoin (tempPath env) ''processed.wav'') (- audioPadding)]
               else [])
              @ [mergeArgs (pjoin (tempPath env) ''raw.mp4'') (pjoin (tempPath env) ''processed.wav'')
                   (pjoin (tempPath env) ''merged.mp4''),
                 finalTrimArgs env (pjoin (tempPath env) ''merged.mp4'') (outputPath s')
                   trimStart finalDuration,
                 extractArgs (outputPath s') (audioOutputPath s')]
              @ (if speech_to_text_provider env then
                   [segmentArgs env (audioOutputPath s')
                      (min (probed env (audioOutputPath s')) TRANSCRIPTION_CHUNK_DURATION)
                      (pjoin (audioTmpPath env) (bot_uuid env @ ''-%d.wav''))]
                 else [])
            \<and> finalDuration \<le> audioDuration
            \<and> (finalDuration = videoDuration - trimStart \<or> finalDuration = audioDuration)"
  unfolding Let_def
  by (intro conjI, rule syncAndMergeFiles_runs[OF assms]) (simp_all add: min_def)


lemma keeps_paths_sync:
  "keeps outputPath (syncAndMergeFiles env)" "keeps audioOutputPath (syncAndMergeFiles env)"
  unfolding syncAndMergeFiles_def Let_def
  by (intro keeps_intros ctl_outputPath ctl_audioOutputPath,
      simp add: keeps_def ensureMeetingStartTime_run)+

theorem trim_plan_bound_witness:
  "fst (syncAndMergeFiles demo_env demo_state) = Inr ()
   \<and> ffmpeg_runs (new_actions demo_state (snd (syncAndMergeFiles demo_env demo_state))) =
       [[''-f'', ''lavfi'', ''-i'', ''anullsrc=channel_layout=mono:sample_rate=44100:duration=0.15'',
         ''-c:a'', ''pcm_s16le'', ''-ar'', ''44100'', ''-ac'', ''1'', ''-y'', ''/tmp/silence.wav''],
        [''-f'', ''concat'', ''-safe'', ''0'', ''-i'', ''/tmp/concat_list.txt'',
         ''-c:a'', ''pcm_s16le'', ''-ar'', ''44100'', ''-ac'', ''1'', ''-y'', ''/tmp/processed.wav''],
        [''-i'', ''/tmp/raw.mp4'', ''-i'', ''/tmp/processed.wav'', ''-c:v'', ''copy'', ''-c:a'', ''aac'',
         ''-b:a'', ''192k'', ''-shortest'', ''-avoid_negative_ts'', ''make_zero'', ''-y'',
         ''/tmp/merged.mp4''],
        [''-i'', ''/tmp/merged.mp4'', ''-ss'', ''11.2'', ''-t'', ''88.8'',
         ''-c:v'', ''copy'', ''-c:a'', ''copy'', ''-movflags'', ''+faststart'',
         ''-avoid_negative_ts'', ''make_zero'', ''-y'', ''/out/id.mp4''],
        [''-i'', ''/out/id.mp4'', ''-vn'', ''-c:a'', ''pcm_s16le'', ''-ar'', ''44100'',
         ''-ac'', ''1'', ''-y'', ''/out/id.wav''],
        [''-i'', ''/out/id.wav'', ''-acodec'', ''pcm_s16le'', ''-ac'', ''1'', ''-ar'', ''44100'',
         ''-f'', ''segment'', ''-segment_time'', ''100'', ''-segment_format'', ''wav'', ''-y'',
         ''/chunks/bot-%d.wav'']]
   \<and> (444 / 5 :: real) \<le> 100"
proof -
  let ?sync = "\<lparr> offsetSeconds = 3 / 20, videoTimestamp = 36 / 5, audioTimestamp = 141 / 20 \<rparr>"
  let ?s' = "snd (syncAndMergeFiles demo_env demo_state)"
  have m: "recording_mode demo_env \<noteq> AudioOnly" by simp
  have o: "offsetCalc demo_env (pjoin (tempPath demo_env) ''raw.wav'')
             (pjoin (tempPath demo_env) ''raw.mp4'') = Inr ?sync" by simp
  have r: "syncAndMergeFiles demo_env demo_state = (Inr (), ?s')"
    using demo_run_ok by (metis prod.collapse)
  have f: "recordingStartTime ?s' = 1000000" "meetingStartTime ?s' = 1010000"
    "outputPath ?s' = ''/out/id.mp4''"
    using syncAndMergeFiles_plan(2-4)[OF m o r] by simp_all
  have g: "audioOutputPath ?s' = ''/out/id.wav''"
    using keepsD[OF keeps_paths_sync(2), of demo_env demo_state] by simp
  from trim_plan_bound [OF m o r] show ?thesis
    unfolding Let_def f g
    by (simp add: demo_run_ok silenceArgs_def concatArgs_def mergeArgs_def finalTrimArgs_def
        extractArgs_def segmentArgs_def pjoin_def FLASH_SCREEN_SLEEP_TIME_def
        TRANSCRIPTION_CHUNK_DURATION_def AUDIO_SAMPLE_RATE_def AUDIO_BITRATE_def)
qed

text \<open>
  The invariant as the specification writes it,
  \<open>trimStart + finalDuration \<le> min (videoDuration - trimStart) audioDuration\<close>, fails in
  the demo session: the run succeeds, both durations are 100 s, the final trim is run from
  11.2 s for 88.8 s, and \<open>11.2 + 88.8 > 88.8\<close>.
\<close>

theorem trim_plan_invariant_counterexample:
  "fst (syncAndMergeFiles demo_env demo_state) = Inr ()
   \<and> RunFFmpeg (finalTrimArgs demo_env ''/tmp/merged.mp4'' ''/out/id.mp4'' (56 / 5) (444 / 5))
        \<in> set (trace (snd (syncAndMergeFiles demo_env demo_state)))
   \<and> 36 / 5 + (meetingStartTime demo_state - recordingStartTime demo_state
                 - FLASH_SCREEN_SLEEP_TIME) / 1000 = (56 / 5 :: real)
   \<and> probed demo_env ''/tmp/raw.mp4'' = 100
   \<and> probed demo_env ''/tmp/processed.wav'' = 100
   \<and> min (100 - 56 / 5) 100 = (444 / 5 :: real)
   \<and> \<not> ((56 / 5 :: real) + 444 / 5 \<le> min (100 - 56 / 5) 100)"
proof -
  let ?sync = "\<lparr> offsetSeconds = 3 / 20, videoTimestamp = 36 / 5, audioTimestamp = 141 / 20 \<rparr>"
  let ?s' = "snd (syncAndMergeFiles demo_env demo_state)"
  have m: "recording_mode demo_env \<noteq> AudioOnly" by simp
  have o: "offsetCalc demo_env (pjoin (tempPath demo_env) ''raw.wav'')
             (pjoin (tempPath demo_env) ''raw.mp4'') = Inr ?sync" by simp
  have r: "syncAndMergeFiles demo_env demo_state = (Inr (), ?s')"
    using demo_run_ok by (metis prod.collapse)
  have f: "recordingStartTime ?s' = 1000000" "meetingStartTime ?s' = 1010000"
    "outputPath ?s' = ''/out/id.mp4''"
    using syncAndMergeFiles_plan(2-4)[OF m o r] by simp_all
  from syncAndMergeFiles_plan(1)[OF m o r]
  have "RunFFmpeg (finalTrimArgs demo_env ''/tmp/merged.mp4'' ''/out/id.mp4'' (56 / 5) (444 / 5))
        \<in> set (new_actions demo_state ?s')"
    unfolding f by (auto simp add: pjoin_def FLASH_SCREEN_SLEEP_TIME_def)
  then have "RunFFmpeg (finalTrimArgs demo_env ''/tmp/merged.mp4'' ''/out/id.mp4'' (56 / 5) (444 / 5))
        \<in> set (trace ?s')"
    by (simp add: new_actions_def)
  then show ?thesis
    by (simp add: demo_run_ok FLASH_SCREEN_SLEEP_TIME_def)
qed

section \<open>Audio head alignment\<close>

lemma align_padded:
  assumes "recording_mode env \<noteq> AudioOnly"
      and "offsetCalc env (pjoin (tempPath env) ''raw.wav'') (pjoin (tempPath env) ''raw.mp4'') = Inr sync"
      and "ensureMeetingStartTime env (s\<lparr>trace := trace s @ [CalculateVideoOffset (pjoin (tempPath env) ''raw.wav'') (pjoin (tempPath env) ''raw.mp4'')]\<rparr>) = (Inr (), s2)"
      and "0 < videoTimestamp sync - audioTimestamp sync"
      and "ffmpeg_exit env (silenceArgs env (pjoin (tempPath env) ''silence.wav'') (videoTimestamp sync - audioTimestamp sync)) = Close (Some 0)"
      and "ffmpeg_exit env (concatArgs (pjoin (tempPath env) ''concat_list.txt'') (pjoin (tempPath env) ''processed.wav'')) = Close (Some 0)"
      and "tempPath env \<in> set (dirs s2)"
      and "pjoin (tempPath env) ''silence.wav'' \<notin> set (dirs s2)"
      and "pjoin (tempPath env) ''concat_list.txt'' \<notin> set (dirs s2)"
  shows "syncAndMergeFiles env s =
     finishMerge env (videoTimestamp sync + (meetingStartTime s2 - recordingStartTime s2 - FLASH_SCREEN_SLEEP_TIME) / 1000)
       (s2\<lparr>trace := trace s2 @
                 [RunFFmpeg (silenceArgs env (pjoin (tempPath env) ''silence.wav'') (videoTimestamp sync - audioTimestamp sync)),
                  RunFFmpeg (concatArgs (pjoin (tempPath env) ''concat_list.txt'') (pjoin (tempPath env) ''processed.wav''))],
            files := fs_remove (pjoin (tempPath env) ''concat_list.txt'')
                 (fs_remove (pjoin (tempPath env) ''silence.wav'')
                   (ffmpeg_files env (concatArgs (pjoin (tempPath env) ''concat_list.txt'') (pjoin (tempPath env) ''processed.wav''))
                     (fs_write (pjoin (tempPath env) ''concat_list.txt'')
                        (concatContent (path_resolve env (pjoin (tempPath env) ''silence.wav'')) (path_resolve env (pjoin (tempPath env) ''raw.wav'')))
                        (ffmpeg_files env (silenceArgs env (pjoin (tempPath env) ''silence.wav'') (videoTimestamp sync - audioTimestamp sync)) (files s2)))))\<rparr>)"
proof -
  have "prepareAudio env (pjoin (tempPath env) ''raw.wav'') (pjoin (tempPath env) ''processed.wav'') (videoTimestamp sync - audioTimestamp sync) s2
      = addSilencePadding env (pjoin (tempPath env) ''raw.wav'') (pjoin (tempPath env) ''processed.wav'') (videoTimestamp sync - audioTimestamp sync) s2"
    using assms(4) by (simp add: prepareAudio_def)
  then show ?thesis
    unfolding syncAndMergeFiles_steps[OF assms(1,2,3)]
    by (simp add: bnd_apply addSilencePadding_ok[OF assms(5,6,7,8,9)])
qed

lemma align_trimmed:
  assumes "recording_mode env \<noteq> AudioOnly"
      and "offsetCalc env (pjoin (tempPath env) ''raw.wav'') (pjoin (tempPath env) ''raw.mp4'') = Inr sync"
      and "ensureMeetingStartTime env (s\<lparr>trace := trace s @ [CalculateVideoOffset (pjoin (tempPath env) ''raw.wav'') (pjoin (tempPath env) ''raw.mp4'')]\<rparr>) = (Inr (), s2)"
      and "videoTimestamp sync - audioTimestamp sync < 0"
      and "ffmpeg_exit env (trimArgs env (pjoin (tempPath env) ''raw.wav'') (pjoin (tempPath env) ''processed.wav'') (- (videoTimestamp sync - audioTimestamp sync))) = Close (Some 0)"
  shows "syncAndMergeFiles env s =
     finishMerge env (videoTimestamp sync + (meetingStartTime s2 - recordingStartTime s2 - FLASH_SCREEN_SLEEP_TIME) / 1000)
       (s2\<lparr>trace := trace s2 @ [RunFFmpeg (trimArgs env (pjoin (tempPath env) ''raw.wav'') (pjoin (tempPath env) ''processed.wav'') (- (videoTimestamp sync - audioTimestamp sync)))],
            files := ffmpeg_files env (trimArgs env (pjoin (tempPath env) ''raw.wav'') (pjoin (tempPath env) ''processed.wav'') (- (videoTimestamp sync - audioTimestamp sync))) (files s2)\<rparr>)"
proof -
  have "prepareAudio env (pjoin (tempPath env) ''raw.wav'') (pjoin (tempPath env) ''processed.wav'') (videoTimestamp sync - audioTimestamp sync) s2
      = runFFmpeg env (trimArgs env (pjoin (tempPath env) ''raw.wav'') (pjoin (tempPath env) ''processed.wav'') (- (videoTimestamp sync - audioTimestamp sync))) s2"
    using assms(4) by (simp add: prepareAudio_def trimAudioStart_def)
  then show ?thesis
    unfolding syncAndMergeFiles_steps[OF assms(1,2,3)]
    using assms(5) by (simp add: bnd_apply runFFmpeg_run)
qed

lemma align_copied:
  assumes "recording_mode env \<noteq> AudioOnly"
      and "offsetCalc env (pjoin (tempPath env) ''raw.wav'') (pjoin (tempPath env) ''raw.mp4'') = Inr sync"
      and "ensureMeetingStartTime env (s\<lparr>trace := trace s @ [CalculateVideoOffset (pjoin (tempPath env) ''raw.wav'') (pjoin (tempPath env) ''raw.mp4'')]\<rparr>) = (Inr (), s2)"
      and "videoTimestamp sync - audioTimestamp sync = 0"
  shows "syncAndMergeFiles env s =
     (case map_of (files s2) (pjoin (tempPath env) ''raw.wav'') of
        None \<Rightarrow> (Inl (ENOENT (pjoin (tempPath env) ''raw.wav'')), s2)
      | Some content \<Rightarrow>
          if tempPath env \<in> set (dirs s2) then
            finishMerge env (videoTimestamp sync + (meetingStartTime s2 - recordingStartTime s2 - FLASH_SCREEN_SLEEP_TIME) / 1000) (s2\<lparr>files := fs_write (pjoin (tempPath env) ''processed.wav'') content (files s2)\<rparr>)
          else (Inl (ENOENT (pjoin (tempPath env) ''processed.wav'')), s2))"
proof -
  have "prepareAudio env (pjoin (tempPath env) ''raw.wav'') (pjoin (tempPath env) ''processed.wav'') (videoTimestamp sync - audioTimestamp sync) s2
      = copyFileSync (pjoin (tempPath env) ''raw.wav'') (pjoin (tempPath env) ''processed.wav'') s2"
    using assms(4) by (simp add: prepareAudio_def)
  then show ?thesis
    unfolding syncAndMergeFiles_steps[OF assms(1,2,3)]
    by (simp add: bnd_apply copyFileSync_run split: option.splits)
qed

text \<open>
  Claim C4. In video mode, once steps 1 and 2 have passed and left the state \<open>s2\<close>, the
  audio head is aligned by a three-way split on
  \<open>audioPadding = videoTimestamp - audioTimestamp\<close>, on the raw audio and into the
  processed path of the temporary directory. When it is positive and both tool runs
  succeed: a silence of that duration (44.1 kHz, mono, 16-bit PCM) is synthesised, a concat
  list naming the silence and then the raw audio is written, the two are concatenated with
  re-encoding into the processed path, the silence file and the concat list are gone
  afterwards, and steps 6 to 9 start from there. When it is negative and the tool run
  succeeds: the raw audio is sought by \<open>\<bar>audioPadding\<bar>\<close> seconds and re-encoded into the
  processed path. When it is zero: the raw audio is copied to the processed path and no
  tool is run; the copy throws when the raw audio or the temporary directory is missing.
\<close>

theorem audio_head_alignment:
  assumes "recording_mode env \<noteq> AudioOnly"
      and "offsetCalc env (pjoin (tempPath env) ''raw.wav'') (pjoin (tempPath env) ''raw.mp4'') = Inr sync"
      and "ensureMeetingStartTime env
             (s\<lparr>trace := trace s @ [CalculateVideoOffset (pjoin (tempPath env) ''raw.wav'')
                                       (pjoin (tempPath env) ''raw.mp4'')]\<rparr>) = (Inr (), s2)"
  shows
   "let audioPadding = videoTimestamp sync - audioTimestamp sync;
        raw = pjoin (tempPath env) ''raw.wav'';
        processed = pjoin (tempPath env) ''processed.wav'';
        silenceFile = pjoin (tempPath env) ''silence.wav'';
        concatListFile = pjoin (tempPath env) ''concat_list.txt'';
        silenceRun =
          [''-f'', ''lavfi'', ''-i'',
           ''anullsrc=channel_layout=mono:sample_rate=44100:duration='' @ numStr env audioPadding,
           ''-c:a'', ''pcm_s16le'', ''-ar'', ''44100'', ''-ac'', ''1'', ''-y'', silenceFile];
        concatRun =
          [''-f'', ''concat'', ''-safe'', ''0'', ''-i'', concatListFile,
           ''-c:a'', ''pcm_s16le'', ''-ar'', ''44100'', ''-ac'', ''1'', ''-y'', processed];
        trimRun =
          [''-i'', raw, ''-ss'', numStr env \<bar>audioPadding\<bar>,
           ''-c:a'', ''pcm_s16le'', ''-ar'', ''44100'', ''-ac'', ''1'',
           ''-avoid_negative_ts'', ''make_zero'', ''-y'', processed];
        concatList =
          ''file '' @ [CHR 0x27] @ path_resolve env silenceFile @ [CHR 0x27, CHR 0x0A]
          @ ''file '' @ [CHR 0x27] @ path_resolve env raw @ [CHR 0x27];
        padded =
          fs_remove concatListFile (fs_remove silenceFile
            (ffmpeg_files env concatRun
               (fs_write concatListFile concatList (ffmpeg_files env silenceRun (files s2)))));
        steps6to9 = finishMerge env
          (videoTimestamp sync
             + (meetingStartTime s2 - recordingStartTime s2 - FLASH_SCREEN_SLEEP_TIME) / 1000)
    in (0 < audioPadding
          \<and> ffmpeg_exit env silenceRun = Close (Some 0)
          \<and> ffmpeg_exit env concatRun = Close (Some 0)
          \<and> tempPath env \<in> set (dirs s2)
          \<and> silenceFile \<notin> set (dirs s2) \<and> concatListFile \<notin> set (dirs s2)
        \<longrightarrow> syncAndMergeFiles env s =
              steps6to9 (s2\<lparr>trace := trace s2 @ [RunFFmpeg silenceRun, RunFFmpeg concatRun],
                           files := padded\<rparr>)
            \<and> map_of padded silenceFile = None
            \<and> map_of padded concatListFile = None)
     \<and> (audioPadding < 0 \<and> ffmpeg_exit env trimRun = Close (Some 0)
        \<longrightarrow> syncAndMergeFiles env s =
              steps6to9 (s2\<lparr>trace := trace s2 @ [RunFFmpeg trimRun],
                           files := ffmpeg_files env trimRun (files s2)\<rparr>))
     \<and> (audioPadding = 0 \<and> map_of (files s2) raw = Some content \<and> tempPath env \<in> set (dirs s2)
        \<longrightarrow> syncAndMergeFiles env s =
              steps6to9 (s2\<lparr>files := fs_write processed content (files s2)\<rparr>)
            \<and> map_of (fs_write processed content (files s2)) processed = Some content
            \<and> map_of (fs_write processed content (files s2)) raw = Some content)
     \<and> (audioPadding = 0 \<and> map_of (files s2) raw = None
        \<longrightarrow> syncAndMergeFiles env s = (Inl (ENOENT raw), s2))
     \<and> (audioPadding = 0 \<and> map_of (files s2) raw = Some content \<and> tempPath env \<notin> set (dirs s2)
        \<longrightarrow> syncAndMergeFiles env s = (Inl (ENOENT processed), s2))"
proof -
  let ?pad = "videoTimestamp sync - audioTimestamp sync"
  have ab: "?pad < 0 \<Longrightarrow> \<bar>?pad\<bar> = - ?pad" by simp
  note P = align_padded[OF assms, unfolded silenceArgs_def concatArgs_def concatContent_def
             AUDIO_SAMPLE_RATE_def]
  note T = align_trimmed[OF assms, unfolded trimArgs_def AUDIO_SAMPLE_RATE_def]
  note C = align_copied[OF assms]
  show ?thesis
    unfolding Let_def
  proof (intro conjI impI)
    assume h: "0 < ?pad
          \<and> ffmpeg_exit env
               [''-f'', ''lavfi'', ''-i'',
                ''anullsrc=channel_layout=mono:sample_rate=44100:duration='' @ numStr env ?pad,
                ''-c:a'', ''pcm_s16le'', ''-ar'', ''44100'', ''-ac'', ''1'', ''-y'',
                pjoin (tempPath env) ''silence.wav''] = Close (Some 0)
          \<and> ffmpeg_exit env
               [''-f'', ''concat'', ''-safe'', ''0'', ''-i'', pjoin (tempPath env) ''concat_list.txt'',
                ''-c:a'', ''pcm_s16le'', ''-ar'', ''44100'', ''-ac'', ''1'', ''-y'',
                pjoin (tempPath env) ''processed.wav''] = Close (Some 0)
          \<and> tempPath env \<in> set (dirs s2)
          \<and> pjoin (tempPath env) ''silence.wav'' \<notin> set (dirs s2)
          \<and> pjoin (tempPath env) ''concat_list.txt'' \<notin> set (dirs s2)"
    from h have h1: "0 < ?pad" and h4: "tempPath env \<in> set (dirs s2)"
      and h5: "pjoin (tempPath env) ''silence.wav'' \<notin> set (dirs s2)"
      and h6: "pjoin (tempPath env) ''concat_list.txt'' \<notin> set (dirs s2)" by simp_all
    from h have h2: "ffmpeg_exit env
               ([''-f'', ''lavfi'', ''-i'',
                ''anullsrc=channel_layout=mono:sample_rate='' @ ''44100'' @ '':duration='' @ numStr env ?pad,
                ''-c:a'', ''pcm_s16le'', ''-ar'', ''44100'', ''-ac'', ''1'', ''-y'',
                pjoin (tempPath env) ''silence.wav'']) = Close (Some 0)" by simp
    from h have h3: "ffmpeg_exit env
               [''-f'', ''concat'', ''-safe'', ''0'', ''-i'', pjoin (tempPath env) ''concat_list.txt'',
                ''-c:a'', ''pcm_s16le'', ''-ar'', ''44100'', ''-ac'', ''1'', ''-y'',
                pjoin (tempPath env) ''processed.wav''] = Close (Some 0)" by simp
    from P[OF h1 h2 h3 h4 h5 h6]
    show "syncAndMergeFiles env s =
       finishMerge env
        (videoTimestamp sync
           + (meetingStartTime s2 - recordingStartTime s2 - FLASH_SCREEN_SLEEP_TIME) / 1000)
        (s2\<lparr>trace := trace s2 @
           [RunFFmpeg
              [''-f'', ''lavfi'', ''-i'',
               ''anullsrc=channel_layout=mono:sample_rate=44100:duration='' @ numStr env ?pad,
               ''-c:a'', ''pcm_s16le'', ''-ar'', ''44100'', ''-ac'', ''1'', ''-y'',
               pjoin (tempPath env) ''silence.wav''],
            RunFFmpeg
              [''-f'', ''concat'', ''-safe'', ''0'', ''-i'', pjoin (tempPath env) ''concat_list.txt'',
               ''-c:a'', ''pcm_s16le'', ''-ar'', ''44100'', ''-ac'', ''1'', ''-y'',
               pjoin (tempPath env) ''processed.wav'']],
          files := fs_remove (pjoin (tempPath env) ''concat_list.txt'')
            (fs_remove (pjoin (tempPath env) ''silence.wav'')
              (ffmpeg_files env
                 [''-f'', ''concat'', ''-safe'', ''0'', ''-i'', pjoin (tempPath env) ''concat_list.txt'',
                  ''-c:a'', ''pcm_s16le'', ''-ar'', ''44100'', ''-ac'', ''1'', ''-y'',
                  pjoin (tempPath env) ''processed.wav'']
                 (fs_write (pjoin (tempPath env) ''concat_list.txt'')
                    (''file '' @ [CHR 0x27] @ path_resolve env (pjoin (tempPath env) ''silence.wav'')
                       @ [CHR 0x27, CHR 0x0A]
                       @ ''file '' @ [CHR 0x27] @ path_resolve env (pjoin (tempPath env) ''raw.wav'')
                       @ [CHR 0x27])
                    (ffmpeg_files env
                       [''-f'', ''lavfi'', ''-i'',
                        ''anullsrc=channel_layout=mono:sample_rate=44100:duration=''
                          @ numStr env ?pad,
                        ''-c:a'', ''pcm_s16le'', ''-ar'', ''44100'', ''-ac'', ''1'', ''-y'',
                        pjoin (tempPath env) ''silence.wav'']
                       (files s2)))))\<rparr>)"
      by simp
  next
    assume h: "?pad < 0
        \<and> ffmpeg_exit env
             [''-i'', pjoin (tempPath env) ''raw.wav'', ''-ss'', numStr env \<bar>?pad\<bar>,
              ''-c:a'', ''pcm_s16le'', ''-ar'', ''44100'', ''-ac'', ''1'',
              ''-avoid_negative_ts'', ''make_zero'', ''-y'', pjoin (tempPath env) ''processed.wav'']
            = Close (Some 0)"
    then have n: "?pad < 0" by simp
    from h have e: "ffmpeg_exit env
             [''-i'', pjoin (tempPath env) ''raw.wav'', ''-ss'', numStr env (- ?pad),
              ''-c:a'', ''pcm_s16le'', ''-ar'', ''44100'', ''-ac'', ''1'',
              ''-avoid_negative_ts'', ''make_zero'', ''-y'', pjoin (tempPath env) ''processed.wav'']
            = Close (Some 0)" unfolding ab[OF n] by simp
    show "syncAndMergeFiles env s =
       finishMerge env
        (videoTimestamp sync
           + (meetingStartTime s2 - recordingStartTime s2 - FLASH_SCREEN_SLEEP_TIME) / 1000)
        (s2\<lparr>trace := trace s2 @
           [RunFFmpeg
              [''-i'', pjoin (tempPath env) ''raw.wav'', ''-ss'', numStr env \<bar>?pad\<bar>,
               ''-c:a'', ''pcm_s16le'', ''-ar'', ''44100'', ''-ac'', ''1'',
               ''-avoid_negative_ts'', ''make_zero'', ''-y'', pjoin (tempPath env) ''processed.wav'']],
          files := ffmpeg_files env
              [''-i'', pjoin (tempPath env) ''raw.wav'', ''-ss'', numStr env \<bar>?pad\<bar>,
               ''-c:a'', ''pcm_s16le'', ''-ar'', ''44100'', ''-ac'', ''1'',
               ''-avoid_negative_ts'', ''make_zero'', ''-y'', pjoin (tempPath env) ''processed.wav'']
              (files s2)\<rparr>)"
      unfolding ab[OF n] by (rule T[OF n e])
  next
    assume h: "?pad = 0 \<and> map_of (files s2) (pjoin (tempPath env) ''raw.wav'') = Some content
        \<and> tempPath env \<in> set (dirs s2)"
    then have z: "?pad = 0" by simp
    from h show "syncAndMergeFiles env s =
       finishMerge env
        (videoTimestamp sync
           + (meetingStartTime s2 - recordingStartTime s2 - FLASH_SCREEN_SLEEP_TIME) / 1000)
        (s2\<lparr>files := fs_write (pjoin (tempPath env) ''processed.wav'') content (files s2)\<rparr>)"
      unfolding C[OF z] by simp
  next
    assume h: "?pad = 0 \<and> map_of (files s2) (pjoin (tempPath env) ''raw.wav'') = None"
    then have z: "?pad = 0" by simp
    from h show "syncAndMergeFiles env s = (Inl (ENOENT (pjoin (tempPath env) ''raw.wav'')), s2)"
      unfolding C[OF z] by simp
  next
    assume h: "?pad = 0 \<and> map_of (files s2) (pjoin (tempPath env) ''raw.wav'') = Some content
        \<and> tempPath env \<notin> set (dirs s2)"
    then have z: "?pad = 0" by simp
    from h show "syncAndMergeFiles env s = (Inl (ENOENT (pjoin (tempPath env) ''processed.wav'')), s2)"
      unfolding C[OF z] by simp
  qed (simp_all add: map_of_fs_remove map_of_fs_write pjoin_def)
qed

theorem audio_head_alignment_witness:
  "syncAndMergeFiles demo_env demo_state =
     finishMerge demo_env (56 / 5)
       (demo_state\<lparr>trace :=
          [CalculateVideoOffset ''/tmp/raw.wav'' ''/tmp/raw.mp4'',
           RunFFmpeg [''-f'', ''lavfi'', ''-i'',
                ''anullsrc=channel_layout=mono:sample_rate=44100:duration=0.15'',
                ''-c:a'', ''pcm_s16le'', ''-ar'', ''44100'', ''-ac'', ''1'', ''-y'',
                ''/tmp/silence.wav''],
           RunFFmpeg [''-f'', ''concat'', ''-safe'', ''0'', ''-i'', ''/tmp/concat_list.txt'',
                ''-c:a'', ''pcm_s16le'', ''-ar'', ''44100'', ''-ac'', ''1'', ''-y'',
                ''/tmp/processed.wav'']],
        files := [(''/tmp/processed.wav'', ''data''), (''/tmp/raw.mp4'', ''v''),
                  (''/tmp/raw.wav'', ''a'')]\<rparr>)
   \<and> syncAndMergeFiles behind_env demo_state =
     finishMerge behind_env (56 / 5)
       (demo_state\<lparr>trace :=
          [CalculateVideoOffset ''/tmp/raw.wav'' ''/tmp/raw.mp4'',
           RunFFmpeg [''-i'', ''/tmp/raw.wav'', ''-ss'', ''0.2'',
                ''-c:a'', ''pcm_s16le'', ''-ar'', ''44100'', ''-ac'', ''1'',
                ''-avoid_negative_ts'', ''make_zero'', ''-y'', ''/tmp/processed.wav'']],
        files := [(''/tmp/processed.wav'', ''data''), (''/tmp/raw.mp4'', ''v''),
                  (''/tmp/raw.wav'', ''a'')]\<rparr>)
   \<and> syncAndMergeFiles aligned_env demo_state =
     finishMerge aligned_env (56 / 5)
       (demo_state\<lparr>trace := [CalculateVideoOffset ''/tmp/raw.wav'' ''/tmp/raw.mp4''],
        files := [(''/tmp/processed.wav'', ''a''), (''/tmp/raw.mp4'', ''v''),
                  (''/tmp/raw.wav'', ''a'')]\<rparr>)
   \<and> syncAndMergeFiles aligned_env (demo_state\<lparr>dirs := [''/out'']\<rparr>) =
       (Inl (ENOENT ''/tmp/processed.wav''),
        demo_state\<lparr>dirs := [''/out''],
                    trace := [CalculateVideoOffset ''/tmp/raw.wav'' ''/tmp/raw.mp4'']\<rparr>)"
proof -
  let ?s2 = "demo_state\<lparr>trace := [CalculateVideoOffset ''/tmp/raw.wav'' ''/tmp/raw.mp4'']\<rparr>"
  let ?d = "demo_state\<lparr>dirs := [''/out'']\<rparr>"
  let ?d2 = "demo_state\<lparr>dirs := [''/out''],
                        trace := [CalculateVideoOffset ''/tmp/raw.wav'' ''/tmp/raw.mp4'']\<rparr>"
  have m: "recording_mode demo_env \<noteq> AudioOnly" "recording_mode behind_env \<noteq> AudioOnly"
    "recording_mode aligned_env \<noteq> AudioOnly"
    by (simp_all add: behind_env_def aligned_env_def)
  have o1: "offsetCalc demo_env (pjoin (tempPath demo_env) ''raw.wav'')
             (pjoin (tempPath demo_env) ''raw.mp4'')
            = Inr \<lparr> offsetSeconds = 3 / 20, videoTimestamp = 36 / 5, audioTimestamp = 141 / 20 \<rparr>"
    by simp
  have o2: "offsetCalc behind_env (pjoin (tempPath behind_env) ''raw.wav'')
             (pjoin (tempPath behind_env) ''raw.mp4'')
            = Inr \<lparr> offsetSeconds = - (1 / 5), videoTimestamp = 36 / 5, audioTimestamp = 37 / 5 \<rparr>"
    by (simp add: behind_env_def)
  have o3: "offsetCalc aligned_env (pjoin (tempPath aligned_env) ''raw.wav'')
             (pjoin (tempPath aligned_env) ''raw.mp4'')
            = Inr \<lparr> offsetSeconds = 0, videoTimestamp = 36 / 5, audioTimestamp = 36 / 5 \<rparr>"
    by (simp add: aligned_env_def)
  have e1: "ensureMeetingStartTime demo_env
             (demo_state\<lparr>trace := trace demo_state @
                [CalculateVideoOffset (pjoin (tempPath demo_env) ''raw.wav'')
                   (pjoin (tempPath demo_env) ''raw.mp4'')]\<rparr>) = (Inr (), ?s2)"
    by (simp add: ensureMeetingStartTime_run pjoin_def)
  have e2: "ensureMeetingStartTime behind_env
             (demo_state\<lparr>trace := trace demo_state @
                [CalculateVideoOffset (pjoin (tempPath behind_env) ''raw.wav'')
                   (pjoin (tempPath behind_env) ''raw.mp4'')]\<rparr>) = (Inr (), ?s2)"
    by (simp add: ensureMeetingStartTime_run pjoin_def behind_env_def)
  have e3: "ensureMeetingStartTime aligned_env
             (demo_state\<lparr>trace := trace demo_state @
                [CalculateVideoOffset (pjoin (tempPath aligned_env) ''raw.wav'')
                   (pjoin (tempPath aligned_env) ''raw.mp4'')]\<rparr>) = (Inr (), ?s2)"
    by (simp add: ensureMeetingStartTime_run pjoin_def aligned_env_def)
  have e4: "ensureMeetingStartTime aligned_env
             (?d\<lparr>trace := trace ?d @
                [CalculateVideoOffset (pjoin (tempPath aligned_env) ''raw.wav'')
                   (pjoin (tempPath aligned_env) ''raw.mp4'')]\<rparr>) = (Inr (), ?d2)"
    by (simp add: ensureMeetingStartTime_run pjoin_def aligned_env_def)
  note T1 = audio_head_alignment [OF m(1) o1 e1, unfolded Let_def, THEN conjunct1]
  note T2 = audio_head_alignment [OF m(2) o2 e2, unfolded Let_def, THEN conjunct2, THEN conjunct1]
  note T3 = audio_head_alignment [OF m(3) o3 e3, where content = "''a''", unfolded Let_def,
              THEN conjunct2, THEN conjunct2, THEN conjunct1]
  note T4 = audio_head_alignment [OF m(3) o3 e4, where content = "''a''", unfolded Let_def,
              THEN conjunct2, THEN conjunct2, THEN conjunct2, THEN conjunct2]
  have 1: "syncAndMergeFiles demo_env demo_state =
     finishMerge demo_env (56 / 5)
       (demo_state\<lparr>trace :=
          [CalculateVideoOffset ''/tmp/raw.wav'' ''/tmp/raw.mp4'',
           RunFFmpeg [''-f'', ''lavfi'', ''-i'',
                ''anullsrc=channel_layout=mono:sample_rate=44100:duration=0.15'',
                ''-c:a'', ''pcm_s16le'', ''-ar'', ''44100'', ''-ac'', ''1'', ''-y'',
                ''/tmp/silence.wav''],
           RunFFmpeg [''-f'', ''concat'', ''-safe'', ''0'', ''-i'', ''/tmp/concat_list.txt'',
                ''-c:a'', ''pcm_s16le'', ''-ar'', ''44100'', ''-ac'', ''1'', ''-y'',
                ''/tmp/processed.wav'']],
        files := [(''/tmp/processed.wav'', ''data''), (''/tmp/raw.mp4'', ''v''),
                  (''/tmp/raw.wav'', ''a'')]\<rparr>)"
    using T1 by (simp add: pjoin_def fs_write_def fs_remove_def FLASH_SCREEN_SLEEP_TIME_def)
  have 2: "syncAndMergeFiles behind_env demo_state =
     finishMerge behind_env (56 / 5)
       (demo_state\<lparr>trace :=
          [CalculateVideoOffset ''/tmp/raw.wav'' ''/tmp/raw.mp4'',
           RunFFmpeg [''-i'', ''/tmp/raw.wav'', ''-ss'', ''0.2'',
                ''-c:a'', ''pcm_s16le'', ''-ar'', ''44100'', ''-ac'', ''1'',
                ''-avoid_negative_ts'', ''make_zero'', ''-y'', ''/tmp/processed.wav'']],
        files := [(''/tmp/processed.wav'', ''data''), (''/tmp/raw.mp4'', ''v''),
                  (''/tmp/raw.wav'', ''a'')]\<rparr>)"
    using T2
    by (simp add: pjoin_def fs_write_def fs_remove_def FLASH_SCREEN_SLEEP_TIME_def behind_env_def)
  have 3: "syncAndMergeFiles aligned_env demo_state =
     finishMerge aligned_env (56 / 5)
       (demo_state\<lparr>trace := [CalculateVideoOffset ''/tmp/raw.wav'' ''/tmp/raw.mp4''],
        files := [(''/tmp/processed.wav'', ''a''), (''/tmp/raw.mp4'', ''v''),
                  (''/tmp/raw.wav'', ''a'')]\<rparr>)"
    using T3
    by (simp add: pjoin_def fs_write_def fs_remove_def FLASH_SCREEN_SLEEP_TIME_def aligned_env_def)
  have 4: "syncAndMergeFiles aligned_env ?d = (Inl (ENOENT ''/tmp/processed.wav''), ?d2)"
    using T4 by (simp add: pjoin_def aligned_env_def)
  from 1 2 3 4 show ?thesis by blast
qed
section \<open>Chunks\<close>

subsection \<open>Decimal numbers and the names of the segments\<close>

lemma digit_inj: "i < 10 \<Longrightarrow> j < 10 \<Longrightarrow> digit i = digit j \<Longrightarrow> i = j"
proof -
  assume a: "i < 10" "j < 10" "digit i = digit j"
  have d: "distinct ''0123456789''" by simp
  have l: "length ''0123456789'' = 10" by simp
  from a(3) have "''0123456789'' ! i = ''0123456789'' ! j" by (simp only: digit_def)
  with nth_eq_iff_index_eq[OF d, of i j] a(1,2) l show "i = j" by simp
qed

lemma digit_no_slash: "k < 10 \<Longrightarrow> digit k \<noteq> CHR ''/''"
proof -
  assume "k < 10"
  then have "digit k \<in> set ''0123456789''" unfolding digit_def by (intro nth_mem) simp
  then show ?thesis by auto
qed

lemma decimal_nonempty: "decimal n \<noteq> []"
  by (subst decimal.simps) simp

lemma decimal_no_slash: "CHR ''/'' \<notin> set (decimal n)"
proof (induction n rule: decimal.induct)
  case (1 n)
  show ?case
  proof (cases "n < 10")
    case True
    then show ?thesis using digit_no_slash[of n] by (subst decimal.simps) auto
  next
    case False
    have "n mod 10 < 10" by simp
    from digit_no_slash[OF this] 1[OF False] False show ?thesis
      by (subst decimal.simps) auto
  qed
qed

lemma decimal_inj: "decimal n = decimal m \<Longrightarrow> n = m"
proof (induction n arbitrary: m rule: decimal.induct)
  case (1 n)
  show ?case
  proof (cases "n < 10")
    case n: True
    then have dn: "decimal n = [digit n]" by (subst decimal.simps) simp
    show ?thesis
    proof (cases "m < 10")
      case True
      then have "decimal m = [digit m]" by (subst decimal.simps) simp
      with dn 1(2) have "digit n = digit m" by simp
      from digit_inj[OF n True this] show ?thesis .
    next
      case False
      then have "decimal m = decimal (m div 10) @ [digit (m mod 10)]"
        by (subst decimal.simps) simp
      with dn 1(2) decimal_nonempty[of "m div 10"] show ?thesis by (cases "decimal (m div 10)") auto
    qed
  next
    case n: False
    then have dn: "decimal n = decimal (n div 10) @ [digit (n mod 10)]"
      by (subst decimal.simps) simp
    show ?thesis
    proof (cases "m < 10")
      case True
      then have "decimal m = [digit m]" by (subst decimal.simps) simp
      with dn 1(2) decimal_nonempty[of "n div 10"] show ?thesis by (cases "decimal (n div 10)") auto
    next
      case False
      then have "decimal m = decimal (m div 10) @ [digit (m mod 10)]"
        by (subst decimal.simps) simp
      with dn 1(2) have e: "decimal (n div 10) = decimal (m div 10)"
        "digit (n mod 10) = digit (m mod 10)" by simp_all
      from 1(1)[OF n e(1)] have q: "n div 10 = m div 10" .
      have "n mod 10 < 10" "m mod 10 < 10" by simp_all
      from digit_inj[OF this e(2)] have r: "n mod 10 = m mod 10" .
      from q r show ?thesis by (metis div_mult_mod_eq)
    qed
  qed
qed

lemma distinct_segment_names: "distinct (segment_names prefix n)"
  unfolding segment_names_def
  by (auto simp add: distinct_map intro!: inj_onI dest: decimal_inj)

lemma length_segment_names [simp]: "length (segment_names prefix n) = n"
  by (simp add: segment_names_def)

lemma segment_name_is_chunk:
  assumes "name \<in> set (segment_names prefix n)" "CHR ''/'' \<notin> set prefix"
  shows "isChunkFile prefix name" "name \<noteq> []" "CHR ''/'' \<notin> set name"
  using assms decimal_no_slash
  by (auto simp add: segment_names_def isChunkFile_def startsWith_def endsWith_def)

subsection \<open>The listing of a directory\<close>

lemma set_entry_of:
  "set (entry_of dir p) = {name. p = pjoin dir name \<and> name \<noteq> [] \<and> CHR ''/'' \<notin> set name}"
proof -
  have "startsWith p (dir @ ''/'') \<longleftrightarrow> p = dir @ ''/'' @ drop (length (dir @ ''/'')) p"
    unfolding startsWith_def by (metis append_take_drop_id append.assoc append_eq_conv_conj)
  then show ?thesis
    by (auto simp add: entry_of_def Let_def pjoin_def)
qed

lemma set_entries:
  "set (entries dir fs) =
     {name. name \<noteq> [] \<and> CHR ''/'' \<notin> set name \<and> pjoin dir name \<in> dom (map_of fs)}"
  by (force simp add: entries_def set_entry_of dom_map_of_conv_image_fst image_iff)

lemma pjoin_inj: "pjoin dir a = pjoin dir b \<Longrightarrow> a = b"
  by (simp add: pjoin_def)

text \<open>
  The chunk files in the directory once the ideal muxer has run there, none being there
  before: the segments, each once.
\<close>

lemma chunk_listing:
  assumes cut: "dom (map_of fs') = dom (map_of fs) \<union> set (map (pjoin dir) (segment_names prefix n))"
      and clean: "filter (isChunkFile prefix) (entries dir fs) = []"
      and noslash: "CHR ''/'' \<notin> set prefix"
  shows "set (filter (isChunkFile prefix) (entries dir fs')) = set (segment_names prefix n)"
    and "length (filter (isChunkFile prefix) (entries dir fs')) = n"
proof -
  show s: "set (filter (isChunkFile prefix) (entries dir fs')) = set (segment_names prefix n)"
  proof (intro equalityI subsetI)
    fix name
    assume "name \<in> set (filter (isChunkFile prefix) (entries dir fs'))"
    then have c: "isChunkFile prefix name" and e: "name \<noteq> []" "CHR ''/'' \<notin> set name"
      and d: "pjoin dir name \<in> dom (map_of fs')"
      by (simp_all add: set_entries)
    from d cut have "pjoin dir name \<in> dom (map_of fs)
        \<or> pjoin dir name \<in> set (map (pjoin dir) (segment_names prefix n))" by simp
    then show "name \<in> set (segment_names prefix n)"
    proof
      assume "pjoin dir name \<in> dom (map_of fs)"
      with c e have "name \<in> set (filter (isChunkFile prefix) (entries dir fs))"
        by (simp add: set_entries)
      with clean show ?thesis by simp
    next
      assume "pjoin dir name \<in> set (map (pjoin dir) (segment_names prefix n))"
      then show ?thesis by (auto dest: pjoin_inj)
    qed
  next
    fix name
    assume a: "name \<in> set (segment_names prefix n)"
    then have "pjoin dir name \<in> dom (map_of fs')" unfolding cut by simp
    with segment_name_is_chunk[OF a noslash]
    show "name \<in> set (filter (isChunkFile prefix) (entries dir fs'))"
      by (simp add: set_entries)
  qed
  have "distinct (filter (isChunkFile prefix) (entries dir fs'))"
    by (simp add: entries_def)
  then have "length (filter (isChunkFile prefix) (entries dir fs'))
      = card (set (filter (isChunkFile prefix) (entries dir fs')))"
    by (rule distinct_card[symmetric])
  also have "\<dots> = card (set (segment_names prefix n))" by (simp only: s)
  also have "\<dots> = n"
    using distinct_card[OF distinct_segment_names[of prefix n]] by simp
  finally show "length (filter (isChunkFile prefix) (entries dir fs')) = n" .
qed

lemma hour_segments:
  assumes "0 < d"
  shows "nat \<lceil>d / min d TRANSCRIPTION_CHUNK_DURATION\<rceil> = nat \<lceil>d / 3600\<rceil>"
proof (cases "d \<le> 3600")
  case True
  then have m: "min d TRANSCRIPTION_CHUNK_DURATION = d" by (simp add: TRANSCRIPTION_CHUNK_DURATION_def)
  have "0 < d / 3600" "d / 3600 \<le> 1" using assms True by simp_all
  then have "\<lceil>d / 3600\<rceil> = 1" by (simp add: ceiling_eq_iff)
  then show ?thesis using assms by (simp add: m)
next
  case False
  then have m: "min d TRANSCRIPTION_CHUNK_DURATION = 3600" by (simp add: TRANSCRIPTION_CHUNK_DURATION_def)
  show ?thesis by (simp add: m)
qed

lemma uploadAudioChunks_files:
  "files (snd (uploadAudioChunks env chunksDir botUuid s)) = files s"
proof (cases "uploaderPresent env \<and> chunksDir \<in> set (dirs s)")
  case True
  then show ?thesis by (simp add: uploadAudioChunks_run)
next
  case False
  then show ?thesis
    by (auto simp add: uploadAudioChunks_def readdirSync_def bnd_apply)
qed

text \<open>\<^verbatim>\<open>createAudioChunks\<close> with the flag set, once the duration is probed.\<close>

lemma createAudioChunks_run:
  assumes "speech_to_text_provider env"
      and "ffprobe_run env (durationArgs audioPath) = (Close (Some 0), out)"
  shows "createAudioChunks env audioPath s =
     (case ffmpeg_exit env
             (segmentArgs env audioPath (min (parseFloat env (trim out)) TRANSCRIPTION_CHUNK_DURATION)
                (pjoin (audioTmpPath env) (bot_uuid env @ ''-%d.wav''))) of
        Close code \<Rightarrow>
          if code = Some 0 then
            uploadAudioChunks env (audioTmpPath env) (bot_uuid env)
              (s\<lparr>dirs := (if exists_in s (audioTmpPath env) then dirs s
                          else audioTmpPath env # dirs s),
                 trace := trace s @
                   [RunFFprobe (durationArgs audioPath),
                    RunFFmpeg (segmentArgs env audioPath
                      (min (parseFloat env (trim out)) TRANSCRIPTION_CHUNK_DURATION)
                      (pjoin (audioTmpPath env) (bot_uuid env @ ''-%d.wav'')))],
                 files := ffmpeg_files env
                   (segmentArgs env audioPath
                      (min (parseFloat env (trim out)) TRANSCRIPTION_CHUNK_DURATION)
                      (pjoin (audioTmpPath env) (bot_uuid env @ ''-%d.wav''))) (files s)\<rparr>)
          else
            (Inl (FFmpegFailed code),
             s\<lparr>dirs := (if exists_in s (audioTmpPath env) then dirs s
                          else audioTmpPath env # dirs s),
                 trace := trace s @
                   [RunFFprobe (durationArgs audioPath),
                    RunFFmpeg (segmentArgs env audioPath
                      (min (parseFloat env (trim out)) TRANSCRIPTION_CHUNK_DURATION)
                      (pjoin (audioTmpPath env) (bot_uuid env @ ''-%d.wav'')))],
                 files := ffmpeg_files env
                   (segmentArgs env audioPath
                      (min (parseFloat env (trim out)) TRANSCRIPTION_CHUNK_DURATION)
                      (pjoin (audioTmpPath env) (bot_uuid env @ ''-%d.wav''))) (files s)\<rparr>)
      | ProcError \<Rightarrow>
            (Inl SpawnError,
             s\<lparr>dirs := (if exists_in s (audioTmpPath env) then dirs s
                          else audioTmpPath env # dirs s),
                 trace := trace s @
                   [RunFFprobe (durationArgs audioPath),
                    RunFFmpeg (segmentArgs env audioPath
                      (min (parseFloat env (trim out)) TRANSCRIPTION_CHUNK_DURATION)
                      (pjoin (audioTmpPath env) (bot_uuid env @ ''-%d.wav'')))],
                 files := ffmpeg_files env
                   (segmentArgs env audioPath
                      (min (parseFloat env (trim out)) TRANSCRIPTION_CHUNK_DURATION)
                      (pjoin (audioTmpPath env) (bot_uuid env @ ''-%d.wav''))) (files s)\<rparr>))"
  using assms
  by (simp add: createAudioChunks_def Let_def existsSync_def mkdirSync_def getDuration_def
      runFFprobe_def runFFmpeg_run bnd_apply split: proc_end.splits)

lemma createAudioChunks_count:
  assumes "speech_to_text_provider env"
      and "ffprobe_run env (durationArgs audioPath) = (Close (Some 0), out)"
      and "0 < parseFloat env (trim out)"
      and "ffmpeg_exit env
             (segmentArgs env audioPath (min (parseFloat env (trim out)) TRANSCRIPTION_CHUNK_DURATION)
                (pjoin (audioTmpPath env) (bot_uuid env @ ''-%d.wav''))) = Close (Some 0)"
      and "cuts_every env audioPath (parseFloat env (trim out))
             (min (parseFloat env (trim out)) TRANSCRIPTION_CHUNK_DURATION)
             (audioTmpPath env) (bot_uuid env) (files s)"
      and "filter (isChunkFile (bot_uuid env)) (entries (audioTmpPath env) (files s)) = []"
      and "CHR ''/'' \<notin> set (bot_uuid env)"
  shows "set (filter (isChunkFile (bot_uuid env))
                (entries (audioTmpPath env) (files (snd (createAudioChunks env audioPath s)))))
           = set (segment_names (bot_uuid env) (nat \<lceil>parseFloat env (trim out) / 3600\<rceil>))"
    and "length (filter (isChunkFile (bot_uuid env))
                (entries (audioTmpPath env) (files (snd (createAudioChunks env audioPath s)))))
           = nat \<lceil>parseFloat env (trim out) / 3600\<rceil>"
proof -
  let ?d = "parseFloat env (trim out)"
  let ?seg = "segmentArgs env audioPath (min ?d TRANSCRIPTION_CHUNK_DURATION)
                (pjoin (audioTmpPath env) (bot_uuid env @ ''-%d.wav''))"
  have f: "files (snd (createAudioChunks env audioPath s)) = ffmpeg_files env ?seg (files s)"
    by (simp add: createAudioChunks_run[OF assms(1,2)] assms(4) uploadAudioChunks_files)
  from assms(5) have cut: "dom (map_of (ffmpeg_files env ?seg (files s)))
      = dom (map_of (files s))
        \<union> set (map (pjoin (audioTmpPath env))
                 (segment_names (bot_uuid env) (nat \<lceil>?d / 3600\<rceil>)))"
    unfolding cuts_every_def hour_segments[OF assms(3)] .
  from chunk_listing[OF cut assms(6,7)]
  show "set (filter (isChunkFile (bot_uuid env))
                (entries (audioTmpPath env) (files (snd (createAudioChunks env audioPath s)))))
           = set (segment_names (bot_uuid env) (nat \<lceil>?d / 3600\<rceil>))"
    and "length (filter (isChunkFile (bot_uuid env))
                (entries (audioTmpPath env) (files (snd (createAudioChunks env audioPath s)))))
           = nat \<lceil>?d / 3600\<rceil>"
    unfolding f by simp_all
qed

text \<open>
  Claim C7. Without the transcription provider flag nothing is done. With it, once the
  duration \<open>d\<close> of the final audio is probed, the chunks directory is made if it is not
  there, the segment muxer is run with \<open>segment_time = min d 3600\<close> on the pattern
  \<open><chunks>/<botUuid>-%d.wav\<close>, a failure of the run is thrown, and after a run that
  succeeds the chunks are uploaded. What the run leaves in the directory is up to the media
  tool: when \<open>d > 0\<close> and the tool cuts every \<open>segment_time\<close> seconds, no chunk being
  there before, the chunk files of the directory are \<open><botUuid>-<i>.wav\<close> for the
  \<open>i\<close> below \<open>\<lceil>d / 3600\<rceil>\<close>, that many files.
\<close>

theorem chunking:
  "(\<not> speech_to_text_provider env \<longrightarrow> createAudioChunks env audioPath s = (Inr (), s))
   \<and> (speech_to_text_provider env
        \<and> ffprobe_run env (durationArgs audioPath) = (Close (Some 0), out)
      \<longrightarrow>
       (let d = parseFloat env (trim out);
            chunksDir = audioTmpPath env;
            segmentRun =
              [''-i'', audioPath, ''-acodec'', ''pcm_s16le'', ''-ac'', ''1'', ''-ar'', ''44100'',
               ''-f'', ''segment'', ''-segment_time'', numStr env (min d 3600),
               ''-segment_format'', ''wav'', ''-y'', pjoin chunksDir (bot_uuid env @ ''-%d.wav'')];
            s1 = s\<lparr>dirs := (if exists_in s chunksDir then dirs s else chunksDir # dirs s),
                   trace := trace s @ [RunFFprobe (durationArgs audioPath), RunFFmpeg segmentRun],
                   files := ffmpeg_files env segmentRun (files s)\<rparr>;
            chunks = filter (isChunkFile (bot_uuid env))
                       (entries chunksDir (files (snd (createAudioChunks env audioPath s))))
        in createAudioChunks env audioPath s =
             (case ffmpeg_exit env segmentRun of
                Close code \<Rightarrow>
                  if code = Some 0 then uploadAudioChunks env chunksDir (bot_uuid env) s1
                  else (Inl (FFmpegFailed code), s1)
              | ProcError \<Rightarrow> (Inl SpawnError, s1))
           \<and> (0 < d \<and> ffmpeg_exit env segmentRun = Close (Some 0)
                \<and> cuts_every env audioPath d (min d 3600) chunksDir (bot_uuid env) (files s)
                \<and> filter (isChunkFile (bot_uuid env)) (entries chunksDir (files s)) = []
                \<and> CHR ''/'' \<notin> set (bot_uuid env)
              \<longrightarrow> set chunks = set (segment_names (bot_uuid env) (nat \<lceil>d / 3600\<rceil>))
                \<and> length chunks = nat \<lceil>d / 3600\<rceil>)))"
proof (intro conjI impI)
  assume "\<not> speech_to_text_provider env"
  then show "createAudioChunks env audioPath s = (Inr (), s)"
    by (simp add: createAudioChunks_def)
next
  assume "speech_to_text_provider env
        \<and> ffprobe_run env (durationArgs audioPath) = (Close (Some 0), out)"
  then have a: "speech_to_text_provider env"
    "ffprobe_run env (durationArgs audioPath) = (Close (Some 0), out)" by simp_all
  note R = createAudioChunks_run[OF a, of s, unfolded segmentArgs_def AUDIO_SAMPLE_RATE_def
             TRANSCRIPTION_CHUNK_DURATION_def]
  note C = createAudioChunks_count[OF a, of s, unfolded segmentArgs_def AUDIO_SAMPLE_RATE_def
             TRANSCRIPTION_CHUNK_DURATION_def cuts_every_def]
  show "let d = parseFloat env (trim out);
            chunksDir = audioTmpPath env;
            segmentRun =
              [''-i'', audioPath, ''-acodec'', ''pcm_s16le'', ''-ac'', ''1'', ''-ar'', ''44100'',
               ''-f'', ''segment'', ''-segment_time'', numStr env (min d 3600),
               ''-segment_format'', ''wav'', ''-y'', pjoin chunksDir (bot_uuid env @ ''-%d.wav'')];
            s1 = s\<lparr>dirs := (if exists_in s chunksDir then dirs s else chunksDir # dirs s),
                   trace := trace s @ [RunFFprobe (durationArgs audioPath), RunFFmpeg segmentRun],
                   files := ffmpeg_files env segmentRun (files s)\<rparr>;
            chunks = filter (isChunkFile (bot_uuid env))
                       (entries chunksDir (files (snd (createAudioChunks env audioPath s))))
        in createAudioChunks env audioPath s =
             (case ffmpeg_exit env segmentRun of
                Close code \<Rightarrow>
                  if code = Some 0 then uploadAudioChunks env chunksDir (bot_uuid env) s1
                  else (Inl (FFmpegFailed code), s1)
              | ProcError \<Rightarrow> (Inl SpawnError, s1))
           \<and> (0 < d \<and> ffmpeg_exit env segmentRun = Close (Some 0)
                \<and> cuts_every env audioPath d (min d 3600) chunksDir (bot_uuid env) (files s)
                \<and> filter (isChunkFile (bot_uuid env)) (entries chunksDir (files s)) = []
                \<and> CHR ''/'' \<notin> set (bot_uuid env)
              \<longrightarrow> set chunks = set (segment_names (bot_uuid env) (nat \<lceil>d / 3600\<rceil>))
                \<and> length chunks = nat \<lceil>d / 3600\<rceil>)"
    unfolding Let_def
  proof (intro conjI impI)
    show "createAudioChunks env audioPath s =
       (case ffmpeg_exit env
               [''-i'', audioPath, ''-acodec'', ''pcm_s16le'', ''-ac'', ''1'', ''-ar'', ''44100'',
                ''-f'', ''segment'', ''-segment_time'', numStr env (min (parseFloat env (trim out)) 3600),
                ''-segment_format'', ''wav'', ''-y'',
                pjoin (audioTmpPath env) (bot_uuid env @ ''-%d.wav'')] of
          Close code \<Rightarrow>
            if code = Some 0 then
              uploadAudioChunks env (audioTmpPath env) (bot_uuid env)
                (s\<lparr>dirs := (if exists_in s (audioTmpPath env) then dirs s
                            else audioTmpPath env # dirs s),
                   trace := trace s @
                     [RunFFprobe (durationArgs audioPath),
                      RunFFmpeg
                        [''-i'', audioPath, ''-acodec'', ''pcm_s16le'', ''-ac'', ''1'', ''-ar'', ''44100'',
                         ''-f'', ''segment'', ''-segment_time'',
                         numStr env (min (parseFloat env (trim out)) 3600),
                         ''-segment_format'', ''wav'', ''-y'',
                         pjoin (audioTmpPath env) (bot_uuid env @ ''-%d.wav'')]],
                   files := ffmpeg_files env
                     [''-i'', audioPath, ''-acodec'', ''pcm_s16le'', ''-ac'', ''1'', ''-ar'', ''44100'',
                      ''-f'', ''segment'', ''-segment_time'',
                      numStr env (min (parseFloat env (trim out)) 3600),
                      ''-segment_format'', ''wav'', ''-y'',
                      pjoin (audioTmpPath env) (bot_uuid env @ ''-%d.wav'')] (files s)\<rparr>)
            else
              (Inl (FFmpegFailed code),
               s\<lparr>dirs := (if exists_in s (audioTmpPath env) then dirs s
                            else audioTmpPath env # dirs s),
                   trace := trace s @
                     [RunFFprobe (durationArgs audioPath),
                      RunFFmpeg
                        [''-i'', audioPath, ''-acodec'', ''pcm_s16le'', ''-ac'', ''1'', ''-ar'', ''44100'',
                         ''-f'', ''segment'', ''-segment_time'',
                         numStr env (min (parseFloat env (trim out)) 3600),
                         ''-segment_format'', ''wav'', ''-y'',
                         pjoin (audioTmpPath env) (bot_uuid env @ ''-%d.wav'')]],
                   files := ffmpeg_files env
                     [''-i'', audioPath, ''-acodec'', ''pcm_s16le'', ''-ac'', ''1'', ''-ar'', ''44100'',
                      ''-f'', ''segment'', ''-segment_time'',
                      numStr env (min (parseFloat env (trim out)) 3600),
                      ''-segment_format'', ''wav'', ''-y'',
                      pjoin (audioTmpPath env) (bot_uuid env @ ''-%d.wav'')] (files s)\<rparr>)
        | ProcError \<Rightarrow>
              (Inl SpawnError,
               s\<lparr>dirs := (if exists_in s (audioTmpPath env) then dirs s
                            else audioTmpPath env # dirs s),
                   trace := trace s @
                     [RunFFprobe (durationArgs audioPath),
                      RunFFmpeg
                        [''-i'', audioPath, ''-acodec'', ''pcm_s16le'', ''-ac'', ''1'', ''-ar'', ''44100'',
                         ''-f'', ''segment'', ''-segment_time'',
                         numStr env (min (parseFloat env (trim out)) 3600),
                         ''-segment_format'', ''wav'', ''-y'',
                         pjoin (audioTmpPath env) (bot_uuid env @ ''-%d.wav'')]],
                   files := ffmpeg_files env
                     [''-i'', audioPath, ''-acodec'', ''pcm_s16le'', ''-ac'', ''1'', ''-ar'', ''44100'',
                      ''-f'', ''segment'', ''-segment_time'',
                      numStr env (min (parseFloat env (trim out)) 3600),
                      ''-segment_format'', ''wav'', ''-y'',
                      pjoin (audioTmpPath env) (bot_uuid env @ ''-%d.wav'')] (files s)\<rparr>))"
      using R by simp
  next
    assume h: "0 < parseFloat env (trim out)
       \<and> ffmpeg_exit env
            [''-i'', audioPath, ''-acodec'', ''pcm_s16le'', ''-ac'', ''1'', ''-ar'', ''44100'',
             ''-f'', ''segment'', ''-segment_time'', numStr env (min (parseFloat env (trim out)) 3600),
             ''-segment_format'', ''wav'', ''-y'',
             pjoin (audioTmpPath env) (bot_uuid env @ ''-%d.wav'')] = Close (Some 0)
       \<and> cuts_every env audioPath (parseFloat env (trim out))
            (min (parseFloat env (trim out)) 3600) (audioTmpPath env) (bot_uuid env) (files s)
       \<and> filter (isChunkFile (bot_uuid env)) (entries (audioTmpPath env) (files s)) = []
       \<and> CHR ''/'' \<notin> set (bot_uuid env)"
    then have h1: "0 < parseFloat env (trim out)"
      and h4: "filter (isChunkFile (bot_uuid env)) (entries (audioTmpPath env) (files s)) = []"
      and h5: "CHR ''/'' \<notin> set (bot_uuid env)" by simp_all
    from h have h2: "ffmpeg_exit env
            ([''-i'', audioPath, ''-acodec'', ''pcm_s16le'', ''-ac'', ''1'', ''-ar'', ''44100'',
             ''-f'', ''segment'', ''-segment_time'', numStr env (min (parseFloat env (trim out)) 3600),
             ''-segment_format'', ''wav'', ''-y'',
             pjoin (audioTmpPath env) (bot_uuid env @ ''-%d.wav'')]) = Close (Some 0)" by simp
    from h have h3: "dom (map_of (ffmpeg_files env
            [''-i'', audioPath, ''-acodec'', ''pcm_s16le'', ''-ac'', ''1'', ''-ar'', ''44100'',
             ''-f'', ''segment'', ''-segment_time'', numStr env (min (parseFloat env (trim out)) 3600),
             ''-segment_format'', ''wav'', ''-y'',
             pjoin (audioTmpPath env) (bot_uuid env @ ''-%d.wav'')] (files s)))
         = dom (map_of (files s))
           \<union> set (map (pjoin (audioTmpPath env))
                    (segment_names (bot_uuid env)
                       (nat \<lceil>parseFloat env (trim out) / min (parseFloat env (trim out)) 3600\<rceil>)))"
      by (simp add: cuts_every_def segmentArgs_def AUDIO_SAMPLE_RATE_def)
    note C' = C[OF h1 h2 h3 h4 h5]
    from C'(1)
    show "set (filter (isChunkFile (bot_uuid env))
               (entries (audioTmpPath env) (files (snd (createAudioChunks env audioPath s)))))
          = set (segment_names (bot_uuid env) (nat \<lceil>parseFloat env (trim out) / 3600\<rceil>))" .
    from C'(2)
    show "length (filter (isChunkFile (bot_uuid env))
               (entries (audioTmpPath env) (files (snd (createAudioChunks env audioPath s)))))
          = nat \<lceil>parseFloat env (trim out) / 3600\<rceil>" .
  qed
qed

lemma long_env_simps [simp]:
  "speech_to_text_provider long_env = True"
  "bot_uuid long_env = ''bot''"
  "audioTmpPath long_env = ''/chunks''"
  "ffmpeg_exit long_env args = Close (Some 0)"
  "ffprobe_run long_env args = (Close (Some 0), ''9000'' @ [CHR 0x0A])"
  "numStr long_env x = (if x = 3600 then ''3600'' else ''n'')"
  "parseFloat long_env str = (if str = ''9000'' then 9000 else 0)"
  "ffmpeg_files long_env args fs =
     (if last args = ''/chunks/bot-%d.wav'' then
        fs_write ''/chunks/bot-0.wav'' ''pcm''
          (fs_write ''/chunks/bot-1.wav'' ''pcm'' (fs_write ''/chunks/bot-2.wav'' ''pcm'' fs))
      else fs_write (last args) ''data'' fs)"
  by (simp_all add: long_env_def)

lemma three_segment_names:
  "segment_names ''bot'' 3 = [''bot-0.wav'', ''bot-1.wav'', ''bot-2.wav'']"
proof -
  have u: "[0..<3] = [0, Suc 0, Suc (Suc 0)]" by (simp add: numeral_3_eq_3 upt_rec)
  have d: "decimal 0 = ''0''" "decimal (Suc 0) = ''1''" "decimal (Suc (Suc 0)) = ''2''"
    by (simp_all add: decimal.simps[of 0] decimal.simps[of "Suc 0"]
          decimal.simps[of "Suc (Suc 0)"] digit_def)
  show ?thesis unfolding segment_names_def u by (simp add: d)
qed

lemma long_duration: "parseFloat long_env (trim (''9000'' @ [CHR 0x0A])) = 9000"
  by (simp add: trim_def isSpace_def)

lemma long_segments: "nat \<lceil>(9000::real) / 3600\<rceil> = 3"
proof -
  have "\<lceil>(5::real) / 2\<rceil> = 3" by (simp add: ceiling_eq_iff)
  then show ?thesis by simp
qed

lemma long_cuts:
  "cuts_every long_env ''/out/id.wav'' 9000 3600 ''/chunks'' ''bot'' (files demo_state)"
  unfolding cuts_every_def long_segments three_segment_names
  by (auto simp add: segmentArgs_def pjoin_def map_of_fs_write dom_def)

theorem chunking_witness:
  "createAudioChunks (long_env\<lparr>speech_to_text_provider := False\<rparr>) ''/out/id.wav'' demo_state
     = (Inr (), demo_state)
   \<and> createAudioChunks long_env ''/out/id.wav'' demo_state =
       uploadAudioChunks long_env ''/chunks'' ''bot''
         (demo_state\<lparr>dirs := [''/chunks'', ''/tmp'', ''/out''],
            trace :=
              [RunFFprobe [''-v'', ''quiet'', ''-show_entries'', ''format=duration'', ''-of'',
                           ''csv=p=0'', ''/out/id.wav''],
               RunFFmpeg [''-i'', ''/out/id.wav'', ''-acodec'', ''pcm_s16le'', ''-ac'', ''1'',
                          ''-ar'', ''44100'', ''-f'', ''segment'', ''-segment_time'', ''3600'',
                          ''-segment_format'', ''wav'', ''-y'', ''/chunks/bot-%d.wav'']],
            files := [(''/chunks/bot-0.wav'', ''pcm''), (''/chunks/bot-1.wav'', ''pcm''),
                      (''/chunks/bot-2.wav'', ''pcm''), (''/tmp/raw.mp4'', ''v''),
                      (''/tmp/raw.wav'', ''a'')]\<rparr>)
   \<and> set (filter (isChunkFile ''bot'')
            (entries ''/chunks'' (files (snd (createAudioChunks long_env ''/out/id.wav'' demo_state)))))
       = {''bot-0.wav'', ''bot-1.wav'', ''bot-2.wav''}
   \<and> length (filter (isChunkFile ''bot'')
            (entries ''/chunks'' (files (snd (createAudioChunks long_env ''/out/id.wav'' demo_state)))))
       = 3"
proof -
  have 1: "createAudioChunks (long_env\<lparr>speech_to_text_provider := False\<rparr>) ''/out/id.wav'' demo_state
     = (Inr (), demo_state)"
    using chunking [of "long_env\<lparr>speech_to_text_provider := False\<rparr>" "''/out/id.wav''" demo_state]
    by simp
  have p: "speech_to_text_provider long_env
        \<and> ffprobe_run long_env (durationArgs ''/out/id.wav'') = (Close (Some 0), ''9000'' @ [CHR 0x0A])"
    by simp
  note T = chunking [where env = long_env and audioPath = "''/out/id.wav''" and s = demo_state
             and out = "''9000'' @ [CHR 0x0A]", THEN conjunct2, rule_format, OF p,
             unfolded Let_def long_duration]
  have m: "min (9000::real) 3600 = 3600" by simp
  have clean: "filter (isChunkFile ''bot'') (entries ''/chunks'' (files demo_state)) = []"
    by (simp add: entries_def entry_of_def startsWith_def)
  from T[THEN conjunct1]
  have 2: "createAudioChunks long_env ''/out/id.wav'' demo_state =
       uploadAudioChunks long_env ''/chunks'' ''bot''
         (demo_state\<lparr>dirs := [''/chunks'', ''/tmp'', ''/out''],
            trace :=
              [RunFFprobe [''-v'', ''quiet'', ''-show_entries'', ''format=duration'', ''-of'',
                           ''csv=p=0'', ''/out/id.wav''],
               RunFFmpeg [''-i'', ''/out/id.wav'', ''-acodec'', ''pcm_s16le'', ''-ac'', ''1'',
                          ''-ar'', ''44100'', ''-f'', ''segment'', ''-segment_time'', ''3600'',
                          ''-segment_format'', ''wav'', ''-y'', ''/chunks/bot-%d.wav'']],
            files := [(''/chunks/bot-0.wav'', ''pcm''), (''/chunks/bot-1.wav'', ''pcm''),
                      (''/chunks/bot-2.wav'', ''pcm''), (''/tmp/raw.mp4'', ''v''),
                      (''/tmp/raw.wav'', ''a'')]\<rparr>)"
    by (simp add: m durationArgs_def pjoin_def exists_in_def fs_write_def fs_remove_def)
  have h: "0 < (9000::real)
       \<and> ffmpeg_exit long_env
            [''-i'', ''/out/id.wav'', ''-acodec'', ''pcm_s16le'', ''-ac'', ''1'', ''-ar'', ''44100'',
             ''-f'', ''segment'', ''-segment_time'', numStr long_env (min 9000 3600),
             ''-segment_format'', ''wav'', ''-y'',
             pjoin (audioTmpPath long_env) (bot_uuid long_env @ ''-%d.wav'')] = Close (Some 0)
       \<and> cuts_every long_env ''/out/id.wav'' 9000 (min 9000 3600) (audioTmpPath long_env)
            (bot_uuid long_env) (files demo_state)
       \<and> filter (isChunkFile (bot_uuid long_env)) (entries (audioTmpPath long_env) (files demo_state)) = []
       \<and> CHR ''/'' \<notin> set (bot_uuid long_env)"
    using long_cuts clean by (simp add: m)
  from T[THEN conjunct2, rule_format, OF h]
  have 3: "set (filter (isChunkFile ''bot'')
            (entries ''/chunks'' (files (snd (createAudioChunks long_env ''/out/id.wav'' demo_state)))))
       = {''bot-0.wav'', ''bot-1.wav'', ''bot-2.wav''}"
    and 4: "length (filter (isChunkFile ''bot'')
            (entries ''/chunks'' (files (snd (createAudioChunks long_env ''/out/id.wav'' demo_state)))))
       = 3"
    by (simp_all add: long_segments three_segment_names)
  from 1 2 3 4 show ?thesis by blast
qed
section \<open>Upload errors\<close>

lemma chunk_attempted:
  assumes "map_of (files s) (pjoin chunksDir f) = Some c" "c \<noteq> []"
  shows "chunk_actions env chunksDir botUuid s f =
     UploadFile (pjoin chunksDir f) (aws_s3_temporary_audio_bucket env) (botUuid @ ''/'' @ f) True
     # (case s3_upload env (pjoin chunksDir f) (aws_s3_temporary_audio_bucket env)
               (botUuid @ ''/'' @ f) of
          Some e \<Rightarrow> [Log (ChunkUploadFailed f e)] | None \<Rightarrow> [])"
  using assms by (simp add: chunk_actions_def Let_def exists_in_def)

lemma uploadToS3_audio_fails:
  assumes "\<not> filesUploaded s" "uploaderPresent env"
      and "exists_in s (audioOutputPath s)"
      and "s3_upload env (audioOutputPath s) (aws_s3_video_bucket env) (pm_identifier env @ ''.wav'') = Some e"
  shows "uploadToS3 env s =
     (Inl e, s\<lparr>trace := trace s @ [UploadFile (audioOutputPath s) (aws_s3_video_bucket env)
                                      (pm_identifier env @ ''.wav'') False]\<rparr>)"
  using assms
  by (simp add: uploadToS3_def Let_def existsSync_def uploadFile_def bnd_apply)

lemma uploadToS3_video_fails:
  assumes "\<not> filesUploaded s" "uploaderPresent env"
      and "\<not> exists_in s (audioOutputPath s)"
      and "exists_in s (outputPath s)"
      and "s3_upload env (outputPath s) (aws_s3_video_bucket env) (pm_identifier env @ ''.mp4'') = Some e"
  shows "uploadToS3 env s =
     (Inl e, s\<lparr>trace := trace s @ [UploadFile (outputPath s) (aws_s3_video_bucket env)
                                      (pm_identifier env @ ''.mp4'') False]\<rparr>)"
  using assms
  by (simp add: uploadToS3_def Let_def existsSync_def uploadFile_def bnd_apply)

lemma uploadToS3_deletes_only_uploaded:
  assumes "map_of (files s) p \<noteq> None"
      and "map_of (files (snd (uploadToS3 env s))) p = None"
  shows "(p = audioOutputPath s
            \<and> s3_upload env p (aws_s3_video_bucket env) (pm_identifier env @ ''.wav'') = None)
       \<or> (p = outputPath s
            \<and> s3_upload env p (aws_s3_video_bucket env) (pm_identifier env @ ''.mp4'') = None)"
  using assms
  by (auto simp add: uploadToS3_def Let_def existsSync_def exists_in_def uploadFile_def
        unlinkSync_def bnd_apply map_of_fs_remove
      split: if_splits option.splits)


text \<open>
  Claim C8. The chunk batch never throws and leaves the disk as it is; every chunk file
  of the listing that is there and not empty gets its upload attempted whatever happened
  to the others, and a failed upload is reported. For the final artifacts: when the upload
  of the audio (or, the audio being absent, of the video) fails, \<^verbatim>\<open>uploadToS3\<close> throws
  right after the attempt and the disk is untouched; and a file that is gone after
  \<^verbatim>\<open>uploadToS3\<close> is a final artifact whose upload has succeeded.
\<close>

theorem upload_error_policy:
  "(uploaderPresent env \<and> chunksDir \<in> set (dirs s) \<longrightarrow>
      fst (uploadAudioChunks env chunksDir botUuid s) = Inr ()
      \<and> files (snd (uploadAudioChunks env chunksDir botUuid s)) = files s
      \<and> (\<forall>f \<in> set (entries chunksDir (files s)).
            \<forall>c. isChunkFile botUuid f \<and> map_of (files s) (pjoin chunksDir f) = Some c \<and> c \<noteq> []
              \<longrightarrow> UploadFile (pjoin chunksDir f) (aws_s3_temporary_audio_bucket env)
                     (botUuid @ ''/'' @ f) True
                     \<in> set (new_actions s (snd (uploadAudioChunks env chunksDir botUuid s)))
                \<and> (\<forall>e. s3_upload env (pjoin chunksDir f) (aws_s3_temporary_audio_bucket env)
                           (botUuid @ ''/'' @ f) = Some e
                     \<longrightarrow> Log (ChunkUploadFailed f e)
                           \<in> set (new_actions s (snd (uploadAudioChunks env chunksDir botUuid s))))))
   \<and> (\<not> filesUploaded s \<and> uploaderPresent env \<and> exists_in s (audioOutputPath s)
        \<and> s3_upload env (audioOutputPath s) (aws_s3_video_bucket env)
              (pm_identifier env @ ''.wav'') = Some e
      \<longrightarrow> uploadToS3 env s =
            (Inl e, s\<lparr>trace := trace s @ [UploadFile (audioOutputPath s) (aws_s3_video_bucket env)
                                             (pm_identifier env @ ''.wav'') False]\<rparr>))
   \<and> (\<not> filesUploaded s \<and> uploaderPresent env \<and> \<not> exists_in s (audioOutputPath s)
        \<and> exists_in s (outputPath s)
        \<and> s3_upload env (outputPath s) (aws_s3_video_bucket env)
              (pm_identifier env @ ''.mp4'') = Some e
      \<longrightarrow> uploadToS3 env s =
            (Inl e, s\<lparr>trace := trace s @ [UploadFile (outputPath s) (aws_s3_video_bucket env)
                                             (pm_identifier env @ ''.mp4'') False]\<rparr>))
   \<and> (map_of (files s) p \<noteq> None \<and> map_of (files (snd (uploadToS3 env s))) p = None
      \<longrightarrow> (p = audioOutputPath s
             \<and> s3_upload env p (aws_s3_video_bucket env) (pm_identifier env @ ''.wav'') = None)
          \<or> (p = outputPath s
             \<and> s3_upload env p (aws_s3_video_bucket env) (pm_identifier env @ ''.mp4'') = None))"
proof -
  have A: "uploaderPresent env \<and> chunksDir \<in> set (dirs s) \<longrightarrow>
      fst (uploadAudioChunks env chunksDir botUuid s) = Inr ()
      \<and> files (snd (uploadAudioChunks env chunksDir botUuid s)) = files s
      \<and> (\<forall>f \<in> set (entries chunksDir (files s)).
            \<forall>c. isChunkFile botUuid f \<and> map_of (files s) (pjoin chunksDir f) = Some c \<and> c \<noteq> []
              \<longrightarrow> UploadFile (pjoin chunksDir f) (aws_s3_temporary_audio_bucket env)
                     (botUuid @ ''/'' @ f) True
                     \<in> set (new_actions s (snd (uploadAudioChunks env chunksDir botUuid s)))
                \<and> (\<forall>e. s3_upload env (pjoin chunksDir f) (aws_s3_temporary_audio_bucket env)
                           (botUuid @ ''/'' @ f) = Some e
                     \<longrightarrow> Log (ChunkUploadFailed f e)
                           \<in> set (new_actions s (snd (uploadAudioChunks env chunksDir botUuid s)))))"
  proof (intro impI)
    assume h: "uploaderPresent env \<and> chunksDir \<in> set (dirs s)"
    then have r: "uploadAudioChunks env chunksDir botUuid s =
       (Inr (), s\<lparr>trace := trace s @ concat (map (chunk_actions env chunksDir botUuid s)
                 (filter (isChunkFile botUuid) (entries chunksDir (files s))))\<rparr>)"
      by (simp add: uploadAudioChunks_run)
    have n: "new_actions s (snd (uploadAudioChunks env chunksDir botUuid s))
        = concat (map (chunk_actions env chunksDir botUuid s)
                 (filter (isChunkFile botUuid) (entries chunksDir (files s))))"
      by (simp add: r new_actions_def)
    have m: "\<And>f c. f \<in> set (entries chunksDir (files s)) \<Longrightarrow> isChunkFile botUuid f \<Longrightarrow>
        map_of (files s) (pjoin chunksDir f) = Some c \<Longrightarrow> c \<noteq> [] \<Longrightarrow>
        set (chunk_actions env chunksDir botUuid s f)
          \<subseteq> set (new_actions s (snd (uploadAudioChunks env chunksDir botUuid s)))"
      unfolding n by auto
    show "fst (uploadAudioChunks env chunksDir botUuid s) = Inr ()
      \<and> files (snd (uploadAudioChunks env chunksDir botUuid s)) = files s
      \<and> (\<forall>f \<in> set (entries chunksDir (files s)).
            \<forall>c. isChunkFile botUuid f \<and> map_of (files s) (pjoin chunksDir f) = Some c \<and> c \<noteq> []
              \<longrightarrow> UploadFile (pjoin chunksDir f) (aws_s3_temporary_audio_bucket env)
                     (botUuid @ ''/'' @ f) True
                     \<in> set (new_actions s (snd (uploadAudioChunks env chunksDir botUuid s)))
                \<and> (\<forall>e. s3_upload env (pjoin chunksDir f) (aws_s3_temporary_audio_bucket env)
                           (botUuid @ ''/'' @ f) = Some e
                     \<longrightarrow> Log (ChunkUploadFailed f e)
                           \<in> set (new_actions s (snd (uploadAudioChunks env chunksDir botUuid s)))))"
    proof (intro conjI ballI allI impI)
      show "fst (uploadAudioChunks env chunksDir botUuid s) = Inr ()" by (simp add: r)
      show "files (snd (uploadAudioChunks env chunksDir botUuid s)) = files s" by (simp add: r)
    next
      fix f c
      assume f: "f \<in> set (entries chunksDir (files s))"
        and c: "isChunkFile botUuid f \<and> map_of (files s) (pjoin chunksDir f) = Some c \<and> c \<noteq> []"
      from c have c': "map_of (files s) (pjoin chunksDir f) = Some c" "c \<noteq> []" by simp_all
      from m[OF f _ c'] c chunk_attempted[OF c', of env botUuid]
      show "UploadFile (pjoin chunksDir f) (aws_s3_temporary_audio_bucket env)
                     (botUuid @ ''/'' @ f) True
                     \<in> set (new_actions s (snd (uploadAudioChunks env chunksDir botUuid s)))"
        by auto
    next
      fix f c e
      assume f: "f \<in> set (entries chunksDir (files s))"
        and c: "isChunkFile botUuid f \<and> map_of (files s) (pjoin chunksDir f) = Some c \<and> c \<noteq> []"
        and e: "s3_upload env (pjoin chunksDir f) (aws_s3_temporary_audio_bucket env)
                           (botUuid @ ''/'' @ f) = Some e"
      from c have c': "map_of (files s) (pjoin chunksDir f) = Some c" "c \<noteq> []" by simp_all
      from m[OF f _ c'] c chunk_attempted[OF c', of env botUuid] e
      show "Log (ChunkUploadFailed f e)
                           \<in> set (new_actions s (snd (uploadAudioChunks env chunksDir botUuid s)))"
        by auto
    qed
  qed
  note B = uploadToS3_audio_fails[of s env e]
  note C = uploadToS3_video_fails[of s env e]
  note D = uploadToS3_deletes_only_uploaded[of s p env]
  from A B C D show ?thesis by blast
qed


theorem upload_error_policy_witness:
  "uploaderPresent failing_env \<and> ''/chunks'' \<in> set (dirs chunk_state)
   \<and> s3_upload failing_env ''/chunks/bot-0.wav'' ''tmp-audio'' ''bot/bot-0.wav''
        = Some (External ''upload failed'')
   \<and> fst (uploadAudioChunks failing_env ''/chunks'' ''bot'' chunk_state) = Inr ()
   \<and> Log (ChunkUploadFailed ''bot-0.wav'' (External ''upload failed''))
        \<in> set (new_actions chunk_state (snd (uploadAudioChunks failing_env ''/chunks'' ''bot'' chunk_state)))
   \<and> UploadFile ''/chunks/bot-1.wav'' ''tmp-audio'' ''bot/bot-1.wav'' True
        \<in> set (new_actions chunk_state (snd (uploadAudioChunks failing_env ''/chunks'' ''bot'' chunk_state)))
   \<and> uploadToS3 failing_env chunk_state =
        (Inl (External ''upload failed''),
         chunk_state\<lparr>trace := [UploadFile ''/out/id.wav'' ''videos'' ''id.wav'' False]\<rparr>)
   \<and> map_of (files (snd (uploadToS3 failing_env chunk_state))) ''/out/id.wav'' = Some ''w''"
proof -
  note T = upload_error_policy [where env = failing_env and s = chunk_state
             and chunksDir = "''/chunks''" and botUuid = "''bot''"
             and e = "External ''upload failed''" and p = "''/out/id.wav''"]
  have h: "uploaderPresent failing_env \<and> ''/chunks'' \<in> set (dirs chunk_state)"
    by (simp add: failing_env_def chunk_state_def)
  have en: "entries ''/chunks'' (files chunk_state) = [''bot-0.wav'', ''bot-1.wav'', ''notes.txt'']"
    by (simp add: chunk_state_def entries_def entry_of_def startsWith_def)
  have b0: "isChunkFile ''bot'' ''bot-0.wav''
        \<and> map_of (files chunk_state) (pjoin ''/chunks'' ''bot-0.wav'') = Some ''pcm'' \<and> ''pcm'' \<noteq> []"
    and b1: "isChunkFile ''bot'' ''bot-1.wav''
        \<and> map_of (files chunk_state) (pjoin ''/chunks'' ''bot-1.wav'') = Some ''pcm'' \<and> ''pcm'' \<noteq> []"
    by (simp_all add: chunk_state_def isChunkFile_def startsWith_def endsWith_def pjoin_def)
  have f0: "s3_upload failing_env (pjoin ''/chunks'' ''bot-0.wav'')
              (aws_s3_temporary_audio_bucket failing_env) (''bot'' @ ''/'' @ ''bot-0.wav'')
             = Some (External ''upload failed'')"
    by (simp add: failing_env_def pjoin_def)
  from T h have A: "fst (uploadAudioChunks failing_env ''/chunks'' ''bot'' chunk_state) = Inr ()"
    and B: "\<forall>f \<in> set (entries ''/chunks'' (files chunk_state)).
            \<forall>c. isChunkFile ''bot'' f \<and> map_of (files chunk_state) (pjoin ''/chunks'' f) = Some c \<and> c \<noteq> []
              \<longrightarrow> UploadFile (pjoin ''/chunks'' f) (aws_s3_temporary_audio_bucket failing_env)
                     (''bot'' @ ''/'' @ f) True
                     \<in> set (new_actions chunk_state (snd (uploadAudioChunks failing_env ''/chunks'' ''bot'' chunk_state)))
                \<and> (\<forall>e. s3_upload failing_env (pjoin ''/chunks'' f) (aws_s3_temporary_audio_bucket failing_env)
                           (''bot'' @ ''/'' @ f) = Some e
                     \<longrightarrow> Log (ChunkUploadFailed f e)
                           \<in> set (new_actions chunk_state (snd (uploadAudioChunks failing_env ''/chunks'' ''bot'' chunk_state))))"
    by blast+
  have m0: "''bot-0.wav'' \<in> set (entries ''/chunks'' (files chunk_state))"
    and m1: "''bot-1.wav'' \<in> set (entries ''/chunks'' (files chunk_state))"
    by (simp_all add: en)
  from B m0 b0 f0 have L: "Log (ChunkUploadFailed ''bot-0.wav'' (External ''upload failed''))
        \<in> set (new_actions chunk_state (snd (uploadAudioChunks failing_env ''/chunks'' ''bot'' chunk_state)))"
    by blast
  from B m1 b1 have U: "UploadFile (pjoin ''/chunks'' ''bot-1.wav'') (aws_s3_temporary_audio_bucket failing_env)
                     (''bot'' @ ''/'' @ ''bot-1.wav'') True
        \<in> set (new_actions chunk_state (snd (uploadAudioChunks failing_env ''/chunks'' ''bot'' chunk_state)))"
    by blast
  have U': "UploadFile ''/chunks/bot-1.wav'' ''tmp-audio'' ''bot/bot-1.wav'' True
        \<in> set (new_actions chunk_state (snd (uploadAudioChunks failing_env ''/chunks'' ''bot'' chunk_state)))"
    using U by (simp add: pjoin_def failing_env_def)
  have c: "\<not> filesUploaded chunk_state \<and> uploaderPresent failing_env
        \<and> exists_in chunk_state (audioOutputPath chunk_state)
        \<and> s3_upload failing_env (audioOutputPath chunk_state) (aws_s3_video_bucket failing_env)
              (pm_identifier failing_env @ ''.wav'') = Some (External ''upload failed'')"
    by (simp add: failing_env_def chunk_state_def exists_in_def)
  from T c have S: "uploadToS3 failing_env chunk_state =
            (Inl (External ''upload failed''),
             chunk_state\<lparr>trace := trace chunk_state @ [UploadFile (audioOutputPath chunk_state)
                (aws_s3_video_bucket failing_env) (pm_identifier failing_env @ ''.wav'') False]\<rparr>)"
    by blast
  have S': "uploadToS3 failing_env chunk_state =
        (Inl (External ''upload failed''),
         chunk_state\<lparr>trace := [UploadFile ''/out/id.wav'' ''videos'' ''id.wav'' False]\<rparr>)"
    unfolding S by (simp add: failing_env_def chunk_state_def)
  have R: "map_of (files (snd (uploadToS3 failing_env chunk_state))) ''/out/id.wav'' = Some ''w''"
    unfolding S' by (simp add: chunk_state_def)
  have f0': "s3_upload failing_env ''/chunks/bot-0.wav'' ''tmp-audio'' ''bot/bot-0.wav''
        = Some (External ''upload failed'')" by (simp add: failing_env_def)
  from h f0' A L U' S' R show ?thesis by blast
qed


end
